theory Spec2Isabelle
  imports Main
begin

section \<open>Python values, strings and the JSON codec\<close>

text \<open>
  The console (\<^verbatim>\<open>ecst-vmware.py\<close>) reads \<^verbatim>\<open>config.json\<close> with \<^verbatim>\<open>json.load\<close> and
  only ever indexes, prints or tests the truth of what it finds there. A loaded document
  is a value of \<open>pyval\<close>. A dictionary is an association list with distinct keys, in
  insertion order. Numbers are Python integers; real-number literals are outside the
  model (the decoder says so with \<open>NotModelled\<close>, it never takes them for a syntax error).
  Strings are lists of 8-bit characters, read as the code points 0 to 255.
\<close>

datatype pyval =
    PNone
  | PBool bool
  | PInt int
  | PStr string
  | PList "pyval list"
  | PDict "(string \<times> pyval) list"

subsection \<open>str.strip, str.upper, str.lower\<close>

text \<open>\<^verbatim>\<open>str.strip()\<close> removes the characters for which \<^verbatim>\<open>str.isspace()\<close> holds. Among the
  code points 0 to 255 these are 9 to 13, 28 to 32, 133 (next line) and 160 (no-break
  space). \<^verbatim>\<open>upper\<close> and \<^verbatim>\<open>lower\<close> are given on the ASCII letters, which is where every menu
  token, selector and affirmative reply of the console lies.\<close>

definition isspace :: "char \<Rightarrow> bool" where
  "isspace c =
     (let n = (of_char c :: nat)
      in (9 \<le> n \<and> n \<le> 13) \<or> (28 \<le> n \<and> n \<le> 32) \<or> n = 133 \<or> n = 160)"

definition strip :: "string \<Rightarrow> string" where
  "strip s = rev (dropWhile isspace (rev (dropWhile isspace s)))"

definition upper_char :: "char \<Rightarrow> char" where
  "upper_char c = (let n = (of_char c :: nat) in if 97 \<le> n \<and> n \<le> 122 then char_of (n - 32) else c)"

definition lower_char :: "char \<Rightarrow> char" where
  "lower_char c = (let n = (of_char c :: nat) in if 65 \<le> n \<and> n \<le> 90 then char_of (n + 32) else c)"

definition upper :: "string \<Rightarrow> string" where
  "upper s = map upper_char s"

definition lower :: "string \<Rightarrow> string" where
  "lower s = map lower_char s"

subsection \<open>json.dump with indent=2\<close>

definition digit_char :: "nat \<Rightarrow> char" where
  "digit_char n = char_of (48 + n)"

fun digits :: "nat \<Rightarrow> string" where
  "digits n = (if n < 10 then [digit_char n] else digits (n div 10) @ [digit_char (n mod 10)])"

declare digits.simps [simp del]

definition int_repr :: "int \<Rightarrow> string" where
  "int_repr i = (if i < 0 then CHR ''-'' # digits (nat (- i)) else digits (nat i))"

definition hex_char :: "nat \<Rightarrow> char" where
  "hex_char n = (if n < 10 then char_of (48 + n) else char_of (87 + n))"

text \<open>\<^verbatim>\<open>ensure_ascii\<close> is on by default: the quote, the backslash and every character
  outside the range from space to tilde are escaped.\<close>

definition escape_char :: "char \<Rightarrow> string" where
  "escape_char c =
     (if c = CHR 0x22 then [CHR 0x5C, CHR 0x22]
      else if c = CHR 0x5C then [CHR 0x5C, CHR 0x5C]
      else if c = CHR 0x0A then [CHR 0x5C, CHR ''n'']
      else if c = CHR 0x0D then [CHR 0x5C, CHR ''r'']
      else if c = CHR 0x09 then [CHR 0x5C, CHR ''t'']
      else if c = CHR 0x08 then [CHR 0x5C, CHR ''b'']
      else if c = CHR 0x0C then [CHR 0x5C, CHR ''f'']
      else if (of_char c :: nat) < 32 \<or> 126 < (of_char c :: nat)
        then [CHR 0x5C, CHR ''u'', CHR ''0'', CHR ''0'',
              hex_char ((of_char c :: nat) div 16), hex_char ((of_char c :: nat) mod 16)]
      else [c])"

definition encode_string :: "string \<Rightarrow> string" where
  "encode_string s = CHR 0x22 # concat (map escape_char s) @ [CHR 0x22]"

definition newline_indent :: "nat \<Rightarrow> string" where
  "newline_indent level = CHR 0x0A # replicate (2 * level) CHR '' ''"

fun dumps :: "nat \<Rightarrow> pyval \<Rightarrow> string"
  and dumps_items :: "nat \<Rightarrow> pyval list \<Rightarrow> string"
  and dumps_pairs :: "nat \<Rightarrow> (string \<times> pyval) list \<Rightarrow> string"
  and dumps_pair :: "nat \<Rightarrow> string \<times> pyval \<Rightarrow> string"
where
  "dumps level PNone = ''null''"
| "dumps level (PBool b) = (if b then ''true'' else ''false'')"
| "dumps level (PInt i) = int_repr i"
| "dumps level (PStr s) = encode_string s"
| "dumps level (PList xs) =
     (if xs = [] then ''[]''
      else ''['' @ newline_indent (Suc level) @ dumps_items (Suc level) xs
           @ newline_indent level @ '']'')"
| "dumps level (PDict kvs) =
     (if kvs = [] then ''{}''
      else ''{'' @ newline_indent (Suc level) @ dumps_pairs (Suc level) kvs
           @ newline_indent level @ ''}'')"
| "dumps_items level [] = []"
| "dumps_items level (x # xs) =
     (if xs = [] then dumps level x
      else dumps level x @ '','' @ newline_indent level @ dumps_items level xs)"
| "dumps_pairs level [] = []"
| "dumps_pairs level (p # ps) =
     (if ps = [] then dumps_pair level p
      else dumps_pair level p @ '','' @ newline_indent level @ dumps_pairs level ps)"
| "dumps_pair level (k, v) = encode_string k @ '': '' @ dumps level v"

definition json_dumps :: "pyval \<Rightarrow> string" where
  "json_dumps v = dumps 0 v"

subsection \<open>json.load\<close>

datatype perr = JSONDecodeError | NotModelled

definition ws :: "char \<Rightarrow> bool" where
  "ws c = (c = CHR '' '' \<or> c = CHR 0x09 \<or> c = CHR 0x0A \<or> c = CHR 0x0D)"

definition skip_ws :: "string \<Rightarrow> string" where
  "skip_ws s = dropWhile ws s"

definition is_digit :: "char \<Rightarrow> bool" where
  "is_digit c = (48 \<le> (of_char c :: nat) \<and> (of_char c :: nat) \<le> 57)"

definition digit_val :: "char \<Rightarrow> nat" where
  "digit_val c = (of_char c :: nat) - 48"

definition hex_val :: "char \<Rightarrow> nat option" where
  "hex_val c =
     (let n = (of_char c :: nat) in
      if 48 \<le> n \<and> n \<le> 57 then Some (n - 48)
      else if 97 \<le> n \<and> n \<le> 102 then Some (n - 87)
      else if 65 \<le> n \<and> n \<le> 70 then Some (n - 55)
      else None)"

text \<open>The body of a string literal, after its opening quote (\<^verbatim>\<open>py_scanstring\<close>, strict):
  a control character is an error, a backslash starts an escape. A \<^verbatim>\<open>\uXXXX\<close> escape
  above code point 255 has no 8-bit character and is \<open>NotModelled\<close>.\<close>

fun scanstring :: "string \<Rightarrow> string \<Rightarrow> perr + (string \<times> string)" where
  "scanstring acc [] = Inl JSONDecodeError"
| "scanstring acc (c # cs) =
     (if c = CHR 0x22 then Inr (rev acc, cs)
      else if (of_char c :: nat) < 32 then Inl JSONDecodeError
      else if c \<noteq> CHR 0x5C then scanstring (c # acc) cs
      else (case cs of
          [] \<Rightarrow> Inl JSONDecodeError
        | e # r \<Rightarrow>
            if e = CHR 0x22 then scanstring (CHR 0x22 # acc) r
            else if e = CHR 0x5C then scanstring (CHR 0x5C # acc) r
            else if e = CHR ''/'' then scanstring (CHR ''/'' # acc) r
            else if e = CHR ''b'' then scanstring (CHR 0x08 # acc) r
            else if e = CHR ''f'' then scanstring (CHR 0x0C # acc) r
            else if e = CHR ''n'' then scanstring (CHR 0x0A # acc) r
            else if e = CHR ''r'' then scanstring (CHR 0x0D # acc) r
            else if e = CHR ''t'' then scanstring (CHR 0x09 # acc) r
            else if e = CHR ''u'' then
              (case r of
                 h1 # h2 # h3 # h4 # r' \<Rightarrow>
                   (case (hex_val h1, hex_val h2, hex_val h3, hex_val h4) of
                      (Some a, Some b, Some c', Some d) \<Rightarrow>
                        if a = 0 \<and> b = 0 then scanstring (char_of (16 * c' + d) # acc) r'
                        else Inl NotModelled
                    | _ \<Rightarrow> Inl JSONDecodeError)
               | _ \<Rightarrow> Inl JSONDecodeError)
            else Inl JSONDecodeError))"

definition nat_of_digits :: "string \<Rightarrow> nat" where
  "nat_of_digits ds = foldl (\<lambda>n c. 10 * n + digit_val c) 0 ds"

text \<open>The integer part of \<^verbatim>\<open>NUMBER_RE\<close>, \<^verbatim>\<open>0|[1-9][0-9]*\<close>: a leading zero stands alone.\<close>

definition scan_int_part :: "string \<Rightarrow> (nat \<times> string) option" where
  "scan_int_part s =
     (case s of
        [] \<Rightarrow> None
      | c # cs \<Rightarrow>
          if c = CHR ''0'' then Some (0, cs)
          else if is_digit c then Some (nat_of_digits (takeWhile is_digit s), dropWhile is_digit s)
          else None)"

text \<open>Whether a fraction or an exponent follows the integer part: then Python builds a
  float.\<close>

definition real_suffix :: "string \<Rightarrow> bool" where
  "real_suffix r =
     (case r of
        c # d # r' \<Rightarrow>
          (c = CHR ''.'' \<and> is_digit d)
          \<or> ((c = CHR ''e'' \<or> c = CHR ''E'')
              \<and> (is_digit d
                 \<or> ((d = CHR ''+'' \<or> d = CHR ''-'') \<and> (case r' of [] \<Rightarrow> False | x # _ \<Rightarrow> is_digit x))))
      | _ \<Rightarrow> False)"

definition starts_with :: "string \<Rightarrow> string \<Rightarrow> bool" where
  "starts_with p s = (take (length p) s = p)"

definition scan_number :: "string \<Rightarrow> perr + (pyval \<times> string)" where
  "scan_number s =
     (let neg = (case s of [] \<Rightarrow> False | c # _ \<Rightarrow> c = CHR ''-'');
          body = (if neg then tl s else s)
      in case scan_int_part body of
           Some (n, r) \<Rightarrow>
             if real_suffix r then Inl NotModelled
             else Inr (PInt (if neg then - int n else int n), r)
         | None \<Rightarrow>
             if starts_with ''NaN'' s \<or> starts_with ''Infinity'' s \<or> starts_with ''-Infinity'' s
             then Inl NotModelled
             else Inl JSONDecodeError)"

text \<open>\<^verbatim>\<open>dict(pairs)\<close>: a repeated key keeps its first position and takes the last value.\<close>

fun dict_set :: "(string \<times> pyval) list \<Rightarrow> string \<Rightarrow> pyval \<Rightarrow> (string \<times> pyval) list" where
  "dict_set [] k v = [(k, v)]"
| "dict_set (p # ps) k v = (if fst p = k then (k, v) # ps else p # dict_set ps k v)"

text \<open>The recursive descent of \<^verbatim>\<open>scan_once\<close>, \<^verbatim>\<open>JSONArray\<close> and \<^verbatim>\<open>JSONObject\<close>. The first
  argument bounds the number of nested calls; running out of it is \<open>NotModelled\<close>.\<close>

fun scan_once :: "nat \<Rightarrow> string \<Rightarrow> perr + (pyval \<times> string)"
  and scan_array :: "nat \<Rightarrow> pyval list \<Rightarrow> string \<Rightarrow> perr + (pyval \<times> string)"
  and scan_object :: "nat \<Rightarrow> (string \<times> pyval) list \<Rightarrow> string \<Rightarrow> perr + (pyval \<times> string)"
where
  "scan_once 0 s = Inl NotModelled"
| "scan_once (Suc n) s =
     (case s of
        [] \<Rightarrow> Inl JSONDecodeError
      | c # r \<Rightarrow>
          if c = CHR 0x22 then
            (case scanstring [] r of Inl e \<Rightarrow> Inl e | Inr (str, r') \<Rightarrow> Inr (PStr str, r'))
          else if c = CHR ''{'' then
            (case skip_ws r of
               [] \<Rightarrow> Inl JSONDecodeError
             | d # r' \<Rightarrow>
                 if d = CHR ''}'' then Inr (PDict [], r')
                 else if d = CHR 0x22 then scan_object n [] (d # r')
                 else Inl JSONDecodeError)
          else if c = CHR ''['' then
            (case skip_ws r of
               [] \<Rightarrow> Inl JSONDecodeError
             | d # r' \<Rightarrow>
                 if d = CHR '']'' then Inr (PList [], r')
                 else scan_array n [] (d # r'))
          else if starts_with ''null'' s then Inr (PNone, drop 4 s)
          else if starts_with ''true'' s then Inr (PBool True, drop 4 s)
          else if starts_with ''false'' s then Inr (PBool False, drop 5 s)
          else scan_number s)"
| "scan_array 0 acc s = Inl NotModelled"
| "scan_array (Suc n) acc s =
     (case scan_once n s of
        Inl e \<Rightarrow> Inl e
      | Inr (v, r) \<Rightarrow>
          (case skip_ws r of
             [] \<Rightarrow> Inl JSONDecodeError
           | d # r' \<Rightarrow>
               if d = CHR '']'' then Inr (PList (acc @ [v]), r')
               else if d = CHR '','' then scan_array n (acc @ [v]) (skip_ws r')
               else Inl JSONDecodeError))"
| "scan_object 0 acc s = Inl NotModelled"
| "scan_object (Suc n) acc s =
     (case s of
        [] \<Rightarrow> Inl JSONDecodeError
      | q # s1 \<Rightarrow>
          if q \<noteq> CHR 0x22 then Inl JSONDecodeError
          else
            (case scanstring [] s1 of
               Inl e \<Rightarrow> Inl e
             | Inr (k, s2) \<Rightarrow>
                 (case skip_ws s2 of
                    [] \<Rightarrow> Inl JSONDecodeError
                  | c # s3 \<Rightarrow>
                      if c \<noteq> CHR '':'' then Inl JSONDecodeError
                      else
                        (case scan_once n (skip_ws s3) of
                           Inl e \<Rightarrow> Inl e
                         | Inr (v, s4) \<Rightarrow>
                             (case skip_ws s4 of
                                [] \<Rightarrow> Inl JSONDecodeError
                              | d # s5 \<Rightarrow>
                                  if d = CHR ''}'' then Inr (PDict (dict_set acc k v), s5)
                                  else if d = CHR '','' then scan_object n (dict_set acc k v) (skip_ws s5)
                                  else Inl JSONDecodeError)))))"

text \<open>\<^verbatim>\<open>JSONDecoder.decode\<close>: leading white space, one value, trailing white space, the end.\<close>

definition json_loads :: "string \<Rightarrow> perr + pyval" where
  "json_loads s =
     (case scan_once (Suc (length s)) (skip_ws s) of
        Inl e \<Rightarrow> Inl e
      | Inr (v, r) \<Rightarrow> if skip_ws r = [] then Inr v else Inl JSONDecodeError)"


section \<open>The console and its environment\<close>

text \<open>
  What the console writes is a list of pieces: literal text, the \<^verbatim>\<open>str()\<close> of a Python
  value substituted by an f-string (\<open>Val\<close>), a path below the script directory
  (\<^verbatim>\<open>SCRIPT_DIR / ...\<close>), the bullet glyph of the summaries, and the text of a decoder
  exception. ANSI colour codes are presentation and are left out: a coloured helper
  (\<^verbatim>\<open>print_success\<close>, \<^verbatim>\<open>print_error\<close>, ...) is one tagged event.
\<close>

datatype piece = Lit string | Val pyval | Path "string list" | Bullet | Detail

type_synonym msg = "piece list"

text \<open>A backend invocation is the argument vector handed to \<^verbatim>\<open>subprocess.run\<close>.\<close>

type_synonym invocation = "msg list"

datatype event =
    ClearScreen
  | Print msg
  | Header string
  | Success msg
  | Error msg
  | Warning msg
  | Info msg
  | Rule
  | Input string string
  | Prompt string

datatype exc =
    SystemExit int
  | KeyError string
  | TypeError
  | EOFError
  | KeyboardInterrupt
  | FileNotFoundError
  | Unmodelled

text \<open>What the operator does at a prompt: type a line, or press Ctrl-C. When the list is
  used up, standard input is at its end.\<close>

datatype key = Line string | CtrlC

text \<open>
  The environment of one run: the operator's keystrokes, the text of \<^verbatim>\<open>config.json\<close>
  (\<open>None\<close> when the file does not exist), which script files exist in the script
  directory, whether \<^verbatim>\<open>os.name\<close> is \<^verbatim>\<open>nt\<close>, the exit status the backend returns to
  its n-th invocation (\<open>None\<close> when \<^verbatim>\<open>powershell.exe\<close> cannot be started), the
  console output so far and the backend invocations so far.
\<close>

record world =
  keys :: "key list"
  config_file :: "string option"
  script_files :: "string \<Rightarrow> bool"
  nt :: bool
  powershell :: "nat \<Rightarrow> invocation \<Rightarrow> int option"
  out :: "event list"
  calls :: "invocation list"

type_synonym 'a io = "world \<Rightarrow> (exc + 'a) \<times> world"

definition return :: "'a \<Rightarrow> 'a io" where
  "return a w = (Inr a, w)"

definition raise :: "exc \<Rightarrow> 'a io" where
  "raise e w = (Inl e, w)"

definition bind :: "'a io \<Rightarrow> ('a \<Rightarrow> 'b io) \<Rightarrow> 'b io" where
  "bind m f w = (case m w of (Inl e, w') \<Rightarrow> (Inl e, w') | (Inr a, w') \<Rightarrow> f a w')"

definition seq :: "unit io \<Rightarrow> 'a io \<Rightarrow> 'a io" where
  "seq m n = bind m (\<lambda>_. n)"

fun block :: "unit io list \<Rightarrow> unit io" where
  "block [] = return ()"
| "block (m # ms) = seq m (block ms)"

fun for_each :: "('a \<Rightarrow> unit io) \<Rightarrow> 'a list \<Rightarrow> unit io" where
  "for_each f [] = return ()"
| "for_each f (x # xs) = seq (f x) (for_each f xs)"

definition lift :: "exc + 'a \<Rightarrow> 'a io" where
  "lift r w = (case r of Inl e \<Rightarrow> (Inl e, w) | Inr a \<Rightarrow> (Inr a, w))"

definition gets :: "(world \<Rightarrow> 'a) \<Rightarrow> 'a io" where
  "gets f w = (Inr (f w), w)"

definition emit :: "event \<Rightarrow> unit io" where
  "emit e w = (Inr (), w\<lparr>out := out w @ [e]\<rparr>)"

definition sys_exit :: "int \<Rightarrow> 'a io" where
  "sys_exit n = raise (SystemExit n)"

text \<open>\<^verbatim>\<open>input(prompt)\<close>: the line without its newline; \<^verbatim>\<open>EOFError\<close> at the end of
  standard input, \<^verbatim>\<open>KeyboardInterrupt\<close> on Ctrl-C.\<close>

definition input :: "string \<Rightarrow> string io" where
  "input p w =
     (case keys w of
        [] \<Rightarrow> (Inl EOFError, w\<lparr>out := out w @ [Prompt p]\<rparr>)
      | CtrlC # ks \<Rightarrow> (Inl KeyboardInterrupt, w\<lparr>keys := ks, out := out w @ [Prompt p]\<rparr>)
      | Line s # ks \<Rightarrow> (Inr s, w\<lparr>keys := ks, out := out w @ [Input p s]\<rparr>))"

subsection \<open>Utility functions (source lines 108 to 218)\<close>

definition clear_screen :: "unit io" where
  "clear_screen = emit ClearScreen"

definition print_header :: "string \<Rightarrow> unit io" where
  "print_header title = emit (Header title)"

definition print_success :: "msg \<Rightarrow> unit io" where
  "print_success message = emit (Success message)"

definition print_error :: "msg \<Rightarrow> unit io" where
  "print_error message = emit (Error message)"

definition print_warning :: "msg \<Rightarrow> unit io" where
  "print_warning message = emit (Warning message)"

definition print_info :: "msg \<Rightarrow> unit io" where
  "print_info message = emit (Info message)"

definition print :: "msg \<Rightarrow> unit io" where
  "print message = emit (Print message)"

definition get_input :: "string \<Rightarrow> string \<Rightarrow> string io" where
  "get_input prompt dflt =
     (if dflt \<noteq> [] then
        bind (input (prompt @ '' ['' @ dflt @ '']: ''))
          (\<lambda>l. let user_input = strip l in return (if user_input \<noteq> [] then user_input else dflt))
      else bind (input (prompt @ '': '')) (\<lambda>l. return (strip l)))"

definition affirmative :: "string \<Rightarrow> bool" where
  "affirmative l = (let response = lower (strip l) in response = ''y'' \<or> response = ''yes'')"

definition confirm_prompt :: "string \<Rightarrow> string" where
  "confirm_prompt message = message @ '' (y/n): ''"

definition confirm_action :: "string \<Rightarrow> bool io" where
  "confirm_action message = bind (input (confirm_prompt message)) (\<lambda>l. return (affirmative l))"

definition press_enter :: "unit io" where
  "press_enter = bind (input (CHR 0x0A # ''Press Enter to continue...'')) (\<lambda>_. return ())"

definition load_config :: "pyval io" where
  "load_config w =
     (case config_file w of
        None \<Rightarrow>
          seq (print_error [Lit ''Configuration file not found: '', Path [''config.json'']])
              (sys_exit 1) w
      | Some content \<Rightarrow>
          (case json_loads content of
             Inr config \<Rightarrow> (Inr config, w)
           | Inl JSONDecodeError \<Rightarrow>
               seq (print_error [Lit ''Invalid JSON in configuration file: '', Detail])
                   (sys_exit 1) w
           | Inl NotModelled \<Rightarrow> (Inl Unmodelled, w)))"

definition save_config :: "pyval \<Rightarrow> unit io" where
  "save_config config w = (Inr (), w\<lparr>config_file := Some (json_dumps config)\<rparr>)"

definition subprocess_run :: "invocation \<Rightarrow> int io" where
  "subprocess_run cmd w =
     (case powershell w (length (calls w)) cmd of
        None \<Rightarrow> (Inl FileNotFoundError, w\<lparr>calls := calls w @ [cmd]\<rparr>)
      | Some returncode \<Rightarrow> (Inr returncode, w\<lparr>calls := calls w @ [cmd]\<rparr>))"

definition run_powershell :: "string \<Rightarrow> (string \<times> msg) list \<Rightarrow> int io" where
  "run_powershell script params =
     (let cmd = [[Lit ''powershell.exe''], [Lit ''-ExecutionPolicy''], [Lit ''Bypass''],
                 [Lit ''-File''], [Path [script]]]
                @ concat (map (\<lambda>(key, value). [[Lit (''-'' @ key)], value]) params)
      in seq (print_info [Lit ''Executing: '', Path [script]])
        (seq (emit Rule)
        (bind (subprocess_run cmd) (\<lambda>result.
         seq (emit Rule) (return result)))))"

definition run_powershell_command :: "msg \<Rightarrow> int io" where
  "run_powershell_command command =
     (let cmd = [[Lit ''powershell.exe''], [Lit ''-ExecutionPolicy''], [Lit ''Bypass''],
                 [Lit ''-Command''], command]
      in seq (print_info [Lit ''Executing PowerShell command...''])
        (seq (emit Rule)
        (bind (subprocess_run cmd) (\<lambda>result.
         seq (emit Rule) (return result)))))"

subsection \<open>The catalogs (source lines 32 to 56)\<close>

record template_entry =
  name :: string
  template :: string
  description :: string

record size_entry =
  cpu :: int
  memory_gb :: int
  disk_gb :: int

record os_entry =
  os_name :: string
  guest_id :: string
  os_description :: string

definition VM_TEMPLATES :: "(string \<times> template_entry) list" where
  "VM_TEMPLATES =
     [(''1'', \<lparr>name = ''Splunk'', template = ''template-splunk-enterprise'',
              description = ''Splunk Enterprise Server''\<rparr>),
      (''2'', \<lparr>name = ''Cribl'', template = ''template-cribl-stream'',
              description = ''Cribl Stream/Edge''\<rparr>),
      (''3'', \<lparr>name = ''Forescout'', template = ''template-forescout'',
              description = ''Forescout CounterACT''\<rparr>),
      (''4'', \<lparr>name = ''Windows Server'', template = ''template-windows-2022'',
              description = ''Windows Server 2022''\<rparr>),
      (''5'', \<lparr>name = ''RHEL 9'', template = ''template-rhel9'',
              description = ''Red Hat Enterprise Linux 9''\<rparr>),
      (''6'', \<lparr>name = ''Ubuntu 22.04'', template = ''template-ubuntu-2204'',
              description = ''Ubuntu Server 22.04 LTS''\<rparr>)]"

definition VM_SIZES :: "(string \<times> size_entry) list" where
  "VM_SIZES =
     [(''Small'', \<lparr>cpu = 2, memory_gb = 4, disk_gb = 50\<rparr>),
      (''Medium'', \<lparr>cpu = 4, memory_gb = 8, disk_gb = 100\<rparr>),
      (''Large'', \<lparr>cpu = 8, memory_gb = 16, disk_gb = 200\<rparr>),
      (''XLarge'', \<lparr>cpu = 16, memory_gb = 32, disk_gb = 500\<rparr>)]"

definition OS_TYPES :: "(string \<times> os_entry) list" where
  "OS_TYPES =
     [(''1'', \<lparr>os_name = ''RHEL'', guest_id = ''rhel9_64Guest'',
              os_description = ''Red Hat Enterprise Linux''\<rparr>),
      (''2'', \<lparr>os_name = ''Ubuntu'', guest_id = ''ubuntu64Guest'',
              os_description = ''Ubuntu Linux''\<rparr>),
      (''3'', \<lparr>os_name = ''Windows'', guest_id = ''windows2019srv_64Guest'',
              os_description = ''Windows Server''\<rparr>),
      (''4'', \<lparr>os_name = ''CentOS'', guest_id = ''centos9_64Guest'',
              os_description = ''CentOS Stream''\<rparr>),
      (''5'', \<lparr>os_name = ''Debian'', guest_id = ''debian11_64Guest'',
              os_description = ''Debian Linux''\<rparr>)]"

subsection \<open>Reading the configuration document\<close>

text \<open>\<^verbatim>\<open>d[k]\<close> with a string key: \<^verbatim>\<open>KeyError\<close> on a dictionary without the key,
  \<^verbatim>\<open>TypeError\<close> on anything that is not a dictionary.\<close>

fun getitem :: "pyval \<Rightarrow> string \<Rightarrow> exc + pyval" where
  "getitem (PDict kvs) k = (case map_of kvs k of None \<Rightarrow> Inl (KeyError k) | Some v \<Rightarrow> Inr v)"
| "getitem v k = Inl TypeError"

text \<open>\<^verbatim>\<open>config['a']['b']...\<close>\<close>

fun sub :: "pyval \<Rightarrow> string list \<Rightarrow> exc + pyval" where
  "sub c [] = Inr c"
| "sub c (k # ks) = (case getitem c k of Inl e \<Rightarrow> Inl e | Inr v \<Rightarrow> sub v ks)"

fun truthy :: "pyval \<Rightarrow> bool" where
  "truthy PNone = False"
| "truthy (PBool b) = b"
| "truthy (PInt i) = (i \<noteq> 0)"
| "truthy (PStr s) = (s \<noteq> [])"
| "truthy (PList xs) = (xs \<noteq> [])"
| "truthy (PDict kvs) = (kvs \<noteq> [])"

fun py_len :: "pyval \<Rightarrow> exc + nat" where
  "py_len (PStr s) = Inr (length s)"
| "py_len (PList xs) = Inr (length xs)"
| "py_len (PDict kvs) = Inr (length kvs)"
| "py_len v = Inl TypeError"

text \<open>Iteration: a list gives its elements, a string its characters, a dictionary its
  keys; nothing else is iterable.\<close>

fun iter :: "pyval \<Rightarrow> exc + pyval list" where
  "iter (PList xs) = Inr xs"
| "iter (PStr s) = Inr (map (\<lambda>c. PStr [c]) s)"
| "iter (PDict kvs) = Inr (map (\<lambda>p. PStr (fst p)) kvs)"
| "iter v = Inl TypeError"

fun join_strs :: "string \<Rightarrow> pyval list \<Rightarrow> exc + string" where
  "join_strs sep [] = Inr []"
| "join_strs sep [PStr s] = Inr s"
| "join_strs sep (PStr s # x # xs) =
     (case join_strs sep (x # xs) of Inl e \<Rightarrow> Inl e | Inr r \<Rightarrow> Inr (s @ sep @ r))"
| "join_strs sep (v # xs) = Inl TypeError"

definition py_join :: "string \<Rightarrow> pyval \<Rightarrow> exc + string" where
  "py_join sep v = (case iter v of Inl e \<Rightarrow> Inl e | Inr xs \<Rightarrow> join_strs sep xs)"

text \<open>The parts of an f-string, evaluated left to right; the first failing read raises.\<close>

definition L :: "string \<Rightarrow> exc + piece" where
  "L s = Inr (Lit s)"

definition G :: "pyval \<Rightarrow> string list \<Rightarrow> exc + piece" where
  "G c ks = (case sub c ks of Inl e \<Rightarrow> Inl e | Inr v \<Rightarrow> Inr (Val v))"

definition GLen :: "pyval \<Rightarrow> string list \<Rightarrow> exc + piece" where
  "GLen c ks =
     (case sub c ks of
        Inl e \<Rightarrow> Inl e
      | Inr v \<Rightarrow> (case py_len v of Inl e \<Rightarrow> Inl e | Inr n \<Rightarrow> Inr (Val (PInt (int n)))))"

definition GJoin :: "string \<Rightarrow> pyval \<Rightarrow> string list \<Rightarrow> exc + piece" where
  "GJoin sep c ks =
     (case sub c ks of
        Inl e \<Rightarrow> Inl e
      | Inr v \<Rightarrow> (case py_join sep v of Inl e \<Rightarrow> Inl e | Inr s \<Rightarrow> Inr (Lit s)))"

definition GIf :: "pyval \<Rightarrow> string list \<Rightarrow> string \<Rightarrow> string \<Rightarrow> exc + piece" where
  "GIf c ks a b =
     (case sub c ks of Inl e \<Rightarrow> Inl e | Inr v \<Rightarrow> Inr (Lit (if truthy v then a else b)))"

fun fstring :: "(exc + piece) list \<Rightarrow> exc + msg" where
  "fstring [] = Inr []"
| "fstring (Inl e # ps) = Inl e"
| "fstring (Inr p # ps) = (case fstring ps of Inl e \<Rightarrow> Inl e | Inr m \<Rightarrow> Inr (p # m))"

definition print_f :: "(exc + piece) list \<Rightarrow> unit io" where
  "print_f parts = bind (lift (fstring parts)) print"

definition SQ :: piece where
  "SQ = Lit [CHR 0x27]"

fun unlines :: "msg list \<Rightarrow> msg" where
  "unlines [] = []"
| "unlines [l] = l"
| "unlines (l # ls) = l @ Lit [CHR 0x0A] # unlines ls"

definition ljust :: "nat \<Rightarrow> string \<Rightarrow> string" where
  "ljust n s = s @ replicate (n - length s) CHR '' ''"


subsection \<open>The inline backend scripts\<close>

text \<open>The inline script of \<^verbatim>\<open>deploy_datacenter\<close> (source line 402), line by line.\<close>

definition deploy_datacenter_script :: "msg" where
  \<open>deploy_datacenter_script = unlines
    [[],
     [Lit ''    . '', SQ, Path [''modules'', ''01-Connect.ps1''], SQ],
     [Lit ''    . '', SQ, Path [''modules'', ''02-Datacenter.ps1''], SQ],
     [Lit ''    ''],
     [Lit ''    $config = Get-Content '', SQ, Path [''config.json''], SQ, Lit '' -Raw | ConvertFrom-Json''],
     [Lit ''    $cred = Get-Credential -Message "Enter vCenter Administrator Credentials"''],
     [Lit ''    ''],
     [Lit ''    Connect-VCenterServer -Server $config.vcenter.server -Credential $cred''],
     [Lit ''    New-VsphereDatacenter -Config $config''],
     [Lit ''    ''],
     [Lit ''    Disconnect-VIServer -Server * -Force -Confirm:$false''],
     [Lit ''    '']]\<close>

text \<open>The inline script of \<^verbatim>\<open>deploy_cluster\<close> (source line 443), line by line.\<close>

definition deploy_cluster_script :: "msg" where
  \<open>deploy_cluster_script = unlines
    [[],
     [Lit ''    . '', SQ, Path [''modules'', ''01-Connect.ps1''], SQ],
     [Lit ''    . '', SQ, Path [''modules'', ''02-Datacenter.ps1''], SQ],
     [Lit ''    ''],
     [Lit ''    $config = Get-Content '', SQ, Path [''config.json''], SQ, Lit '' -Raw | ConvertFrom-Json''],
     [Lit ''    $cred = Get-Credential -Message "Enter vCenter Administrator Credentials"''],
     [Lit ''    ''],
     [Lit ''    Connect-VCenterServer -Server $config.vcenter.server -Credential $cred''],
     [Lit ''    New-VsphereCluster -Config $config''],
     [Lit ''    ''],
     [Lit ''    Disconnect-VIServer -Server * -Force -Confirm:$false''],
     [Lit ''    '']]\<close>

text \<open>The inline script of \<^verbatim>\<open>configure_vsan\<close> (source line 488), line by line.\<close>

definition configure_vsan_script :: "msg" where
  \<open>configure_vsan_script = unlines
    [[],
     [Lit ''    . '', SQ, Path [''modules'', ''01-Connect.ps1''], SQ],
     [Lit ''    . '', SQ, Path [''modules'', ''05-Storage.ps1''], SQ],
     [Lit ''    ''],
     [Lit ''    $config = Get-Content '', SQ, Path [''config.json''], SQ, Lit '' -Raw | ConvertFrom-Json''],
     [Lit ''    $cred = Get-Credential -Message "Enter vCenter Administrator Credentials"''],
     [Lit ''    ''],
     [Lit ''    Connect-VCenterServer -Server $config.vcenter.server -Credential $cred''],
     [Lit ''    Enable-VsanCluster -Config $config''],
     [Lit ''    Configure-VsanDiskGroups -Config $config -AutoClaim''],
     [Lit ''    ''],
     [Lit ''    Disconnect-VIServer -Server * -Force -Confirm:$false''],
     [Lit ''    '']]\<close>

text \<open>The inline script of \<^verbatim>\<open>configure_vds\<close> (source line 535), line by line.\<close>

definition configure_vds_script :: "msg" where
  \<open>configure_vds_script = unlines
    [[],
     [Lit ''    . '', SQ, Path [''modules'', ''01-Connect.ps1''], SQ],
     [Lit ''    . '', SQ, Path [''modules'', ''04-Networking.ps1''], SQ],
     [Lit ''    ''],
     [Lit ''    $config = Get-Content '', SQ, Path [''config.json''], SQ, Lit '' -Raw | ConvertFrom-Json''],
     [Lit ''    $cred = Get-Credential -Message "Enter vCenter Administrator Credentials"''],
     [Lit ''    ''],
     [Lit ''    Connect-VCenterServer -Server $config.vcenter.server -Credential $cred''],
     [Lit ''    New-VsphereVDS -Config $config''],
     [Lit ''    New-VspherePortGroups -Config $config''],
     [Lit ''    Add-HostsToVDS -Config $config''],
     [Lit ''    ''],
     [Lit ''    Disconnect-VIServer -Server * -Force -Confirm:$false''],
     [Lit ''    '']]\<close>

text \<open>The inline script of \<^verbatim>\<open>configure_vmotion\<close> (source line 581), line by line.\<close>

definition configure_vmotion_script :: "msg" where
  \<open>configure_vmotion_script = unlines
    [[],
     [Lit ''    . '', SQ, Path [''modules'', ''01-Connect.ps1''], SQ],
     [Lit ''    . '', SQ, Path [''modules'', ''04-Networking.ps1''], SQ],
     [Lit ''    ''],
     [Lit ''    $config = Get-Content '', SQ, Path [''config.json''], SQ, Lit '' -Raw | ConvertFrom-Json''],
     [Lit ''    $cred = Get-Credential -Message "Enter vCenter Administrator Credentials"''],
     [Lit ''    ''],
     [Lit ''    Connect-VCenterServer -Server $config.vcenter.server -Credential $cred''],
     [Lit ''    Configure-VMotionStack -Config $config''],
     [Lit ''    ''],
     [Lit ''    Disconnect-VIServer -Server * -Force -Confirm:$false''],
     [Lit ''    '']]\<close>

text \<open>The inline script of \<^verbatim>\<open>configure_services\<close> (source line 628), line by line.\<close>

definition configure_services_script :: "msg" where
  \<open>configure_services_script = unlines
    [[],
     [Lit ''    . '', SQ, Path [''modules'', ''01-Connect.ps1''], SQ],
     [Lit ''    . '', SQ, Path [''modules'', ''06-Configuration.ps1''], SQ],
     [Lit ''    ''],
     [Lit ''    $config = Get-Content '', SQ, Path [''config.json''], SQ, Lit '' -Raw | ConvertFrom-Json''],
     [Lit ''    $cred = Get-Credential -Message "Enter vCenter Administrator Credentials"''],
     [Lit ''    ''],
     [Lit ''    Connect-VCenterServer -Server $config.vcenter.server -Credential $cred''],
     [Lit ''    Set-HostNtpConfiguration -Config $config''],
     [Lit ''    Set-HostDnsConfiguration -Config $config''],
     [Lit ''    Set-HostSyslogConfiguration -Config $config''],
     [Lit ''    ''],
     [Lit ''    Disconnect-VIServer -Server * -Force -Confirm:$false''],
     [Lit ''    '']]\<close>

text \<open>The inline script of \<^verbatim>\<open>configure_security\<close> (source line 671), line by line.\<close>

definition configure_security_script :: "msg" where
  \<open>configure_security_script = unlines
    [[],
     [Lit ''    . '', SQ, Path [''modules'', ''01-Connect.ps1''], SQ],
     [Lit ''    . '', SQ, Path [''modules'', ''06-Configuration.ps1''], SQ],
     [Lit ''    ''],
     [Lit ''    $config = Get-Content '', SQ, Path [''config.json''], SQ, Lit '' -Raw | ConvertFrom-Json''],
     [Lit ''    $cred = Get-Credential -Message "Enter vCenter Administrator Credentials"''],
     [Lit ''    ''],
     [Lit ''    Connect-VCenterServer -Server $config.vcenter.server -Credential $cred''],
     [Lit ''    Set-HostSecurityConfiguration -Config $config''],
     [Lit ''    ''],
     [Lit ''    Disconnect-VIServer -Server * -Force -Confirm:$false''],
     [Lit ''    '']]\<close>

text \<open>The inline script of \<^verbatim>\<open>deploy_vm_from_template\<close> (source line 790), line by line.\<close>

definition deploy_vm_from_template_script :: "pyval \<Rightarrow> template_entry \<Rightarrow> pyval \<Rightarrow> string \<Rightarrow> size_entry \<Rightarrow> string \<Rightarrow> msg" where
  \<open>deploy_vm_from_template_script server tmpl cluster vm_name size_specs tag_name = unlines
    [[],
     [Lit ''    $cred = Get-Credential -Message "Enter vCenter Administrator Credentials"''],
     [Lit ''    ''],
     [Lit ''    Connect-VIServer -Server '', SQ, Val server, SQ, Lit '' -Credential $cred''],
     [Lit ''    ''],
     [Lit ''    # Get the template''],
     [Lit ''    $template = Get-Template -Name '', SQ, Lit (template tmpl), SQ, Lit '' -ErrorAction Stop''],
     [Lit ''    ''],
     [Lit ''    # Get the cluster''],
     [Lit ''    $cluster = Get-Cluster -Name '', SQ, Val cluster, SQ, Lit '' -ErrorAction Stop''],
     [Lit ''    ''],
     [Lit ''    # Get datastore (vSAN or first available)''],
     [Lit ''    $datastore = Get-Datastore -Location $cluster | Where-Object { $_.Type -eq '', SQ, Lit ''vsan'', SQ, Lit '' } | Select-Object -First 1''],
     [Lit ''    if (-not $datastore) {''],
     [Lit ''        $datastore = Get-Datastore -Location $cluster | Select-Object -First 1''],
     [Lit ''    }''],
     [Lit ''    ''],
     [Lit ''    # Get port group for VM network''],
     [Lit ''    $portGroup = Get-VDPortgroup -Name '', SQ, Lit ''PG-VMTraffic'', SQ, Lit '' -ErrorAction SilentlyContinue''],
     [Lit ''    if (-not $portGroup) {''],
     [Lit ''        $portGroup = Get-VirtualPortGroup | Select-Object -First 1''],
     [Lit ''    }''],
     [Lit ''    ''],
     [Lit ''    # Create VM from template''],
     [Lit ''    Write-Host "Creating VM from template..."''],
     [Lit ''    $vm = New-VM -Name '', SQ, Lit vm_name, SQ, Lit '' `''],
     [Lit ''        -Template $template `''],
     [Lit ''        -ResourcePool $cluster `''],
     [Lit ''        -Datastore $datastore `''],
     [Lit ''        -ErrorAction Stop''],
     [Lit ''    ''],
     [Lit ''    # Configure VM resources''],
     [Lit ''    Write-Host "Configuring VM resources..."''],
     [Lit ''    Set-VM -VM $vm `''],
     [Lit ''        -NumCpu '', Val (PInt (cpu size_specs)), Lit '' `''],
     [Lit ''        -MemoryGB '', Val (PInt (memory_gb size_specs)), Lit '' `''],
     [Lit ''        -Confirm:$false''],
     [Lit ''    ''],
     [Lit ''    # Configure network adapter''],
     [Lit ''    $adapter = Get-NetworkAdapter -VM $vm''],
     [Lit ''    Set-NetworkAdapter -NetworkAdapter $adapter -Portgroup $portGroup -Confirm:$false''],
     [Lit ''    ''],
     [Lit ''    # Tag the VM''],
     [Lit ''    $tag = Get-Tag -Name '', SQ, Lit tag_name, SQ, Lit '' -ErrorAction SilentlyContinue''],
     [Lit ''    if ($tag) {''],
     [Lit ''        New-TagAssignment -Tag $tag -Entity $vm''],
     [Lit ''    }''],
     [Lit ''    ''],
     [Lit ''    Write-Host "VM '', SQ, Lit vm_name, SQ, Lit '' created successfully!" -ForegroundColor Green''],
     [Lit ''    ''],
     [Lit ''    # Optionally power on''],
     [Lit ''    $powerOn = Read-Host "Power on the VM? (y/n)"''],
     [Lit ''    if ($powerOn -eq '', SQ, Lit ''y'', SQ, Lit '') {''],
     [Lit ''        Start-VM -VM $vm -Confirm:$false''],
     [Lit ''        Write-Host "VM powered on." -ForegroundColor Green''],
     [Lit ''    }''],
     [Lit ''    ''],
     [Lit ''    Disconnect-VIServer -Server * -Force -Confirm:$false''],
     [Lit ''    '']]\<close>

text \<open>The inline script of \<^verbatim>\<open>deploy_standard_vm\<close> (source line 918), line by line.\<close>

definition deploy_standard_vm_script :: "pyval \<Rightarrow> pyval \<Rightarrow> string \<Rightarrow> size_entry \<Rightarrow> os_entry \<Rightarrow> string \<Rightarrow> msg" where
  \<open>deploy_standard_vm_script server cluster vm_name size_specs os_type tag_name = unlines
    [[],
     [Lit ''    $cred = Get-Credential -Message "Enter vCenter Administrator Credentials"''],
     [Lit ''    ''],
     [Lit ''    Connect-VIServer -Server '', SQ, Val server, SQ, Lit '' -Credential $cred''],
     [Lit ''    ''],
     [Lit ''    # Get the cluster''],
     [Lit ''    $cluster = Get-Cluster -Name '', SQ, Val cluster, SQ, Lit '' -ErrorAction Stop''],
     [Lit ''    ''],
     [Lit ''    # Get datastore''],
     [Lit ''    $datastore = Get-Datastore -Location $cluster | Where-Object { $_.Type -eq '', SQ, Lit ''vsan'', SQ, Lit '' } | Select-Object -First 1''],
     [Lit ''    if (-not $datastore) {''],
     [Lit ''        $datastore = Get-Datastore -Location $cluster | Sort-Object FreeSpaceGB -Descending | Select-Object -First 1''],
     [Lit ''    }''],
     [Lit ''    ''],
     [Lit ''    # Get port group for VM network''],
     [Lit ''    $portGroup = Get-VDPortgroup -Name '', SQ, Lit ''PG-VMTraffic'', SQ, Lit '' -ErrorAction SilentlyContinue''],
     [Lit ''    if (-not $portGroup) {''],
     [Lit ''        $portGroup = Get-VirtualPortGroup | Where-Object { $_.Name -like '', SQ, Lit ''*VM*'', SQ, Lit '' } | Select-Object -First 1''],
     [Lit ''    }''],
     [Lit ''    ''],
     [Lit ''    # Create new VM''],
     [Lit ''    Write-Host "Creating VM '', SQ, Lit vm_name, SQ, Lit ''..."''],
     [Lit ''    $vm = New-VM -Name '', SQ, Lit vm_name, SQ, Lit '' `''],
     [Lit ''        -ResourcePool $cluster `''],
     [Lit ''        -Datastore $datastore `''],
     [Lit ''        -NumCpu '', Val (PInt (cpu size_specs)), Lit '' `''],
     [Lit ''        -MemoryGB '', Val (PInt (memory_gb size_specs)), Lit '' `''],
     [Lit ''        -DiskGB '', Val (PInt (disk_gb size_specs)), Lit '' `''],
     [Lit ''        -DiskStorageFormat Thin `''],
     [Lit ''        -GuestId '', SQ, Lit (guest_id os_type), SQ, Lit '' `''],
     [Lit ''        -NetworkName $portGroup.Name `''],
     [Lit ''        -ErrorAction Stop''],
     [Lit ''    ''],
     [Lit ''    Write-Host "VM created successfully!" -ForegroundColor Green''],
     [Lit ''    ''],
     [Lit ''    # Tag the VM''],
     [Lit ''    $tag = Get-Tag -Name '', SQ, Lit tag_name, SQ, Lit '' -ErrorAction SilentlyContinue''],
     [Lit ''    if ($tag) {''],
     [Lit ''        New-TagAssignment -Tag $tag -Entity $vm''],
     [Lit ''        Write-Host "Tag assigned: '', Lit tag_name, Lit ''" -ForegroundColor Green''],
     [Lit ''    } else {''],
     [Lit ''        Write-Host "Note: Tag '', SQ, Lit tag_name, SQ, Lit '' not found, skipping tag assignment" -ForegroundColor Yellow''],
     [Lit ''    }''],
     [Lit ''    ''],
     [Lit ''    Write-Host ""''],
     [Lit ''    Write-Host "VM Summary:" -ForegroundColor Cyan''],
     [Lit ''    $vm | Select-Object Name, NumCpu, MemoryGB, @'', Lit ''{N='', SQ, Lit ''DiskGB'', SQ, Lit '';E={($_ | Get-HardDisk | Measure-Object -Property CapacityGB -Sum).Sum}}, PowerState | Format-Table''],
     [Lit ''    ''],
     [Lit ''    # Optionally power on''],
     [Lit ''    $powerOn = Read-Host "Power on the VM? (y/n)"''],
     [Lit ''    if ($powerOn -eq '', SQ, Lit ''y'', SQ, Lit '') {''],
     [Lit ''        Start-VM -VM $vm -Confirm:$false''],
     [Lit ''        Write-Host "VM powered on." -ForegroundColor Green''],
     [Lit ''    }''],
     [Lit ''    ''],
     [Lit ''    Disconnect-VIServer -Server * -Force -Confirm:$false''],
     [Lit ''    '']]\<close>

text \<open>The inline script of \<^verbatim>\<open>show_status\<close> (source line 996), line by line.\<close>

definition show_status_script :: "msg" where
  \<open>show_status_script = unlines
    [[],
     [Lit ''    $config = Get-Content '', SQ, Path [''config.json''], SQ, Lit '' -Raw | ConvertFrom-Json''],
     [Lit ''    $cred = Get-Credential -Message "Enter vCenter Administrator Credentials"''],
     [Lit ''    ''],
     [Lit ''    try {''],
     [Lit ''        Connect-VIServer -Server $config.vcenter.server -Credential $cred -ErrorAction Stop''],
     [Lit ''        ''],
     [Lit ''        Write-Host ""''],
     [Lit ''        Write-Host "=== vCenter Connection ===" -ForegroundColor Cyan''],
     [Lit ''        Write-Host "Server:  $($global:DefaultVIServer.Name)"''],
     [Lit ''        Write-Host "Version: $($global:DefaultVIServer.Version)"''],
     [Lit ''        ''],
     [Lit ''        Write-Host ""''],
     [Lit ''        Write-Host "=== Datacenter ===" -ForegroundColor Cyan''],
     [Lit ''        Get-Datacenter | Format-Table Name, @'', Lit ''{N='', SQ, Lit ''Clusters'', SQ, Lit '';E={($_ | Get-Cluster).Count}}, @'', Lit ''{N='', SQ, Lit ''Hosts'', SQ, Lit '';E={($_ | Get-VMHost).Count}}, @'', Lit ''{N='', SQ, Lit ''VMs'', SQ, Lit '';E={($_ | Get-VM).Count}}''],
     [Lit ''        ''],
     [Lit ''        Write-Host "=== Clusters ===" -ForegroundColor Cyan''],
     [Lit ''        Get-Cluster | Format-Table Name, HAEnabled, DrsEnabled, @'', Lit ''{N='', SQ, Lit ''Hosts'', SQ, Lit '';E={($_ | Get-VMHost).Count}}, @'', Lit ''{N='', SQ, Lit ''VMs'', SQ, Lit '';E={($_ | Get-VM).Count}}''],
     [Lit ''        ''],
     [Lit ''        Write-Host "=== ESXi Hosts ===" -ForegroundColor Cyan''],
     [Lit ''        Get-VMHost | Format-Table Name, ConnectionState, PowerState, Version, @'', Lit ''{N='', SQ, Lit ''CPU(GHz)'', SQ, Lit '';E={[math]::Round($_.CpuTotalMhz/1000,1)}}, @'', Lit ''{N='', SQ, Lit ''Mem(GB)'', SQ, Lit '';E={[math]::Round($_.MemoryTotalGB,0)}}''],
     [Lit ''        ''],
     [Lit ''        Write-Host "=== Datastores ===" -ForegroundColor Cyan''],
     [Lit ''        Get-Datastore | Format-Table Name, Type, @'', Lit ''{N='', SQ, Lit ''Capacity(GB)'', SQ, Lit '';E={[math]::Round($_.CapacityGB,0)}}, @'', Lit ''{N='', SQ, Lit ''Free(GB)'', SQ, Lit '';E={[math]::Round($_.FreeSpaceGB,0)}}, @'', Lit ''{N='', SQ, Lit ''Used%'', SQ, Lit '';E={[math]::Round((1-($_.FreeSpaceGB/$_.CapacityGB))*100,0)}}''],
     [Lit ''        ''],
     [Lit ''        Write-Host "=== VDS ===" -ForegroundColor Cyan''],
     [Lit ''        Get-VDSwitch | Format-Table Name, Version, Mtu, @'', Lit ''{N='', SQ, Lit ''Hosts'', SQ, Lit '';E={($_ | Get-VMHost).Count}}, @'', Lit ''{N='', SQ, Lit ''PortGroups'', SQ, Lit '';E={($_ | Get-VDPortgroup).Count}}''],
     [Lit ''        ''],
     [Lit ''        Disconnect-VIServer -Server * -Force -Confirm:$false''],
     [Lit ''    }''],
     [Lit ''    catch {''],
     [Lit ''        Write-Host "Error: $($_.Exception.Message)" -ForegroundColor Red''],
     [Lit ''    }''],
     [Lit ''    '']]\<close>

subsection \<open>Menu display functions (source lines 225 to 314)\<close>

definition display_main_menu :: "unit io" where
  "display_main_menu =
     seq clear_screen
    (seq (print_header ''ECST VMware Automation Tool'')
    (bind load_config (\<lambda>config.
     block
       [print_f [L ''  Environment: '', G config [''environment'', ''name'']],
        print_f [L ''  vCenter:     '', G config [''vcenter'', ''server'']],
        print_f [L ''  Datacenter:  '', G config [''datacenter'', ''name'']],
        print_f [L ''  Cluster:     '', G config [''cluster'', ''name'']],
        print [],
        print [Lit ''Main Menu:''],
        print [],
        print [Lit ''  1. Deploy vCenter (VCSA)''],
        print [Lit ''  2. Deploy Infrastructure (Full)''],
        print [Lit ''  3. Deploy Datacenter''],
        print [Lit ''  4. Deploy Cluster''],
        print [Lit ''  5. Configure Infrastructure''],
        print [Lit ''  6. Deploy Virtual Machine''],
        print [],
        print [Lit ''  C. Configuration Management''],
        print [Lit ''  S. Show Current Status''],
        print [Lit ''  Q. Quit''],
        print []])))"

definition display_configure_menu :: "unit io" where
  "display_configure_menu =
     block
       [clear_screen,
        print_header ''Configure Infrastructure'',
        print [Lit ''Configuration Options:''],
        print [],
        print [Lit ''  1. Configure vSAN''],
        print [Lit ''  2. Configure vDS (Distributed Switch)''],
        print [Lit ''  3. Configure vMotion''],
        print [Lit ''  4. Configure NTP/DNS/Syslog''],
        print [Lit ''  5. Configure Security Settings''],
        print [Lit ''  6. Configure All (Full)''],
        print [],
        print [Lit ''  B. Back to Main Menu''],
        print []]"

definition display_vm_menu :: "unit io" where
  "display_vm_menu =
     block
       [clear_screen,
        print_header ''Deploy Virtual Machine'',
        print [Lit ''VM Deployment Options:''],
        print [],
        print [Lit ''  1. Deploy VM from Template''],
        print [Lit ''  2. Deploy Standard Virtual Machine''],
        print [],
        print [Lit ''  B. Back to Main Menu''],
        print []]"

definition display_template_menu :: "unit io" where
  "display_template_menu =
     block
       [clear_screen,
        print_header ''Deploy VM from Template'',
        print [Lit ''Available Templates:''],
        print [],
        for_each (\<lambda>(key, t).
            print [Lit ''  '', Lit key, Lit ''. '', Lit (ljust 20 (name t)), Lit '' - '',
                   Lit (description t)])
          VM_TEMPLATES,
        print [],
        print [Lit ''  B. Back to VM Menu''],
        print []]"

definition display_config_management_menu :: "unit io" where
  "display_config_management_menu =
     block
       [clear_screen,
        print_header ''Configuration Management'',
        print [Lit ''Configuration Options:''],
        print [],
        print [Lit ''  1. View Current Configuration''],
        print [Lit ''  2. Edit vCenter Settings''],
        print [Lit ''  3. Edit Datacenter/Cluster Settings''],
        print [Lit ''  4. Edit ESXi Host List''],
        print [Lit ''  5. Edit Network Settings''],
        print [Lit ''  6. Edit Storage (vSAN) Settings''],
        print [Lit ''  7. Reload Configuration''],
        print [],
        print [Lit ''  B. Back to Main Menu''],
        print []]"

subsection \<open>Deployment functions (source lines 321 to 463)\<close>

text \<open>The epilogue every deployment and configuration function ends with: the exit status
  decides between the success message and the error message with the exit code, then the
  operator acknowledges.\<close>

definition report :: "int \<Rightarrow> msg \<Rightarrow> string \<Rightarrow> unit io" where
  "report returncode done failed =
     seq (if returncode = 0 then print_success done
          else print_error [Lit failed, Val (PInt returncode)])
         press_enter"

definition script_exists :: "string \<Rightarrow> bool io" where
  "script_exists script = gets (\<lambda>w. script_files w script)"

definition deploy_vcenter :: "unit io" where
  "deploy_vcenter =
     seq (print_header ''Deploy vCenter Server Appliance (VCSA)'')
    (bind load_config (\<lambda>config.
     bind (lift (sub config [''vcenter'', ''vcsa''])) (\<lambda>vcsa_config.
     seq (block
       [print [Lit ''VCSA Deployment Configuration:''],
        print_f [L ''  Target ESXi Host: '', G vcsa_config [''targetEsxiHost'']],
        print_f [L ''  VCSA Hostname:    '', G vcsa_config [''hostname'']],
        print_f [L ''  VCSA IP:          '', G vcsa_config [''ip'']],
        print_f [L ''  Deployment Size:  '', G vcsa_config [''deploymentSize'']],
        print_f [L ''  SSO Domain:       '', G vcsa_config [''ssoDomain'']],
        print []])
    (bind (confirm_action ''Do you want to proceed with VCSA deployment?'') (\<lambda>ok.
     if \<not> ok then print_warning [Lit ''VCSA deployment cancelled.'']
     else
       bind (script_exists ''Deploy-VCSA.ps1'') (\<lambda>found.
       if \<not> found then print_error [Lit ''Script not found: '', Path [''Deploy-VCSA.ps1'']]
       else
         bind (run_powershell ''Deploy-VCSA.ps1'' [(''ConfigPath'', [Path [''config.json'']])])
           (\<lambda>returncode.
         report returncode [Lit ''VCSA deployment preparation completed!'']
           ''VCSA deployment failed with exit code: '')))))))"

definition deploy_infrastructure :: "unit io" where
  "deploy_infrastructure =
     seq (print_header ''Deploy Full Infrastructure'')
    (bind load_config (\<lambda>config.
     seq (block
       [print [Lit ''This will deploy the following components:''],
        print_f [L ''  '', Inr Bullet, L '' Datacenter: '', G config [''datacenter'', ''name'']],
        print_f [L ''  '', Inr Bullet, L '' Cluster:    '', G config [''cluster'', ''name'']],
        print_f [L ''  '', Inr Bullet, L '' Hosts:      '', GLen config [''esxiHosts''],
                 L '' ESXi hosts''],
        print_f [L ''  '', Inr Bullet, L '' VDS:        '',
                 G config [''networking'', ''vds'', ''name'']],
        print_f [L ''  '', Inr Bullet, L '' vSAN:       '',
                 GIf config [''storage'', ''vsan'', ''enabled''] ''Enabled'' ''Disabled''],
        print []])
    (bind (confirm_action ''Do you want to proceed with full infrastructure deployment?'') (\<lambda>ok.
     if \<not> ok then print_warning [Lit ''Infrastructure deployment cancelled.'']
     else
       bind (script_exists ''Deploy-Infrastructure.ps1'') (\<lambda>found.
       if \<not> found
       then print_error [Lit ''Script not found: '', Path [''Deploy-Infrastructure.ps1'']]
       else
         bind (run_powershell ''Deploy-Infrastructure.ps1''
                 [(''ConfigPath'', [Path [''config.json'']])]) (\<lambda>returncode.
         report returncode [Lit ''Infrastructure deployment completed!'']
           ''Infrastructure deployment failed with exit code: ''))))))"

definition deploy_datacenter :: "unit io" where
  "deploy_datacenter =
     seq (print_header ''Deploy Datacenter'')
    (bind load_config (\<lambda>config.
     bind (lift (sub config [''datacenter'', ''name''])) (\<lambda>dc_name.
     seq (block
       [print [Lit ''Datacenter to create: '', Val dc_name],
        print []])
    (bind (confirm_action ''Create this datacenter?'') (\<lambda>ok.
     if \<not> ok then print_warning [Lit ''Datacenter creation cancelled.'']
     else
       bind (run_powershell_command deploy_datacenter_script) (\<lambda>returncode.
       report returncode [Lit ''Datacenter created successfully!'']
         ''Datacenter creation failed with exit code: ''))))))"

definition deploy_cluster :: "unit io" where
  "deploy_cluster =
     seq (print_header ''Deploy Cluster'')
    (bind load_config (\<lambda>config.
     bind (lift (sub config [''cluster''])) (\<lambda>cluster_config.
     seq (block
       [print [Lit ''Cluster Configuration:''],
        print_f [L ''  Name:          '', G cluster_config [''name'']],
        print_f [L ''  HA Enabled:    '', G cluster_config [''ha'', ''enabled'']],
        print_f [L ''  DRS Enabled:   '', G cluster_config [''drs'', ''enabled'']],
        print_f [L ''  DRS Level:     '', G cluster_config [''drs'', ''automationLevel'']],
        print []])
    (bind (confirm_action ''Create this cluster?'') (\<lambda>ok.
     if \<not> ok then print_warning [Lit ''Cluster creation cancelled.'']
     else
       bind (run_powershell_command deploy_cluster_script) (\<lambda>returncode.
       report returncode [Lit ''Cluster created successfully!'']
         ''Cluster creation failed with exit code: ''))))))"

subsection \<open>Configuration functions (source lines 470 to 721)\<close>

definition configure_vsan :: "unit io" where
  "configure_vsan =
     seq (print_header ''Configure vSAN'')
    (bind load_config (\<lambda>config.
     bind (lift (sub config [''storage'', ''vsan''])) (\<lambda>vsan_config.
     seq (block
       [print [Lit ''vSAN Configuration:''],
        print_f [L ''  Enabled:      '', G vsan_config [''enabled'']],
        print_f [L ''  Claim Mode:   '', G vsan_config [''claimMode'']],
        print_f [L ''  Dedup:        '', G vsan_config [''deduplicationEnabled'']],
        print_f [L ''  Compression:  '', G vsan_config [''compressionEnabled'']],
        print []])
    (bind (confirm_action ''Configure vSAN with these settings?'') (\<lambda>ok.
     if \<not> ok then print_warning [Lit ''vSAN configuration cancelled.'']
     else
       bind (run_powershell_command configure_vsan_script) (\<lambda>returncode.
       report returncode [Lit ''vSAN configured successfully!'']
         ''vSAN configuration failed with exit code: ''))))))"

definition configure_vds :: "unit io" where
  "configure_vds =
     seq (print_header ''Configure Distributed Switch (VDS)'')
    (bind load_config (\<lambda>config.
     bind (lift (sub config [''networking'', ''vds''])) (\<lambda>vds_config.
     seq (block
       [print [Lit ''VDS Configuration:''],
        print_f [L ''  Name:           '', G vds_config [''name'']],
        print_f [L ''  Version:        '', G vds_config [''version'']],
        print_f [L ''  MTU:            '', G vds_config [''mtu'']],
        print_f [L ''  Uplinks:        '', G vds_config [''uplinks'']],
        print_f [L ''  Load Balancing: '', G vds_config [''loadBalancing'']],
        print [],
        print [Lit ''Port Groups:''],
        bind (lift (sub config [''networking'', ''portGroups''])) (\<lambda>groups.
        bind (lift (iter groups)) (\<lambda>pgs.
        for_each (\<lambda>pg.
            print_f [L ''  '', Inr Bullet, L '' '', G pg [''name''], L '' (VLAN '',
                     G pg [''vlanId''], L '') - '', G pg [''type'']])
          pgs)),
        print []])
    (bind (confirm_action ''Configure VDS with these settings?'') (\<lambda>ok.
     if \<not> ok then print_warning [Lit ''VDS configuration cancelled.'']
     else
       bind (run_powershell_command configure_vds_script) (\<lambda>returncode.
       report returncode [Lit ''VDS configured successfully!'']
         ''VDS configuration failed with exit code: ''))))))"

definition configure_vmotion :: "unit io" where
  "configure_vmotion =
     seq (print_header ''Configure vMotion'')
    (bind load_config (\<lambda>config.
     bind (lift (sub config [''networking'', ''vmotionTcpIpStack''])) (\<lambda>vmotion_config.
     seq (block
       [print [Lit ''vMotion Configuration:''],
        print_f [L ''  Enabled:     '', G vmotion_config [''enabled'']],
        print_f [L ''  Gateway:     '', G vmotion_config [''gateway'']],
        print_f [L ''  Subnet Mask: '', G vmotion_config [''subnetMask'']],
        print [],
        print [Lit ''Host vMotion IPs:''],
        bind (lift (sub config [''esxiHosts''])) (\<lambda>hosts.
        bind (lift (iter hosts)) (\<lambda>hs.
        for_each (\<lambda>host.
            print_f [L ''  '', Inr Bullet, L '' '', G host [''hostname''], L '': '',
                     G host [''vmotionIp'']])
          hs)),
        print []])
    (bind (confirm_action ''Configure vMotion with these settings?'') (\<lambda>ok.
     if \<not> ok then print_warning [Lit ''vMotion configuration cancelled.'']
     else
       bind (run_powershell_command configure_vmotion_script) (\<lambda>returncode.
       report returncode [Lit ''vMotion configured successfully!'']
         ''vMotion configuration failed with exit code: ''))))))"

definition configure_services :: "unit io" where
  "configure_services =
     seq (print_header ''Configure Host Services (NTP/DNS/Syslog)'')
    (bind load_config (\<lambda>config.
     seq (block
       [print [Lit ''NTP Configuration:''],
        print_f [L ''  Servers: '', GJoin '', '' config [''services'', ''ntp'', ''servers'']],
        print_f [L ''  Policy:  '', G config [''services'', ''ntp'', ''policy'']],
        print [],
        print [Lit ''DNS Configuration:''],
        print_f [L ''  Servers: '', GJoin '', '' config [''services'', ''dns'', ''servers'']],
        print_f [L ''  Search:  '', GJoin '', '' config [''services'', ''dns'', ''searchDomains'']],
        print [],
        print [Lit ''Syslog Configuration:''],
        print_f [L ''  Server:   '', G config [''services'', ''syslog'', ''server'']],
        print_f [L ''  Port:     '', G config [''services'', ''syslog'', ''port'']],
        print_f [L ''  Protocol: '', G config [''services'', ''syslog'', ''protocol'']],
        print []])
    (bind (confirm_action ''Configure services with these settings?'') (\<lambda>ok.
     if \<not> ok then print_warning [Lit ''Service configuration cancelled.'']
     else
       bind (run_powershell_command configure_services_script) (\<lambda>returncode.
       report returncode [Lit ''Host services configured successfully!'']
         ''Service configuration failed with exit code: '')))))"

definition configure_security :: "unit io" where
  "configure_security =
     seq (print_header ''Configure Security Settings'')
    (bind load_config (\<lambda>config.
     bind (lift (sub config [''security''])) (\<lambda>security_config.
     seq (block
       [print [Lit ''Security Configuration:''],
        print_f [L ''  Lockdown Mode:  '', G security_config [''lockdownMode'']],
        print_f [L ''  SSH Enabled:    '', G security_config [''sshEnabled'']],
        print_f [L ''  Shell Timeout:  '', G security_config [''shellTimeout''], L '' seconds''],
        print_f [L ''  Firewall Rules: '',
                 GJoin '', '' security_config [''firewallRulesetsEnabled'']],
        print []])
    (bind (confirm_action ''Apply these security settings?'') (\<lambda>ok.
     if \<not> ok then print_warning [Lit ''Security configuration cancelled.'']
     else
       bind (run_powershell_command configure_security_script) (\<lambda>returncode.
       report returncode [Lit ''Security settings applied successfully!'']
         ''Security configuration failed with exit code: ''))))))"

definition configure_all :: "unit io" where
  "configure_all =
     seq (block
       [print_header ''Configure All Infrastructure'',
        print [Lit ''This will configure:''],
        print [Lit ''  '', Bullet, Lit '' vSAN Storage''],
        print [Lit ''  '', Bullet, Lit '' Distributed Switch (VDS)''],
        print [Lit ''  '', Bullet, Lit '' vMotion Networking''],
        print [Lit ''  '', Bullet, Lit '' NTP, DNS, Syslog Services''],
        print [Lit ''  '', Bullet, Lit '' Security Settings''],
        print []])
    (bind (confirm_action ''Proceed with full infrastructure configuration?'') (\<lambda>ok.
     if \<not> ok then print_warning [Lit ''Full configuration cancelled.'']
     else
       bind (run_powershell ''Deploy-Infrastructure.ps1''
               [(''ConfigPath'', [Path [''config.json'']]), (''SkipVCSA'', [Lit ''$true''])])
         (\<lambda>returncode.
       report returncode [Lit ''Full infrastructure configuration completed!'']
         ''Configuration failed with exit code: '')))"


subsection \<open>VM deployment functions (source lines 728 to 983)\<close>

definition print_sizes :: "unit io" where
  "print_sizes =
     for_each (\<lambda>(size, specs).
         print [Lit ''  '', Bullet, Lit '' '', Lit size, Lit '': '', Val (PInt (cpu specs)),
                Lit '' vCPU, '', Val (PInt (memory_gb specs)), Lit '' GB RAM, '',
                Val (PInt (disk_gb specs)), Lit '' GB Disk''])
       VM_SIZES"

definition deploy_vm_from_template :: "unit io" where
  "deploy_vm_from_template =
     seq display_template_menu
    (bind (get_input ''Select template'' []) (\<lambda>c.
     let choice = upper c in
     if choice = ''B'' then return ()
     else case map_of VM_TEMPLATES choice of
       None \<Rightarrow> seq (print_error [Lit ''Invalid template selection.'']) press_enter
     | Some tmpl \<Rightarrow>
     seq (block
       [print [],
        print [Lit ''Selected Template: '', Lit (name tmpl)],
        print [Lit ''Template Name:     '', Lit (template tmpl)],
        print []])
    (bind (get_input ''Enter VM Name (e.g., splunk-prod-01)'' []) (\<lambda>vm_name.
     if vm_name = [] then print_error [Lit ''VM name is required.'']
     else
     seq (print [Lit (CHR 0x0A # ''Available Sizes:'')])
    (seq print_sizes
    (bind (get_input ''Enter Size'' ''Medium'') (\<lambda>vm_size.
     case map_of VM_SIZES vm_size of
       None \<Rightarrow> print_error [Lit ''Invalid size selection.'']
     | Some size_specs \<Rightarrow>
     bind (get_input ''Enter IP Address (e.g., 192.168.1.100)'' []) (\<lambda>ip_address.
     bind (get_input ''Enter Subnet Mask'' ''255.255.255.0'') (\<lambda>netmask.
     bind (get_input ''Enter Gateway'' ''192.168.1.1'') (\<lambda>gateway.
     bind (get_input ''Enter Tag Name (e.g., Production-App)'' []) (\<lambda>tag_name.
     seq (block
       [print [],
        print_header ''VM Deployment Summary'',
        print [Lit ''  VM Name:    '', Lit vm_name],
        print [Lit ''  Template:   '', Lit (name tmpl)],
        print [Lit ''  Size:       '', Lit vm_size, Lit '' ('', Val (PInt (cpu size_specs)),
               Lit '' vCPU, '', Val (PInt (memory_gb size_specs)), Lit '' GB RAM)''],
        print [Lit ''  IP Address: '', Lit ip_address],
        print [Lit ''  Tag:        '', Lit tag_name],
        print []])
    (bind (confirm_action ''Deploy this VM?'') (\<lambda>ok.
     if \<not> ok then print_warning [Lit ''VM deployment cancelled.'']
     else
       bind load_config (\<lambda>config.
       bind (lift (sub config [''vcenter'', ''server''])) (\<lambda>server.
       bind (lift (sub config [''cluster'', ''name''])) (\<lambda>cluster.
       bind (run_powershell_command
               (deploy_vm_from_template_script server tmpl cluster vm_name size_specs tag_name))
         (\<lambda>returncode.
       report returncode [Lit ''VM '', SQ, Lit vm_name, SQ, Lit '' deployed from template!'']
         ''VM deployment failed with exit code: '')))))))))))))))))"

definition deploy_standard_vm :: "unit io" where
  "deploy_standard_vm =
     seq (print_header ''Deploy Standard Virtual Machine'')
    (bind (get_input ''Enter VM Name (e.g., rhel-web-01)'' []) (\<lambda>vm_name.
     if vm_name = [] then print_error [Lit ''VM name is required.'']
     else
     seq (print [Lit (CHR 0x0A # ''Available OS Types:'')])
    (seq (for_each (\<lambda>(key, os_type).
            print [Lit ''  '', Lit key, Lit ''. '', Lit (ljust 10 (os_name os_type)), Lit '' - '',
                   Lit (os_description os_type)])
          OS_TYPES)
    (bind (get_input ''Select OS Type'' ''1'') (\<lambda>os_choice.
     case map_of OS_TYPES os_choice of
       None \<Rightarrow> print_error [Lit ''Invalid OS type selection.'']
     | Some os_type \<Rightarrow>
     seq (print [Lit (CHR 0x0A # ''Available Sizes:'')])
    (seq print_sizes
    (bind (get_input ''Enter Size'' ''Small'') (\<lambda>vm_size.
     case map_of VM_SIZES vm_size of
       None \<Rightarrow> print_error [Lit ''Invalid size selection.'']
     | Some size_specs \<Rightarrow>
     bind (get_input ''Enter IP Address (e.g., 192.168.1.100)'' []) (\<lambda>ip_address.
     bind (get_input ''Enter Tag Name (e.g., WebApp-Linux)'' []) (\<lambda>tag_name.
     seq (block
       [print [],
        print_header ''VM Deployment Summary'',
        print [Lit ''  VM Name:    '', Lit vm_name],
        print [Lit ''  OS Type:    '', Lit (os_name os_type), Lit '' ('',
               Lit (os_description os_type), Lit '')''],
        print [Lit ''  Size:       '', Lit vm_size],
        print [Lit ''  vCPU:       '', Val (PInt (cpu size_specs))],
        print [Lit ''  Memory:     '', Val (PInt (memory_gb size_specs)), Lit '' GB''],
        print [Lit ''  Disk:       '', Val (PInt (disk_gb size_specs)), Lit '' GB''],
        print [Lit ''  IP Address: '', Lit ip_address],
        print [Lit ''  Tag:        '', Lit tag_name],
        print []])
    (bind (confirm_action ''Create this VM?'') (\<lambda>ok.
     if \<not> ok then print_warning [Lit ''VM creation cancelled.'']
     else
       bind load_config (\<lambda>config.
       bind (lift (sub config [''vcenter'', ''server''])) (\<lambda>server.
       bind (lift (sub config [''cluster'', ''name''])) (\<lambda>cluster.
       bind (run_powershell_command
               (deploy_standard_vm_script server cluster vm_name size_specs os_type tag_name))
         (\<lambda>returncode.
       report returncode [Lit ''Standard VM '', SQ, Lit vm_name, SQ, Lit '' created successfully!'']
         ''VM creation failed with exit code: ''))))))))))))))))"

subsection \<open>Status and configuration management (source lines 990 to 1054)\<close>

definition show_status :: "unit io" where
  "show_status =
     seq (print_header ''Infrastructure Status'')
    (bind load_config (\<lambda>config.
     bind (run_powershell_command show_status_script) (\<lambda>result.
     press_enter)))"

definition view_configuration :: "unit io" where
  "view_configuration =
     seq (print_header ''Current Configuration'')
    (bind load_config (\<lambda>config.
     seq (print [Lit (json_dumps config)])
     press_enter))"

definition reload_configuration :: "unit io" where
  "reload_configuration =
     seq (print_info [Lit ''Reloading configuration...''])
    (bind load_config (\<lambda>config.
     block
       [print_success [Lit ''Configuration reloaded successfully!''],
        print_f [L ''  Environment: '', G config [''environment'', ''name'']],
        print_f [L ''  vCenter:     '', G config [''vcenter'', ''server'']],
        press_enter]))"

subsection \<open>Menu handlers (source lines 1061 to 1174)\<close>

text \<open>One turn of each \<^verbatim>\<open>while True\<close> loop. A submenu's turn returns whether the loop goes
  on (\<open>False\<close> is \<^verbatim>\<open>break\<close>); the main menu's loop is only left by an exception.\<close>

definition invalid_option :: "unit io" where
  "invalid_option = seq (print_error [Lit ''Invalid option. Please try again.'']) press_enter"

definition configure_menu_turn :: "bool io" where
  "configure_menu_turn =
     seq display_configure_menu
    (bind (get_input ''Select option'' []) (\<lambda>c.
     let choice = upper c in
     if choice = ''1'' then seq configure_vsan (return True)
     else if choice = ''2'' then seq configure_vds (return True)
     else if choice = ''3'' then seq configure_vmotion (return True)
     else if choice = ''4'' then seq configure_services (return True)
     else if choice = ''5'' then seq configure_security (return True)
     else if choice = ''6'' then seq configure_all (return True)
     else if choice = ''B'' then return False
     else seq invalid_option (return True)))"

definition vm_menu_turn :: "bool io" where
  "vm_menu_turn =
     seq display_vm_menu
    (bind (get_input ''Select option'' []) (\<lambda>c.
     let choice = upper c in
     if choice = ''1'' then seq deploy_vm_from_template (return True)
     else if choice = ''2'' then seq deploy_standard_vm (return True)
     else if choice = ''B'' then return False
     else seq invalid_option (return True)))"

definition config_management_menu_turn :: "bool io" where
  "config_management_menu_turn =
     seq display_config_management_menu
    (bind (get_input ''Select option'' []) (\<lambda>c.
     let choice = upper c in
     if choice = ''1'' then seq view_configuration (return True)
     else if choice = ''7'' then seq reload_configuration (return True)
     else if choice = ''B'' then return False
     else if choice \<in> set [''2'', ''3'', ''4'', ''5'', ''6'']
       then seq (block
              [print_warning [Lit ''Configuration editing is not yet implemented.''],
               print_info [Lit ''Please edit config.json directly for now.''],
               press_enter])
            (return True)
     else seq invalid_option (return True)))"


subsection \<open>Every function only ever consumes keystrokes\<close>

text \<open>The menu loops below run until the operator leaves them or standard input ends.
  They terminate because no function puts a keystroke back and every turn of a loop that
  completes has read at least one.\<close>

definition nonincreasing :: "'a io \<Rightarrow> bool" where
  "nonincreasing m = (\<forall>w. length (keys (snd (m w))) \<le> length (keys w))"

definition consuming :: "'a io \<Rightarrow> bool" where
  "consuming m = (\<forall>w a w'. m w = (Inr a, w') \<longrightarrow> length (keys w') < length (keys w))"

named_theorems nonincr

lemma nonincreasing_return [nonincr]: "nonincreasing (return a)"
  by (simp add: nonincreasing_def return_def)

lemma nonincreasing_raise [nonincr]: "nonincreasing (raise e)"
  by (simp add: nonincreasing_def raise_def)

lemma nonincreasing_sys_exit [nonincr]: "nonincreasing (sys_exit n)"
  by (simp add: sys_exit_def nonincreasing_raise)

lemma nonincreasing_lift [nonincr]: "nonincreasing (lift r)"
  by (simp add: nonincreasing_def lift_def split: sum.splits)

lemma nonincreasing_gets [nonincr]: "nonincreasing (gets f)"
  by (simp add: nonincreasing_def gets_def)

lemma nonincreasing_emit [nonincr]: "nonincreasing (emit e)"
  by (simp add: nonincreasing_def emit_def)

lemma nonincreasing_input [nonincr]: "nonincreasing (input p)"
  by (simp add: nonincreasing_def input_def split: list.splits key.splits)

lemma nonincreasing_bind [nonincr]:
  assumes "nonincreasing m" and "\<And>a. nonincreasing (f a)"
  shows "nonincreasing (bind m f)"
proof -
  have "length (keys (snd (bind m f w))) \<le> length (keys w)" for w
  proof (cases "m w")
    case (Pair r w')
    have le: "length (keys w') \<le> length (keys w)"
      using assms(1) Pair by (auto simp: nonincreasing_def dest: spec [of _ w])
    show ?thesis
    proof (cases r)
      case (Inl e)
      with Pair le show ?thesis by (simp add: bind_def)
    next
      case (Inr a)
      have "length (keys (snd (f a w'))) \<le> length (keys w')"
        using assms(2) [of a] by (simp add: nonincreasing_def)
      with Pair Inr le show ?thesis by (simp add: bind_def)
    qed
  qed
  then show ?thesis by (simp add: nonincreasing_def)
qed

lemma nonincreasing_seq [nonincr]:
  "nonincreasing m \<Longrightarrow> nonincreasing n \<Longrightarrow> nonincreasing (seq m n)"
  by (simp add: seq_def nonincreasing_bind)

lemma nonincreasing_if [nonincr]:
  "(c \<Longrightarrow> nonincreasing a) \<Longrightarrow> (\<not> c \<Longrightarrow> nonincreasing b) \<Longrightarrow> nonincreasing (if c then a else b)"
  by simp

lemma nonincreasing_case_option [nonincr]:
  "nonincreasing a \<Longrightarrow> (\<And>x. nonincreasing (f x)) \<Longrightarrow> nonincreasing (case_option a f v)"
  by (cases v) simp_all

lemma nonincreasing_case_prod [nonincr]:
  "(\<And>a b. nonincreasing (f a b)) \<Longrightarrow> nonincreasing (case_prod f p)"
  by (cases p) simp

lemma nonincreasing_block_Nil [nonincr]: "nonincreasing (block [])"
  by (simp add: nonincreasing_return)

lemma nonincreasing_block_Cons [nonincr]:
  "nonincreasing m \<Longrightarrow> nonincreasing (block ms) \<Longrightarrow> nonincreasing (block (m # ms))"
  by (simp add: nonincreasing_seq)

lemma nonincreasing_for_each [nonincr]:
  "(\<And>x. nonincreasing (f x)) \<Longrightarrow> nonincreasing (for_each f xs)"
  by (induction xs) (simp_all add: nonincreasing_return nonincreasing_seq)

lemma nonincreasing_load_config [nonincr]: "nonincreasing load_config"
  by (simp add: nonincreasing_def load_config_def seq_def bind_def print_error_def emit_def
      sys_exit_def raise_def split: option.splits sum.splits perr.splits)

lemma nonincreasing_subprocess_run [nonincr]: "nonincreasing (subprocess_run cmd)"
  by (simp add: nonincreasing_def subprocess_run_def split: option.splits)

lemmas io_defs =
  clear_screen_def print_header_def print_success_def print_error_def print_warning_def
  print_info_def print_def get_input_def confirm_action_def press_enter_def
  run_powershell_def run_powershell_command_def print_f_def report_def script_exists_def
  print_sizes_def invalid_option_def Let_def

lemma nonincreasing_deploy_vm_from_template [nonincr]: "nonincreasing deploy_vm_from_template"
  unfolding deploy_vm_from_template_def display_template_menu_def io_defs by (intro nonincr)

lemma nonincreasing_deploy_vcenter [nonincr]: "nonincreasing deploy_vcenter"
  unfolding deploy_vcenter_def io_defs by (intro nonincr)

lemma nonincreasing_deploy_infrastructure [nonincr]: "nonincreasing deploy_infrastructure"
  unfolding deploy_infrastructure_def io_defs by (intro nonincr)

lemma nonincreasing_deploy_datacenter [nonincr]: "nonincreasing deploy_datacenter"
  unfolding deploy_datacenter_def io_defs by (intro nonincr)

lemma nonincreasing_deploy_cluster [nonincr]: "nonincreasing deploy_cluster"
  unfolding deploy_cluster_def io_defs by (intro nonincr)

lemma nonincreasing_configure_vsan [nonincr]: "nonincreasing configure_vsan"
  unfolding configure_vsan_def io_defs by (intro nonincr)

lemma nonincreasing_configure_vds [nonincr]: "nonincreasing configure_vds"
  unfolding configure_vds_def io_defs by (intro nonincr)

lemma nonincreasing_configure_vmotion [nonincr]: "nonincreasing configure_vmotion"
  unfolding configure_vmotion_def io_defs by (intro nonincr)

lemma nonincreasing_configure_services [nonincr]: "nonincreasing configure_services"
  unfolding configure_services_def io_defs by (intro nonincr)

lemma nonincreasing_configure_security [nonincr]: "nonincreasing configure_security"
  unfolding configure_security_def io_defs by (intro nonincr)

lemma nonincreasing_configure_all [nonincr]: "nonincreasing configure_all"
  unfolding configure_all_def io_defs by (intro nonincr)

lemma nonincreasing_deploy_standard_vm [nonincr]: "nonincreasing deploy_standard_vm"
  unfolding deploy_standard_vm_def io_defs by (intro nonincr)

lemma nonincreasing_show_status [nonincr]: "nonincreasing show_status"
  unfolding show_status_def io_defs by (intro nonincr)

lemma nonincreasing_view_configuration [nonincr]: "nonincreasing view_configuration"
  unfolding view_configuration_def io_defs by (intro nonincr)

lemma nonincreasing_reload_configuration [nonincr]: "nonincreasing reload_configuration"
  unfolding reload_configuration_def io_defs by (intro nonincr)


lemma consuming_input: "consuming (input p)"
  by (auto simp: consuming_def input_def split: list.splits key.splits)

lemma consuming_bind:
  assumes "consuming m" and "\<And>a. nonincreasing (f a)"
  shows "consuming (bind m f)"
proof -
  have "length (keys w'') < length (keys w)" if run: "bind m f w = (Inr b, w'')" for w b w''
  proof (cases "m w")
    case (Pair r w')
    with run obtain a where r: "r = Inr a" and rest: "f a w' = (Inr b, w'')"
      by (cases r) (auto simp: bind_def)
    from assms(1) Pair r have "length (keys w') < length (keys w)"
      by (auto simp: consuming_def)
    moreover from assms(2) [of a] rest have "length (keys w'') \<le> length (keys w')"
      by (auto simp: nonincreasing_def dest: spec [of _ w'])
    ultimately show ?thesis by simp
  qed
  then show ?thesis by (auto simp: consuming_def)
qed

lemma consuming_seq:
  assumes "nonincreasing m" and "consuming n"
  shows "consuming (seq m n)"
proof -
  have "length (keys w'') < length (keys w)" if run: "seq m n w = (Inr b, w'')" for w b w''
  proof (cases "m w")
    case (Pair r w')
    with run have rest: "n w' = (Inr b, w'')"
      by (cases r) (auto simp: seq_def bind_def)
    from assms(1) Pair have "length (keys w') \<le> length (keys w)"
      by (auto simp: nonincreasing_def dest: spec [of _ w])
    moreover from assms(2) rest have "length (keys w'') < length (keys w')"
      by (auto simp: consuming_def)
    ultimately show ?thesis by simp
  qed
  then show ?thesis by (auto simp: consuming_def)
qed

lemma consuming_get_input: "consuming (get_input prompt dflt)"
  unfolding get_input_def Let_def
  by (auto intro!: consuming_bind consuming_input nonincr)

lemma consuming_confirm_action: "consuming (confirm_action message)"
  unfolding confirm_action_def
  by (auto intro!: consuming_bind consuming_input nonincr)

lemma consuming_configure_menu_turn: "consuming configure_menu_turn"
  unfolding configure_menu_turn_def display_configure_menu_def Let_def invalid_option_def
    clear_screen_def print_header_def print_def print_error_def press_enter_def
  by (intro consuming_seq consuming_bind consuming_get_input nonincr)

lemma consuming_vm_menu_turn: "consuming vm_menu_turn"
  unfolding vm_menu_turn_def display_vm_menu_def Let_def invalid_option_def
    clear_screen_def print_header_def print_def print_error_def press_enter_def
  by (intro consuming_seq consuming_bind consuming_get_input nonincr)

lemma consuming_config_management_menu_turn: "consuming config_management_menu_turn"
  unfolding config_management_menu_turn_def display_config_management_menu_def Let_def
    invalid_option_def clear_screen_def print_header_def print_def print_error_def
    print_warning_def print_info_def press_enter_def
  by (intro consuming_seq consuming_bind consuming_get_input nonincr)

function handle_configure_menu :: "unit io" where
  "handle_configure_menu w =
     (case configure_menu_turn w of
        (Inl e, w') \<Rightarrow> (Inl e, w')
      | (Inr go_on, w') \<Rightarrow> if go_on then handle_configure_menu w' else (Inr (), w'))"
  by pat_completeness auto
termination
proof (relation "measure (\<lambda>w. length (keys w))")
  show "wf (measure (\<lambda>w. length (keys w)))" by simp
next
  fix w x w' go_on
  assume "(x, w') = configure_menu_turn w" and "x = Inr go_on"
  then have "configure_menu_turn w = (Inr go_on, w')" by simp
  with consuming_configure_menu_turn show "(w', w) \<in> measure (\<lambda>w. length (keys w))"
    by (auto simp: consuming_def)
qed

function handle_vm_menu :: "unit io" where
  "handle_vm_menu w =
     (case vm_menu_turn w of
        (Inl e, w') \<Rightarrow> (Inl e, w')
      | (Inr go_on, w') \<Rightarrow> if go_on then handle_vm_menu w' else (Inr (), w'))"
  by pat_completeness auto
termination
proof (relation "measure (\<lambda>w. length (keys w))")
  show "wf (measure (\<lambda>w. length (keys w)))" by simp
next
  fix w x w' go_on
  assume "(x, w') = vm_menu_turn w" and "x = Inr go_on"
  then have "vm_menu_turn w = (Inr go_on, w')" by simp
  with consuming_vm_menu_turn show "(w', w) \<in> measure (\<lambda>w. length (keys w))"
    by (auto simp: consuming_def)
qed

function handle_config_management_menu :: "unit io" where
  "handle_config_management_menu w =
     (case config_management_menu_turn w of
        (Inl e, w') \<Rightarrow> (Inl e, w')
      | (Inr go_on, w') \<Rightarrow> if go_on then handle_config_management_menu w' else (Inr (), w'))"
  by pat_completeness auto
termination
proof (relation "measure (\<lambda>w. length (keys w))")
  show "wf (measure (\<lambda>w. length (keys w)))" by simp
next
  fix w x w' go_on
  assume "(x, w') = config_management_menu_turn w" and "x = Inr go_on"
  then have "config_management_menu_turn w = (Inr go_on, w')" by simp
  with consuming_config_management_menu_turn
  show "(w', w) \<in> measure (\<lambda>w. length (keys w))"
    by (auto simp: consuming_def)
qed

declare handle_configure_menu.simps [simp del]
declare handle_vm_menu.simps [simp del]
declare handle_config_management_menu.simps [simp del]

lemma nonincreasing_configure_menu_turn: "nonincreasing configure_menu_turn"
  unfolding configure_menu_turn_def display_configure_menu_def display_vm_menu_def
    display_config_management_menu_def io_defs
  by (intro nonincr)

lemma nonincreasing_handle_configure_menu [nonincr]: "nonincreasing handle_configure_menu"
proof -
  have "length (keys (snd (handle_configure_menu w))) \<le> length (keys w)" for w
  proof (induction w rule: handle_configure_menu.induct)
    case (1 w)
    obtain r w' where turn: "configure_menu_turn w = (r, w')" by (cases "configure_menu_turn w")
    have le: "length (keys w') \<le> length (keys w)"
      using nonincreasing_configure_menu_turn turn
      by (auto simp: nonincreasing_def dest: spec [of _ w])
    show ?case
    proof (cases r)
      case (Inl e)
      with turn le show ?thesis by (simp add: handle_configure_menu.simps)
    next
      case (Inr go_on)
      show ?thesis
      proof (cases go_on)
        case True
        from "1.IH" [OF turn [symmetric] Inr True]
        have "length (keys (snd (handle_configure_menu w'))) \<le> length (keys w')" by simp
        with turn Inr True le show ?thesis by (simp add: handle_configure_menu.simps)
      next
        case False
        with turn Inr le show ?thesis by (simp add: handle_configure_menu.simps)
      qed
    qed
  qed
  then show ?thesis by (simp add: nonincreasing_def)
qed

lemma nonincreasing_vm_menu_turn: "nonincreasing vm_menu_turn"
  unfolding vm_menu_turn_def display_configure_menu_def display_vm_menu_def
    display_config_management_menu_def io_defs
  by (intro nonincr)

lemma nonincreasing_handle_vm_menu [nonincr]: "nonincreasing handle_vm_menu"
proof -
  have "length (keys (snd (handle_vm_menu w))) \<le> length (keys w)" for w
  proof (induction w rule: handle_vm_menu.induct)
    case (1 w)
    obtain r w' where turn: "vm_menu_turn w = (r, w')" by (cases "vm_menu_turn w")
    have le: "length (keys w') \<le> length (keys w)"
      using nonincreasing_vm_menu_turn turn
      by (auto simp: nonincreasing_def dest: spec [of _ w])
    show ?case
    proof (cases r)
      case (Inl e)
      with turn le show ?thesis by (simp add: handle_vm_menu.simps)
    next
      case (Inr go_on)
      show ?thesis
      proof (cases go_on)
        case True
        from "1.IH" [OF turn [symmetric] Inr True]
        have "length (keys (snd (handle_vm_menu w'))) \<le> length (keys w')" by simp
        with turn Inr True le show ?thesis by (simp add: handle_vm_menu.simps)
      next
        case False
        with turn Inr le show ?thesis by (simp add: handle_vm_menu.simps)
      qed
    qed
  qed
  then show ?thesis by (simp add: nonincreasing_def)
qed

lemma nonincreasing_config_management_menu_turn: "nonincreasing config_management_menu_turn"
  unfolding config_management_menu_turn_def display_configure_menu_def display_vm_menu_def
    display_config_management_menu_def io_defs
  by (intro nonincr)

lemma nonincreasing_handle_config_management_menu [nonincr]: "nonincreasing handle_config_management_menu"
proof -
  have "length (keys (snd (handle_config_management_menu w))) \<le> length (keys w)" for w
  proof (induction w rule: handle_config_management_menu.induct)
    case (1 w)
    obtain r w' where turn: "config_management_menu_turn w = (r, w')" by (cases "config_management_menu_turn w")
    have le: "length (keys w') \<le> length (keys w)"
      using nonincreasing_config_management_menu_turn turn
      by (auto simp: nonincreasing_def dest: spec [of _ w])
    show ?case
    proof (cases r)
      case (Inl e)
      with turn le show ?thesis by (simp add: handle_config_management_menu.simps)
    next
      case (Inr go_on)
      show ?thesis
      proof (cases go_on)
        case True
        from "1.IH" [OF turn [symmetric] Inr True]
        have "length (keys (snd (handle_config_management_menu w'))) \<le> length (keys w')" by simp
        with turn Inr True le show ?thesis by (simp add: handle_config_management_menu.simps)
      next
        case False
        with turn Inr le show ?thesis by (simp add: handle_config_management_menu.simps)
      qed
    qed
  qed
  then show ?thesis by (simp add: nonincreasing_def)
qed


text \<open>The body of the \<^verbatim>\<open>try\<close> in \<^verbatim>\<open>main\<close> (source lines 1141 to 1167).\<close>

definition main_select :: "unit io" where
  "main_select =
     seq display_main_menu
    (bind (get_input ''Select option'' []) (\<lambda>c.
     let choice = upper c in
     if choice = ''1'' then deploy_vcenter
     else if choice = ''2'' then deploy_infrastructure
     else if choice = ''3'' then deploy_datacenter
     else if choice = ''4'' then deploy_cluster
     else if choice = ''5'' then handle_configure_menu
     else if choice = ''6'' then handle_vm_menu
     else if choice = ''C'' then handle_config_management_menu
     else if choice = ''S'' then show_status
     else if choice = ''Q'' then
       block
         [print [],
          print_info [Lit ''Thank you for using ECST VMware Automation Tool!''],
          print [],
          sys_exit 0]
     else invalid_option))"

text \<open>One turn of the main loop: the body, and the \<^verbatim>\<open>except KeyboardInterrupt\<close> handler
  (source lines 1169 to 1173).\<close>

definition interrupted :: "unit io" where
  "interrupted =
     seq (print [])
    (seq (print_warning [Lit ''Operation cancelled by user.''])
    (bind (confirm_action ''Do you want to exit?'') (\<lambda>yes.
     if yes then sys_exit 0 else return ())))"

definition main_turn :: "unit io" where
  "main_turn w =
     (case main_select w of
        (Inl KeyboardInterrupt, w') \<Rightarrow> interrupted w'
      | r \<Rightarrow> r)"

lemma nonincreasing_main_select: "nonincreasing main_select"
  unfolding main_select_def display_main_menu_def io_defs by (intro nonincr)

lemma consuming_main_select: "consuming main_select"
  unfolding main_select_def display_main_menu_def Let_def invalid_option_def
    clear_screen_def print_header_def print_def print_f_def print_error_def print_info_def
    press_enter_def
  by (intro consuming_seq consuming_bind consuming_get_input nonincr)

lemma consuming_interrupted: "consuming interrupted"
  unfolding interrupted_def print_def print_warning_def
  by (intro consuming_seq consuming_bind consuming_confirm_action nonincr)

lemma consuming_main_turn: "consuming main_turn"
proof -
  have "length (keys w'') < length (keys w)" if run: "main_turn w = (Inr a, w'')" for w a w''
  proof (cases "main_select w")
    case (Pair r w')
    have le: "length (keys w') \<le> length (keys w)"
      using nonincreasing_main_select Pair
      by (auto simp: nonincreasing_def dest: spec [of _ w])
    show ?thesis
    proof (cases "r = Inl KeyboardInterrupt")
      case True
      with run Pair have "interrupted w' = (Inr a, w'')" by (simp add: main_turn_def)
      with consuming_interrupted have "length (keys w'') < length (keys w')"
        by (auto simp: consuming_def)
      with le show ?thesis by simp
    next
      case False
      with run Pair have "main_select w = (Inr a, w'')"
        by (auto simp: main_turn_def split: sum.splits exc.splits)
      with consuming_main_select show ?thesis by (auto simp: consuming_def)
    qed
  qed
  then show ?thesis by (auto simp: consuming_def)
qed

function main_loop :: "unit io" where
  "main_loop w =
     (case main_turn w of
        (Inl e, w') \<Rightarrow> (Inl e, w')
      | (Inr u, w') \<Rightarrow> main_loop w')"
  by pat_completeness auto
termination
proof (relation "measure (\<lambda>w. length (keys w))")
  show "wf (measure (\<lambda>w. length (keys w)))" by simp
next
  fix w x w' u
  assume "(x, w') = main_turn w" and "x = Inr u"
  then have "main_turn w = (Inr u, w')" by simp
  with consuming_main_turn show "(w', w) \<in> measure (\<lambda>w. length (keys w))"
    by (auto simp: consuming_def)
qed

declare main_loop.simps [simp del]

definition main :: "unit io" where
  "main =
     seq (bind (gets nt) (\<lambda>windows.
       if \<not> windows then
         block
           [print_warning [Lit ''This tool is designed for Windows with PowerShell.''],
            print_warning [Lit ''Some features may not work correctly on other platforms.'']]
       else return ()))
    (seq (bind (gets config_file) (\<lambda>file.
       if file = None then
         block
           [print_error [Lit ''Configuration file not found: '', Path [''config.json'']],
            print_info [Lit ''Please create a config.json file before running this tool.''],
            sys_exit 1]
       else return ()))
     main_loop)"

section \<open>What a run shows, invokes and returns\<close>

definition shown :: "'a io \<Rightarrow> world \<Rightarrow> event list" where
  "shown m w = drop (length (out w)) (out (snd (m w)))"

definition invoked :: "'a io \<Rightarrow> world \<Rightarrow> invocation list" where
  "invoked m w = drop (length (calls w)) (calls (snd (m w)))"

definition result :: "'a io \<Rightarrow> world \<Rightarrow> exc + 'a" where
  "result m w = fst (m w)"

lemma shownI: "out (snd (m w)) = out w @ evs \<Longrightarrow> shown m w = evs"
  by (simp add: shown_def)

lemma invokedI: "calls (snd (m w)) = calls w @ cs \<Longrightarrow> invoked m w = cs"
  by (simp add: invoked_def)

subsection \<open>Events a function never shows\<close>

text \<open>\<open>silent c F m\<close>: the function \<open>m\<close> only appends to the output and to the invocations,
  leaves the backend alone, shows no event that satisfies \<open>F\<close>, and invokes nothing unless
  \<open>c\<close>. \<open>asked p bad\<close> holds of a reply at the prompt \<open>p\<close> that satisfies \<open>bad\<close>.\<close>

fun asked :: "string \<Rightarrow> (string \<Rightarrow> bool) \<Rightarrow> event \<Rightarrow> bool" where
  "asked p bad (Input p' l) = (p' = p \<and> bad l)"
| "asked p bad e = False"

definition silent :: "bool \<Rightarrow> (event \<Rightarrow> bool) \<Rightarrow> 'a io \<Rightarrow> bool" where
  "silent c F m =
     (\<forall>w. \<exists>evs cs. out (snd (m w)) = out w @ evs \<and> calls (snd (m w)) = calls w @ cs
        \<and> (c \<or> cs = []) \<and> powershell (snd (m w)) = powershell w
        \<and> list_all (\<lambda>e. \<not> F e) evs)"

named_theorems silent_intros

lemma silent_return [silent_intros]: "silent c F (return a)"
  by (simp add: silent_def return_def)

lemma silent_raise [silent_intros]: "silent c F (raise e)"
  by (simp add: silent_def raise_def)

lemma silent_sys_exit [silent_intros]: "silent c F (sys_exit n)"
  by (simp add: sys_exit_def silent_raise)

lemma silent_lift [silent_intros]: "silent c F (lift r)"
  by (simp add: silent_def lift_def split: sum.splits)

lemma silent_gets [silent_intros]: "silent c F (gets f)"
  by (simp add: silent_def gets_def)

lemma silent_emit [silent_intros]: "\<not> F e \<Longrightarrow> silent c F (emit e)"
  by (simp add: silent_def emit_def)

lemma silent_input [silent_intros]:
  "(\<forall>l. \<not> F (Input p l)) \<Longrightarrow> \<not> F (Prompt p) \<Longrightarrow> silent c F (input p)"
  by (auto simp: silent_def input_def split: list.splits key.splits)

lemma silent_subprocess_run [silent_intros]: "silent True F (subprocess_run cmd)"
proof -
  have "\<exists>evs cs. out (snd (subprocess_run cmd w)) = out w @ evs
          \<and> calls (snd (subprocess_run cmd w)) = calls w @ cs
          \<and> powershell (snd (subprocess_run cmd w)) = powershell w
          \<and> list_all (\<lambda>e. \<not> F e) evs" for w
    by (rule exI [of _ "[]"], rule exI [of _ "[cmd]"])
       (simp add: subprocess_run_def split: option.splits)
  then show ?thesis by (simp add: silent_def)
qed

lemma silent_bind [silent_intros]:
  assumes "silent c F m" and "\<And>a. silent c F (f a)"
  shows "silent c F (bind m f)"
proof -
  have "\<exists>evs cs. out (snd (bind m f w)) = out w @ evs \<and> calls (snd (bind m f w)) = calls w @ cs
        \<and> (c \<or> cs = []) \<and> powershell (snd (bind m f w)) = powershell w
        \<and> list_all (\<lambda>e. \<not> F e) evs" for w
  proof (cases "m w")
    case (Pair r w')
    from assms(1) obtain evs cs where m: "out (snd (m w)) = out w @ evs"
      "calls (snd (m w)) = calls w @ cs" "c \<or> cs = []"
      "powershell (snd (m w)) = powershell w" "list_all (\<lambda>e. \<not> F e) evs"
      unfolding silent_def by blast
    show ?thesis
    proof (cases r)
      case (Inl e)
      with Pair m have "out (snd (bind m f w)) = out w @ evs
        \<and> calls (snd (bind m f w)) = calls w @ cs
        \<and> (c \<or> cs = []) \<and> powershell (snd (bind m f w)) = powershell w
        \<and> list_all (\<lambda>e. \<not> F e) evs"
        by (simp add: bind_def)
      then show ?thesis by blast
    next
      case (Inr a)
      from assms(2) [of a] obtain evs' cs' where f: "out (snd (f a w')) = out w' @ evs'"
        "calls (snd (f a w')) = calls w' @ cs'" "c \<or> cs' = []"
        "powershell (snd (f a w')) = powershell w'"
        "list_all (\<lambda>e. \<not> F e) evs'"
        unfolding silent_def by blast
      with Pair Inr m have "out (snd (bind m f w)) = out w @ (evs @ evs')
        \<and> calls (snd (bind m f w)) = calls w @ (cs @ cs')
        \<and> (c \<or> cs @ cs' = []) \<and> powershell (snd (bind m f w)) = powershell w
        \<and> list_all (\<lambda>e. \<not> F e) (evs @ evs')"
        by (auto simp: bind_def)
      then show ?thesis by blast
    qed
  qed
  then show ?thesis by (simp add: silent_def)
qed

lemma silent_seq [silent_intros]:
  "silent c F m \<Longrightarrow> silent c F n \<Longrightarrow> silent c F (seq m n)"
  by (simp add: seq_def silent_bind)

lemma silent_if [silent_intros]:
  "(b \<Longrightarrow> silent c F x) \<Longrightarrow> (\<not> b \<Longrightarrow> silent c F y) \<Longrightarrow> silent c F (if b then x else y)"
  by simp

lemma silent_case_option [silent_intros]:
  "silent c F a \<Longrightarrow> (\<And>x. silent c F (f x)) \<Longrightarrow> silent c F (case_option a f v)"
  by (cases v) simp_all

lemma silent_case_prod [silent_intros]:
  "(\<And>a b. silent c F (f a b)) \<Longrightarrow> silent c F (case_prod f x)"
  by (cases x) simp

lemma silent_block_Nil [silent_intros]: "silent c F (block [])"
  by (simp add: silent_return)

lemma silent_block_Cons [silent_intros]:
  "silent c F m \<Longrightarrow> silent c F (block ms) \<Longrightarrow> silent c F (block (m # ms))"
  by (simp add: silent_seq)

lemma silent_for_each [silent_intros]:
  "(\<And>x. silent c F (f x)) \<Longrightarrow> silent c F (for_each f xs)"
  by (induction xs) (simp_all add: silent_return silent_seq)

lemma silent_load_config [silent_intros]:
  "\<not> F (Error [Lit ''Configuration file not found: '', Path [''config.json'']])
   \<Longrightarrow> \<not> F (Error [Lit ''Invalid JSON in configuration file: '', Detail])
   \<Longrightarrow> silent c F load_config"
  by (simp add: silent_def load_config_def seq_def bind_def print_error_def emit_def
      sys_exit_def raise_def split: option.splits sum.splits perr.splits)

lemma silent_clear_screen [silent_intros]: "\<not> F ClearScreen \<Longrightarrow> silent c F clear_screen"
  by (simp add: clear_screen_def silent_emit)

lemma silent_print_header [silent_intros]:
  "\<not> F (Header title) \<Longrightarrow> silent c F (print_header title)"
  by (simp add: print_header_def silent_emit)

lemma silent_print_success [silent_intros]:
  "\<not> F (Success message) \<Longrightarrow> silent c F (print_success message)"
  by (simp add: print_success_def silent_emit)

lemma silent_print_error [silent_intros]:
  "\<not> F (Error message) \<Longrightarrow> silent c F (print_error message)"
  by (simp add: print_error_def silent_emit)

lemma silent_print_warning [silent_intros]:
  "\<not> F (Warning message) \<Longrightarrow> silent c F (print_warning message)"
  by (simp add: print_warning_def silent_emit)

lemma silent_print_info [silent_intros]:
  "\<not> F (Info message) \<Longrightarrow> silent c F (print_info message)"
  by (simp add: print_info_def silent_emit)

lemma silent_print [silent_intros]: "\<not> F (Print message) \<Longrightarrow> silent c F (print message)"
  by (simp add: print_def silent_emit)

lemma silent_print_f [silent_intros]:
  "\<forall>message. \<not> F (Print message) \<Longrightarrow> silent c F (print_f parts)"
  unfolding print_f_def by (intro silent_intros) simp

lemma silent_script_exists [silent_intros]: "silent c F (script_exists script)"
  unfolding script_exists_def by (intro silent_intros)

lemma silent_print_sizes [silent_intros]:
  "\<forall>message. \<not> F (Print message) \<Longrightarrow> silent c F print_sizes"
  unfolding print_sizes_def by (intro silent_intros) simp

definition prompt_of :: "string \<Rightarrow> string \<Rightarrow> string" where
  "prompt_of prompt dflt = (if dflt \<noteq> [] then prompt @ '' ['' @ dflt @ '']: '' else prompt @ '': '')"

definition press_prompt :: string where
  "press_prompt = CHR 0x0A # ''Press Enter to continue...''"

lemma silent_get_input [silent_intros]:
  "(\<forall>l. \<not> F (Input (prompt_of prompt dflt) l)) \<Longrightarrow> \<not> F (Prompt (prompt_of prompt dflt))
   \<Longrightarrow> silent c F (get_input prompt dflt)"
  unfolding get_input_def Let_def prompt_of_def
  by (intro silent_intros; simp)

lemma silent_confirm_action [silent_intros]:
  "(\<forall>l. \<not> F (Input (confirm_prompt message) l)) \<Longrightarrow> \<not> F (Prompt (confirm_prompt message))
   \<Longrightarrow> silent c F (confirm_action message)"
  unfolding confirm_action_def by (intro silent_intros; simp)

lemma silent_press_enter [silent_intros]:
  "(\<forall>l. \<not> F (Input press_prompt l)) \<Longrightarrow> \<not> F (Prompt press_prompt) \<Longrightarrow> silent c F press_enter"
  unfolding press_enter_def press_prompt_def by (intro silent_intros; simp)

lemma silent_invalid_option [silent_intros]:
  "(\<forall>l. \<not> F (Input press_prompt l)) \<Longrightarrow> \<not> F (Prompt press_prompt)
   \<Longrightarrow> \<not> F (Error [Lit ''Invalid option. Please try again.''])
   \<Longrightarrow> silent c F invalid_option"
  unfolding invalid_option_def by (intro silent_intros; simp)

lemma silent_report [silent_intros]:
  "(\<forall>l. \<not> F (Input press_prompt l)) \<Longrightarrow> \<not> F (Prompt press_prompt)
   \<Longrightarrow> \<not> F (Success ok) \<Longrightarrow> \<not> F (Error [Lit failed, Val (PInt returncode)])
   \<Longrightarrow> silent c F (report returncode ok failed)"
  unfolding report_def by (intro silent_intros; simp)

lemma silent_run_powershell [silent_intros]:
  "\<forall>message. \<not> F (Info message) \<Longrightarrow> \<not> F Rule \<Longrightarrow> silent True F (run_powershell script params)"
  unfolding run_powershell_def Let_def by (intro silent_intros; simp)

lemma silent_run_powershell_command [silent_intros]:
  "\<forall>message. \<not> F (Info message) \<Longrightarrow> \<not> F Rule \<Longrightarrow> silent True F (run_powershell_command command)"
  unfolding run_powershell_command_def Let_def by (intro silent_intros; simp)

lemma silent_shown: "silent c F m \<Longrightarrow> list_all (\<lambda>e. \<not> F e) (shown m w)"
  unfolding silent_def shown_def
proof -
  assume "\<forall>w. \<exists>evs cs. out (snd (m w)) = out w @ evs \<and> calls (snd (m w)) = calls w @ cs
        \<and> (c \<or> cs = []) \<and> powershell (snd (m w)) = powershell w
        \<and> list_all (\<lambda>e. \<not> F e) evs"
  then obtain evs where "out (snd (m w)) = out w @ evs" "list_all (\<lambda>e. \<not> F e) evs" by blast
  then show "list_all (\<lambda>e. \<not> F e) (drop (length (out w)) (out (snd (m w))))" by simp
qed

subsection \<open>Guards\<close>

text \<open>\<open>guarded F Q m\<close>: whenever a run of \<open>m\<close> shows an event that satisfies \<open>F\<close> (a bad reply
  at some prompt), it has invoked nothing and its result and output satisfy \<open>Q\<close>.\<close>

definition guarded ::
  "(event \<Rightarrow> bool) \<Rightarrow> ((exc + unit) \<Rightarrow> event list \<Rightarrow> bool) \<Rightarrow> unit io \<Rightarrow> bool" where
  "guarded F Q m =
     (\<forall>w. \<exists>evs. out (snd (m w)) = out w @ evs
        \<and> (list_ex F evs \<longrightarrow> calls (snd (m w)) = calls w \<and> Q (fst (m w)) evs))"

definition stable :: "((exc + unit) \<Rightarrow> event list \<Rightarrow> bool) \<Rightarrow> bool" where
  "stable Q = (\<forall>r pre evs. evs \<noteq> [] \<longrightarrow> Q r evs \<longrightarrow> Q r (pre @ evs))"

lemma guarded_bind:
  assumes "silent False F m" and "stable Q" and "\<And>a. guarded F Q (f a)"
  shows "guarded F Q (bind m f)"
proof -
  have "\<exists>evs. out (snd (bind m f w)) = out w @ evs
        \<and> (list_ex F evs
            \<longrightarrow> calls (snd (bind m f w)) = calls w \<and> Q (fst (bind m f w)) evs)" for w
  proof (cases "m w")
    case (Pair r w')
    from assms(1) obtain evs where m: "out (snd (m w)) = out w @ evs"
      "calls (snd (m w)) = calls w" "list_all (\<lambda>e. \<not> F e) evs"
      unfolding silent_def by force
    then have no: "\<not> list_ex F evs"
      by (simp add: list_all_iff list_ex_iff)
    show ?thesis
    proof (cases r)
      case (Inl e)
      with Pair m no show ?thesis by (auto simp: bind_def)
    next
      case (Inr a)
      from assms(3) [of a] obtain evs' where f: "out (snd (f a w')) = out w' @ evs'"
        "list_ex F evs' \<longrightarrow> calls (snd (f a w')) = calls w' \<and> Q (fst (f a w')) evs'"
        unfolding guarded_def by blast
      have "list_ex F (evs @ evs') \<longrightarrow>
            calls (snd (f a w')) = calls w \<and> Q (fst (f a w')) (evs @ evs')"
      proof
        assume "list_ex F (evs @ evs')"
        with no have ex: "list_ex F evs'" by (auto simp: list_ex_iff)
        then have "evs' \<noteq> []" by auto
        with f ex assms(2) Pair m
        show "calls (snd (f a w')) = calls w \<and> Q (fst (f a w')) (evs @ evs')"
          by (auto simp: stable_def)
      qed
      with Pair Inr m f show ?thesis by (auto simp: bind_def)
    qed
  qed
  then show ?thesis by (simp add: guarded_def)
qed

lemma guarded_seq:
  "silent False F m \<Longrightarrow> stable Q \<Longrightarrow> guarded F Q n \<Longrightarrow> guarded F Q (seq m n)"
  by (simp add: seq_def guarded_bind)

lemma guarded_silent: "silent c F m \<Longrightarrow> guarded F Q m"
  unfolding guarded_def silent_def
  by (metis list_all_iff list_ex_iff)

lemma guarded_if:
  "(b \<Longrightarrow> guarded F Q x) \<Longrightarrow> (\<not> b \<Longrightarrow> guarded F Q y) \<Longrightarrow> guarded F Q (if b then x else y)"
  by simp

lemma guarded_case_option:
  "guarded F Q a \<Longrightarrow> (\<And>x. guarded F Q (f x)) \<Longrightarrow> guarded F Q (case_option a f v)"
  by (cases v) simp_all

lemma guardedD:
  assumes "guarded (asked p bad) Q m" and "Input p l \<in> set (shown m w)" and "bad l"
  shows "invoked m w = [] \<and> Q (result m w) (shown m w)"
proof -
  from assms(1) obtain evs where e: "out (snd (m w)) = out w @ evs"
    "list_ex (asked p bad) evs \<longrightarrow> calls (snd (m w)) = calls w \<and> Q (fst (m w)) evs"
    unfolding guarded_def by blast
  then have s: "shown m w = evs" by (simp add: shown_def)
  with assms(2,3) have "list_ex (asked p bad) evs"
    by (auto simp: list_ex_iff intro!: bexI [of _ "Input p l"])
  with e s show ?thesis by (simp add: invoked_def result_def)
qed

text \<open>What a bad reply leads to: the function returns and its last output is the message
  \<open>e\<close>.\<close>

definition ends_with :: "event \<Rightarrow> (exc + unit) \<Rightarrow> event list \<Rightarrow> bool" where
  "ends_with e r evs = (r = Inr () \<and> last evs = e)"

lemma stable_ends_with: "stable (ends_with e)"
  by (simp add: stable_def ends_with_def)

text \<open>How the acknowledgement prompt ends: the operator presses Enter and the function
  returns, or standard input ends, or the operator interrupts.\<close>

fun acknowledged :: "event \<Rightarrow> (exc + unit) \<Rightarrow> bool" where
  "acknowledged (Input p l) r = (p = press_prompt \<and> r = Inr ())"
| "acknowledged (Prompt p) r = (p = press_prompt \<and> (r = Inl EOFError \<or> r = Inl KeyboardInterrupt))"
| "acknowledged e r = False"

definition ends_acknowledged :: "event \<Rightarrow> (exc + unit) \<Rightarrow> event list \<Rightarrow> bool" where
  "ends_acknowledged e r evs =
     (2 \<le> length evs \<and> last (butlast evs) = e \<and> acknowledged (last evs) r)"

lemma butlast_not_Nil: "2 \<le> length xs \<Longrightarrow> butlast xs \<noteq> []"
  by (cases xs) (auto split: if_splits)

lemma stable_ends_acknowledged: "stable (ends_acknowledged e)"
  by (auto simp: stable_def ends_acknowledged_def butlast_append butlast_not_Nil)

subsection \<open>The confirmation gate\<close>

lemma guarded_gate:
  assumes "silent True (asked (confirm_prompt q) (\<lambda>l. \<not> affirmative l)) act"
  shows "guarded (asked (confirm_prompt q) (\<lambda>l. \<not> affirmative l)) (ends_with (Warning c))
           (bind (confirm_action q) (\<lambda>ok. if \<not> ok then print_warning c else act))"
proof -
  let ?F = "asked (confirm_prompt q) (\<lambda>l. \<not> affirmative l)"
  let ?m = "bind (confirm_action q) (\<lambda>ok. if \<not> ok then print_warning c else act)"
  have "\<exists>evs. out (snd (?m w)) = out w @ evs
        \<and> (list_ex ?F evs
            \<longrightarrow> calls (snd (?m w)) = calls w \<and> ends_with (Warning c) (fst (?m w)) evs)" for w
  proof (cases "keys w")
    case Nil
    then show ?thesis by (simp add: confirm_action_def bind_def input_def)
  next
    case (Cons k ks)
    show ?thesis
    proof (cases k)
      case CtrlC
      with Cons show ?thesis by (simp add: confirm_action_def bind_def input_def)
    next
      case (Line l)
      show ?thesis
      proof (cases "affirmative l")
        case False
        with Cons Line show ?thesis
          by (simp add: confirm_action_def bind_def input_def return_def print_warning_def
              emit_def ends_with_def)
      next
        case True
        let ?w1 = "w\<lparr>keys := ks, out := out w @ [Input (confirm_prompt q) l]\<rparr>"
        from assms obtain evs where a: "out (snd (act ?w1)) = out ?w1 @ evs"
          "list_all (\<lambda>e. \<not> ?F e) evs"
          unfolding silent_def by blast
        from a(2) have "\<not> list_ex ?F evs" by (simp add: list_all_iff list_ex_iff)
        with True Cons Line a(1) show ?thesis
          by (simp add: confirm_action_def bind_def input_def return_def)
      qed
    qed
  qed
  then show ?thesis by (simp add: guarded_def)
qed

lemmas guarded_intros =
  guarded_bind guarded_seq guarded_if guarded_case_option stable_ends_with
  stable_ends_acknowledged

lemmas prompt_defs = confirm_prompt_def prompt_of_def press_prompt_def


lemma gate_deploy_vcenter:
  "guarded (asked (confirm_prompt ''Do you want to proceed with VCSA deployment?'') (\<lambda>l. \<not> affirmative l))
     (ends_with (Warning [Lit ''VCSA deployment cancelled.''])) deploy_vcenter"
  unfolding deploy_vcenter_def
  by (intro guarded_gate guarded_intros;
      (intro guarded_silent [of True] silent_intros)?; simp add: prompt_defs)

lemma gate_deploy_infrastructure:
  "guarded (asked (confirm_prompt ''Do you want to proceed with full infrastructure deployment?'') (\<lambda>l. \<not> affirmative l))
     (ends_with (Warning [Lit ''Infrastructure deployment cancelled.''])) deploy_infrastructure"
  unfolding deploy_infrastructure_def
  by (intro guarded_gate guarded_intros;
      (intro guarded_silent [of True] silent_intros)?; simp add: prompt_defs)

lemma gate_deploy_datacenter:
  "guarded (asked (confirm_prompt ''Create this datacenter?'') (\<lambda>l. \<not> affirmative l))
     (ends_with (Warning [Lit ''Datacenter creation cancelled.''])) deploy_datacenter"
  unfolding deploy_datacenter_def
  by (intro guarded_gate guarded_intros;
      (intro guarded_silent [of True] silent_intros)?; simp add: prompt_defs)

lemma gate_deploy_cluster:
  "guarded (asked (confirm_prompt ''Create this cluster?'') (\<lambda>l. \<not> affirmative l))
     (ends_with (Warning [Lit ''Cluster creation cancelled.''])) deploy_cluster"
  unfolding deploy_cluster_def
  by (intro guarded_gate guarded_intros;
      (intro guarded_silent [of True] silent_intros)?; simp add: prompt_defs)

lemma gate_configure_vsan:
  "guarded (asked (confirm_prompt ''Configure vSAN with these settings?'') (\<lambda>l. \<not> affirmative l))
     (ends_with (Warning [Lit ''vSAN configuration cancelled.''])) configure_vsan"
  unfolding configure_vsan_def
  by (intro guarded_gate guarded_intros;
      (intro guarded_silent [of True] silent_intros)?; simp add: prompt_defs)

lemma gate_configure_vds:
  "guarded (asked (confirm_prompt ''Configure VDS with these settings?'') (\<lambda>l. \<not> affirmative l))
     (ends_with (Warning [Lit ''VDS configuration cancelled.''])) configure_vds"
  unfolding configure_vds_def
  by (intro guarded_gate guarded_intros;
      (intro guarded_silent [of True] silent_intros)?; simp add: prompt_defs)

lemma gate_configure_vmotion:
  "guarded (asked (confirm_prompt ''Configure vMotion with these settings?'') (\<lambda>l. \<not> affirmative l))
     (ends_with (Warning [Lit ''vMotion configuration cancelled.''])) configure_vmotion"
  unfolding configure_vmotion_def
  by (intro guarded_gate guarded_intros;
      (intro guarded_silent [of True] silent_intros)?; simp add: prompt_defs)

lemma gate_configure_services:
  "guarded (asked (confirm_prompt ''Configure services with these settings?'') (\<lambda>l. \<not> affirmative l))
     (ends_with (Warning [Lit ''Service configuration cancelled.''])) configure_services"
  unfolding configure_services_def
  by (intro guarded_gate guarded_intros;
      (intro guarded_silent [of True] silent_intros)?; simp add: prompt_defs)

lemma gate_configure_security:
  "guarded (asked (confirm_prompt ''Apply these security settings?'') (\<lambda>l. \<not> affirmative l))
     (ends_with (Warning [Lit ''Security configuration cancelled.''])) configure_security"
  unfolding configure_security_def
  by (intro guarded_gate guarded_intros;
      (intro guarded_silent [of True] silent_intros)?; simp add: prompt_defs)

lemma gate_configure_all:
  "guarded (asked (confirm_prompt ''Proceed with full infrastructure configuration?'') (\<lambda>l. \<not> affirmative l))
     (ends_with (Warning [Lit ''Full configuration cancelled.''])) configure_all"
  unfolding configure_all_def
  by (intro guarded_gate guarded_intros;
      (intro guarded_silent [of True] silent_intros)?; simp add: prompt_defs)

lemma gate_deploy_vm_from_template:
  "guarded (asked (confirm_prompt ''Deploy this VM?'') (\<lambda>l. \<not> affirmative l))
     (ends_with (Warning [Lit ''VM deployment cancelled.''])) deploy_vm_from_template"
  unfolding deploy_vm_from_template_def display_template_menu_def Let_def
  by (intro guarded_gate guarded_intros;
      (intro guarded_silent [of True] silent_intros)?; simp add: prompt_defs)

lemma gate_deploy_standard_vm:
  "guarded (asked (confirm_prompt ''Create this VM?'') (\<lambda>l. \<not> affirmative l))
     (ends_with (Warning [Lit ''VM creation cancelled.''])) deploy_standard_vm"
  unfolding deploy_standard_vm_def
  by (intro guarded_gate guarded_intros;
      (intro guarded_silent [of True] silent_intros)?; simp add: prompt_defs)

section \<open>The claims\<close>

subsection \<open>Catalog lookups\<close>

text \<open>C3, as the specification states it: the size selector \<^verbatim>\<open>"2"\<close> resolves to
  4 CPUs, 8 GB of memory and a 100 GB disk. The size catalog is keyed by the size names,
  so \<^verbatim>\<open>"2"\<close> resolves to nothing.\<close>

theorem size_selector_2_counterexample:
  "map_of VM_SIZES ''2'' \<noteq> Some \<lparr>cpu = 4, memory_gb = 8, disk_gb = 100\<rparr>"
  by (simp add: VM_SIZES_def)

text \<open>C3, amended: the size selector \<^verbatim>\<open>"Medium"\<close> resolves to exactly 4 CPUs, 8 GB of memory
  and a 100 GB disk; the selectors of the size catalog are the four size names, and
  \<^verbatim>\<open>"2"\<close> is none of them.\<close>

theorem size_selector_medium:
  "map_of VM_SIZES ''Medium'' = Some \<lparr>cpu = 4, memory_gb = 8, disk_gb = 100\<rparr>
   \<and> map fst VM_SIZES = [''Small'', ''Medium'', ''Large'', ''XLarge'']
   \<and> map_of VM_SIZES ''2'' = None"
  by (simp add: VM_SIZES_def)

text \<open>C8: the template selector \<^verbatim>\<open>"1"\<close> resolves to the template identifier
  \<^verbatim>\<open>template-splunk-enterprise\<close>.\<close>

theorem template_selector_1:
  "map_option template (map_of VM_TEMPLATES ''1'') = Some ''template-splunk-enterprise''"
  by (simp add: VM_TEMPLATES_def)

subsection \<open>The confirmation gate\<close>

text \<open>The twelve deployment and configuration functions, each with the question it asks
  before it invokes the backend and the message it prints when the operator declines.\<close>

datatype operation =
    DeployVCSA | DeployInfrastructure | DeployDatacenter | DeployCluster
  | ConfigureVsan | ConfigureVds | ConfigureVmotion | ConfigureServices | ConfigureSecurity
  | ConfigureAll | DeployVmFromTemplate | DeployStandardVm

fun run_operation :: "operation \<Rightarrow> unit io" where
  "run_operation DeployVCSA = deploy_vcenter"
| "run_operation DeployInfrastructure = deploy_infrastructure"
| "run_operation DeployDatacenter = deploy_datacenter"
| "run_operation DeployCluster = deploy_cluster"
| "run_operation ConfigureVsan = configure_vsan"
| "run_operation ConfigureVds = configure_vds"
| "run_operation ConfigureVmotion = configure_vmotion"
| "run_operation ConfigureServices = configure_services"
| "run_operation ConfigureSecurity = configure_security"
| "run_operation ConfigureAll = configure_all"
| "run_operation DeployVmFromTemplate = deploy_vm_from_template"
| "run_operation DeployStandardVm = deploy_standard_vm"

fun question :: "operation \<Rightarrow> string" where
  "question DeployVCSA = ''Do you want to proceed with VCSA deployment?''"
| "question DeployInfrastructure = ''Do you want to proceed with full infrastructure deployment?''"
| "question DeployDatacenter = ''Create this datacenter?''"
| "question DeployCluster = ''Create this cluster?''"
| "question ConfigureVsan = ''Configure vSAN with these settings?''"
| "question ConfigureVds = ''Configure VDS with these settings?''"
| "question ConfigureVmotion = ''Configure vMotion with these settings?''"
| "question ConfigureServices = ''Configure services with these settings?''"
| "question ConfigureSecurity = ''Apply these security settings?''"
| "question ConfigureAll = ''Proceed with full infrastructure configuration?''"
| "question DeployVmFromTemplate = ''Deploy this VM?''"
| "question DeployStandardVm = ''Create this VM?''"

fun cancellation :: "operation \<Rightarrow> string" where
  "cancellation DeployVCSA = ''VCSA deployment cancelled.''"
| "cancellation DeployInfrastructure = ''Infrastructure deployment cancelled.''"
| "cancellation DeployDatacenter = ''Datacenter creation cancelled.''"
| "cancellation DeployCluster = ''Cluster creation cancelled.''"
| "cancellation ConfigureVsan = ''vSAN configuration cancelled.''"
| "cancellation ConfigureVds = ''VDS configuration cancelled.''"
| "cancellation ConfigureVmotion = ''vMotion configuration cancelled.''"
| "cancellation ConfigureServices = ''Service configuration cancelled.''"
| "cancellation ConfigureSecurity = ''Security configuration cancelled.''"
| "cancellation ConfigureAll = ''Full configuration cancelled.''"
| "cancellation DeployVmFromTemplate = ''VM deployment cancelled.''"
| "cancellation DeployStandardVm = ''VM creation cancelled.''"

lemma gate_run_operation:
  "guarded (asked (confirm_prompt (question op)) (\<lambda>l. \<not> affirmative l))
     (ends_with (Warning [Lit (cancellation op)])) (run_operation op)"
  by (cases op)
     (simp_all add: gate_deploy_vcenter gate_deploy_infrastructure gate_deploy_datacenter
        gate_deploy_cluster gate_configure_vsan gate_configure_vds gate_configure_vmotion
        gate_configure_services gate_configure_security gate_configure_all
        gate_deploy_vm_from_template gate_deploy_standard_vm)

text \<open>A console at start-up: nothing shown, nothing invoked, every script file present,
  running on Windows.\<close>

definition console ::
  "key list \<Rightarrow> string option \<Rightarrow> (nat \<Rightarrow> invocation \<Rightarrow> int option) \<Rightarrow> world" where
  "console ks file backend =
     \<lparr>keys = ks, config_file = file, script_files = (\<lambda>_. True), nt = True,
      powershell = backend, out = [], calls = []\<rparr>"

lemmas run_defs =
  bind_def seq_def return_def raise_def lift_def gets_def emit_def sys_exit_def input_def
  load_config_def subprocess_run_def io_defs L_def G_def GLen_def GJoin_def GIf_def

lemmas text_defs =
  affirmative_def strip_def lower_def lower_char_def upper_def upper_char_def isspace_def
  confirm_prompt_def prompt_of_def press_prompt_def

lemmas json_defs =
  json_loads_def skip_ws_def ws_def starts_with_def scan_number_def scan_int_part_def

text \<open>A reply of \<^verbatim>\<open>y\<close> between no-break spaces is affirmative: \<^verbatim>\<open>strip\<close> removes them.\<close>

lemma padded_yes: "affirmative [CHR 0xA0, CHR ''y'', CHR 0xA0]"
  by code_simp

text \<open>C1: for every deployment or configuration function, when the reply to its
  confirmation question is anything but \<^verbatim>\<open>y\<close> or \<^verbatim>\<open>yes\<close> (after stripping, in any case),
  the backend is not invoked, the last thing shown is the cancellation warning, and the
  function returns to the menu loop that called it.\<close>

theorem declined_confirmation_cancels:
  assumes "Input (confirm_prompt (question op)) reply \<in> set (shown (run_operation op) w)"
    and "\<not> affirmative reply"
  shows "invoked (run_operation op) w = []
         \<and> result (run_operation op) w = Inr ()
         \<and> last (shown (run_operation op) w) = Warning [Lit (cancellation op)]"
  using guardedD [OF gate_run_operation assms] by (simp add: ends_with_def)

text \<open>The scenario of the specification: template 2 (Cribl), the default size, address
  10.0.0.5, and the confirmation declined.\<close>

definition declining_operator :: world where
  "declining_operator =
     console [Line ''2'', Line ''cribl-01'', Line [], Line ''10.0.0.5'', Line [], Line [],
              Line ''Production-App'', Line ''n'']
       None (\<lambda>_ _. Some 0)"

lemma declining_operator_run:
  "deploy_vm_from_template declining_operator =
     (Inr (), declining_operator
        \<lparr>keys := [],
         out := shown deploy_vm_from_template declining_operator\<rparr>)
   \<and> Input ''Deploy this VM? (y/n): '' ''n''
       \<in> set (shown deploy_vm_from_template declining_operator)"
  unfolding deploy_vm_from_template_def display_template_menu_def declining_operator_def
    console_def shown_def
  by (simp add: run_defs text_defs VM_TEMPLATES_def VM_SIZES_def)

theorem declined_confirmation_cancels_witness:
  "Input (confirm_prompt (question DeployVmFromTemplate)) ''n''
     \<in> set (shown (run_operation DeployVmFromTemplate) declining_operator)
   \<and> \<not> affirmative ''n''
   \<and> invoked (run_operation DeployVmFromTemplate) declining_operator = []
   \<and> result (run_operation DeployVmFromTemplate) declining_operator = Inr ()
   \<and> last (shown (run_operation DeployVmFromTemplate) declining_operator)
       = Warning [Lit (cancellation DeployVmFromTemplate)]"
proof -
  have asked: "Input (confirm_prompt (question DeployVmFromTemplate)) ''n''
      \<in> set (shown (run_operation DeployVmFromTemplate) declining_operator)"
    using declining_operator_run by (simp add: confirm_prompt_def)
  have no: "\<not> affirmative ''n''"
    by (simp add: text_defs)
  from declined_confirmation_cancels [OF asked no] asked no show ?thesis by simp
qed

subsection \<open>Required fields and selectors of the VM deployment functions\<close>

text \<open>What \<^verbatim>\<open>get_input\<close> returns for the line \<open>l\<close>: the stripped line, or the default when
  that is empty.\<close>

definition entered :: "string \<Rightarrow> string \<Rightarrow> string" where
  "entered dflt l = (if strip l \<noteq> [] then strip l else dflt)"

lemma entered_Nil [simp]: "entered [] l = strip l"
  by (simp add: entered_def)

lemma get_input_Line:
  "keys w = Line l # ks \<Longrightarrow>
   get_input q dflt w =
     (Inr (entered dflt l), w\<lparr>keys := ks, out := out w @ [Input (prompt_of q dflt) l]\<rparr>)"
  by (simp add: get_input_def prompt_of_def entered_def bind_def input_def return_def Let_def)

lemma get_input_CtrlC:
  "keys w = CtrlC # ks \<Longrightarrow>
   get_input q dflt w =
     (Inl KeyboardInterrupt, w\<lparr>keys := ks, out := out w @ [Prompt (prompt_of q dflt)]\<rparr>)"
  by (simp add: get_input_def prompt_of_def bind_def input_def)

lemma get_input_Nil:
  "keys w = [] \<Longrightarrow>
   get_input q dflt w = (Inl EOFError, w\<lparr>out := out w @ [Prompt (prompt_of q dflt)]\<rparr>)"
  by (simp add: get_input_def prompt_of_def bind_def input_def)

text \<open>The step at a guarded prompt: a bad reply ends the function as \<open>Q\<close> says and invokes
  nothing, and after a good reply the prompt is never answered badly again.\<close>

lemma guarded_get_input:
  assumes bad: "\<And>l w. bad l \<Longrightarrow>
      \<exists>evs. out (snd (k (entered dflt l) w)) = out w @ evs
        \<and> calls (snd (k (entered dflt l) w)) = calls w
        \<and> Q (fst (k (entered dflt l) w)) (Input (prompt_of q dflt) l # evs)"
    and good: "\<And>l. \<not> bad l \<Longrightarrow> silent True (asked (prompt_of q dflt) bad) (k (entered dflt l))"
  shows "guarded (asked (prompt_of q dflt) bad) Q (bind (get_input q dflt) k)"
proof -
  let ?F = "asked (prompt_of q dflt) bad"
  let ?m = "bind (get_input q dflt) k"
  have "\<exists>evs. out (snd (?m w)) = out w @ evs
        \<and> (list_ex ?F evs \<longrightarrow> calls (snd (?m w)) = calls w \<and> Q (fst (?m w)) evs)" for w
  proof (cases "keys w")
    case Nil
    then show ?thesis by (simp add: bind_def get_input_Nil)
  next
    case (Cons key ks)
    show ?thesis
    proof (cases key)
      case CtrlC
      with Cons show ?thesis by (simp add: bind_def get_input_CtrlC)
    next
      case (Line l)
      let ?w1 = "w\<lparr>keys := ks, out := out w @ [Input (prompt_of q dflt) l]\<rparr>"
      from Cons Line have run: "?m w = k (entered dflt l) ?w1"
        by (simp add: bind_def get_input_Line)
      show ?thesis
      proof (cases "bad l")
        case True
        from bad [OF True, of ?w1] obtain evs where
          "out (snd (k (entered dflt l) ?w1)) = out ?w1 @ evs"
          "calls (snd (k (entered dflt l) ?w1)) = calls ?w1"
          "Q (fst (k (entered dflt l) ?w1)) (Input (prompt_of q dflt) l # evs)"
          by blast
        with run have "out (snd (?m w)) = out w @ (Input (prompt_of q dflt) l # evs)
          \<and> calls (snd (?m w)) = calls w \<and> Q (fst (?m w)) (Input (prompt_of q dflt) l # evs)"
          by simp
        then show ?thesis by blast
      next
        case False
        from good [OF False] obtain evs where
          e: "out (snd (k (entered dflt l) ?w1)) = out ?w1 @ evs" "list_all (\<lambda>e. \<not> ?F e) evs"
          unfolding silent_def by blast
        from e(2) have "\<not> list_ex ?F evs" by (simp add: list_all_iff list_ex_iff)
        with False have "\<not> list_ex ?F (Input (prompt_of q dflt) l # evs)" by simp
        moreover from run e(1) have "out (snd (?m w)) = out w @ (Input (prompt_of q dflt) l # evs)"
          by simp
        ultimately show ?thesis by blast
      qed
    qed
  qed
  then show ?thesis by (simp add: guarded_def)
qed

lemma guarded_required:
  assumes "\<And>v. silent True (asked (prompt_of q []) (\<lambda>l. strip l = [])) (rest v)"
  shows "guarded (asked (prompt_of q []) (\<lambda>l. strip l = [])) (ends_with (Error e))
           (bind (get_input q []) (\<lambda>v. if v = [] then print_error e else rest v))"
proof (rule guarded_get_input)
  fix l w
  assume "strip l = []"
  then show "\<exists>evs. out (snd ((if entered [] l = [] then print_error e else rest (entered [] l)) w))
                     = out w @ evs
      \<and> calls (snd ((if entered [] l = [] then print_error e else rest (entered [] l)) w)) = calls w
      \<and> ends_with (Error e)
          (fst ((if entered [] l = [] then print_error e else rest (entered [] l)) w))
          (Input (prompt_of q []) l # evs)"
    by (simp add: print_error_def emit_def ends_with_def)
next
  fix l
  assume "strip l \<noteq> []"
  with assms show "silent True (asked (prompt_of q []) (\<lambda>l. strip l = []))
      (if entered [] l = [] then print_error e else rest (entered [] l))"
    by simp
qed

lemma guarded_selector:
  assumes "\<And>v x. silent True (asked (prompt_of q dflt) (\<lambda>l. map_of T (entered dflt l) = None))
                    (rest v x)"
  shows "guarded (asked (prompt_of q dflt) (\<lambda>l. map_of T (entered dflt l) = None))
           (ends_with (Error e))
           (bind (get_input q dflt)
              (\<lambda>v. case map_of T v of None \<Rightarrow> print_error e | Some x \<Rightarrow> rest v x))"
proof (rule guarded_get_input)
  fix l w
  assume "map_of T (entered dflt l) = None"
  then show "\<exists>evs.
      out (snd ((case map_of T (entered dflt l) of None \<Rightarrow> print_error e
                 | Some x \<Rightarrow> rest (entered dflt l) x) w)) = out w @ evs
      \<and> calls (snd ((case map_of T (entered dflt l) of None \<Rightarrow> print_error e
                 | Some x \<Rightarrow> rest (entered dflt l) x) w)) = calls w
      \<and> ends_with (Error e)
          (fst ((case map_of T (entered dflt l) of None \<Rightarrow> print_error e
                 | Some x \<Rightarrow> rest (entered dflt l) x) w))
          (Input (prompt_of q dflt) l # evs)"
    by (simp add: print_error_def emit_def ends_with_def)
next
  fix l
  assume "map_of T (entered dflt l) \<noteq> None"
  with assms show "silent True (asked (prompt_of q dflt) (\<lambda>l. map_of T (entered dflt l) = None))
      (case map_of T (entered dflt l) of None \<Rightarrow> print_error e
       | Some x \<Rightarrow> rest (entered dflt l) x)"
    by (auto split: option.splits)
qed

text \<open>The template selector: \<^verbatim>\<open>B\<close> goes back, any other reply is looked up in upper case,
  and the error is followed by the acknowledgement prompt.\<close>

definition no_template :: "string \<Rightarrow> bool" where
  "no_template l = (upper (strip l) \<noteq> ''B'' \<and> map_of VM_TEMPLATES (upper (strip l)) = None)"

lemma press_enter_run:
  "\<exists>ev. out (snd (press_enter w)) = out w @ [ev] \<and> calls (snd (press_enter w)) = calls w
        \<and> acknowledged ev (fst (press_enter w))"
  by (cases "keys w" rule: list.exhaust [case_product key.exhaust [of "hd (keys w)"]])
     (auto simp: press_enter_def press_prompt_def bind_def input_def return_def
       split: list.splits key.splits)

lemma guarded_template_selector:
  assumes "\<And>c t. silent True (asked (prompt_of q []) no_template) (rest c t)"
  shows "guarded (asked (prompt_of q []) no_template) (ends_acknowledged (Error e))
           (bind (get_input q [])
              (\<lambda>c. if upper c = ''B'' then return ()
                    else case map_of VM_TEMPLATES (upper c) of
                           None \<Rightarrow> seq (print_error e) press_enter
                         | Some t \<Rightarrow> rest c t))"
proof (rule guarded_get_input)
  fix l and w :: world
  let ?k = "\<lambda>c. if upper c = ''B'' then return ()
                 else case map_of VM_TEMPLATES (upper c) of
                        None \<Rightarrow> seq (print_error e) press_enter
                      | Some t \<Rightarrow> rest c t"
  assume "no_template l"
  then have k: "?k (entered [] l) = seq (print_error e) press_enter"
    by (simp add: no_template_def)
  let ?w1 = "w\<lparr>out := out w @ [Error e]\<rparr>"
  from press_enter_run [of ?w1] obtain ev where
    "out (snd (press_enter ?w1)) = out ?w1 @ [ev]" "calls (snd (press_enter ?w1)) = calls ?w1"
    "acknowledged ev (fst (press_enter ?w1))"
    by blast
  then have "out (snd (?k (entered [] l) w)) = out w @ [Error e, ev]
      \<and> calls (snd (?k (entered [] l) w)) = calls w
      \<and> ends_acknowledged (Error e) (fst (?k (entered [] l) w))
          (Input (prompt_of q []) l # [Error e, ev])"
    unfolding k by (simp add: seq_def bind_def print_error_def emit_def ends_acknowledged_def)
  then show "\<exists>evs. out (snd (?k (entered [] l) w)) = out w @ evs
      \<and> calls (snd (?k (entered [] l) w)) = calls w
      \<and> ends_acknowledged (Error e) (fst (?k (entered [] l) w)) (Input (prompt_of q []) l # evs)"
    by blast
next
  fix l
  assume "\<not> no_template l"
  with assms show "silent True (asked (prompt_of q []) no_template)
      (if upper (entered [] l) = ''B'' then return ()
       else case map_of VM_TEMPLATES (upper (entered [] l)) of
              None \<Rightarrow> seq (print_error e) press_enter
            | Some t \<Rightarrow> rest (entered [] l) t)"
    by (auto simp: no_template_def silent_return split: option.splits)
qed

lemmas guard_steps = guarded_required guarded_selector guarded_template_selector

lemma template_selector_guarded:
  "guarded (asked (prompt_of ''Select template'' []) no_template)
     (ends_acknowledged (Error [Lit ''Invalid template selection.''])) deploy_vm_from_template"
  unfolding deploy_vm_from_template_def display_template_menu_def Let_def
  by (intro guard_steps guarded_intros;
      (intro guarded_silent [of True] silent_intros)?; simp add: prompt_defs)

lemma template_vm_name_guarded:
  "guarded (asked (prompt_of ''Enter VM Name (e.g., splunk-prod-01)'' []) (\<lambda>l. strip l = []))
     (ends_with (Error [Lit ''VM name is required.''])) deploy_vm_from_template"
  unfolding deploy_vm_from_template_def display_template_menu_def Let_def
  by (intro guard_steps guarded_intros;
      (intro guarded_silent [of True] silent_intros)?; simp add: prompt_defs)

lemma template_size_guarded:
  "guarded (asked (prompt_of ''Enter Size'' ''Medium'')
              (\<lambda>l. map_of VM_SIZES (entered ''Medium'' l) = None))
     (ends_with (Error [Lit ''Invalid size selection.''])) deploy_vm_from_template"
  unfolding deploy_vm_from_template_def display_template_menu_def Let_def
  by (intro guard_steps guarded_intros;
      (intro guarded_silent [of True] silent_intros)?; simp add: prompt_defs)

lemma standard_vm_name_guarded:
  "guarded (asked (prompt_of ''Enter VM Name (e.g., rhel-web-01)'' []) (\<lambda>l. strip l = []))
     (ends_with (Error [Lit ''VM name is required.''])) deploy_standard_vm"
  unfolding deploy_standard_vm_def
  by (intro guard_steps guarded_intros;
      (intro guarded_silent [of True] silent_intros)?; simp add: prompt_defs)

lemma standard_os_type_guarded:
  "guarded (asked (prompt_of ''Select OS Type'' ''1'')
              (\<lambda>l. map_of OS_TYPES (entered ''1'' l) = None))
     (ends_with (Error [Lit ''Invalid OS type selection.''])) deploy_standard_vm"
  unfolding deploy_standard_vm_def
  by (intro guard_steps guarded_intros;
      (intro guarded_silent [of True] silent_intros)?; simp add: prompt_defs)

lemma standard_size_guarded:
  "guarded (asked (prompt_of ''Enter Size'' ''Small'')
              (\<lambda>l. map_of VM_SIZES (entered ''Small'' l) = None))
     (ends_with (Error [Lit ''Invalid size selection.''])) deploy_standard_vm"
  unfolding deploy_standard_vm_def
  by (intro guard_steps guarded_intros;
      (intro guarded_silent [of True] silent_intros)?; simp add: prompt_defs)

text \<open>The fields the two VM deployment functions validate, each with its prompt, the
  replies it rejects and how the function then ends.\<close>

datatype field =
    TemplateSelector | TemplateVmName | TemplateSize
  | StandardVmName | StandardOsType | StandardSize

fun field_function :: "field \<Rightarrow> unit io" where
  "field_function TemplateSelector = deploy_vm_from_template"
| "field_function TemplateVmName = deploy_vm_from_template"
| "field_function TemplateSize = deploy_vm_from_template"
| "field_function StandardVmName = deploy_standard_vm"
| "field_function StandardOsType = deploy_standard_vm"
| "field_function StandardSize = deploy_standard_vm"

fun field_prompt :: "field \<Rightarrow> string" where
  "field_prompt TemplateSelector = prompt_of ''Select template'' []"
| "field_prompt TemplateVmName = prompt_of ''Enter VM Name (e.g., splunk-prod-01)'' []"
| "field_prompt TemplateSize = prompt_of ''Enter Size'' ''Medium''"
| "field_prompt StandardVmName = prompt_of ''Enter VM Name (e.g., rhel-web-01)'' []"
| "field_prompt StandardOsType = prompt_of ''Select OS Type'' ''1''"
| "field_prompt StandardSize = prompt_of ''Enter Size'' ''Small''"

fun field_invalid :: "field \<Rightarrow> string \<Rightarrow> bool" where
  "field_invalid TemplateSelector l = no_template l"
| "field_invalid TemplateVmName l = (strip l = [])"
| "field_invalid TemplateSize l = (map_of VM_SIZES (entered ''Medium'' l) = None)"
| "field_invalid StandardVmName l = (strip l = [])"
| "field_invalid StandardOsType l = (map_of OS_TYPES (entered ''1'' l) = None)"
| "field_invalid StandardSize l = (map_of VM_SIZES (entered ''Small'' l) = None)"

fun field_abort :: "field \<Rightarrow> (exc + unit) \<Rightarrow> event list \<Rightarrow> bool" where
  "field_abort TemplateSelector = ends_acknowledged (Error [Lit ''Invalid template selection.''])"
| "field_abort TemplateVmName = ends_with (Error [Lit ''VM name is required.''])"
| "field_abort TemplateSize = ends_with (Error [Lit ''Invalid size selection.''])"
| "field_abort StandardVmName = ends_with (Error [Lit ''VM name is required.''])"
| "field_abort StandardOsType = ends_with (Error [Lit ''Invalid OS type selection.''])"
| "field_abort StandardSize = ends_with (Error [Lit ''Invalid size selection.''])"

lemma field_guarded:
  "guarded (asked (field_prompt f) (field_invalid f)) (field_abort f) (field_function f)"
proof (cases f)
  case TemplateSelector
  have "field_invalid TemplateSelector = no_template" by (rule ext) simp
  with TemplateSelector show ?thesis by (simp add: template_selector_guarded)
next
  case TemplateVmName
  have "field_invalid TemplateVmName = (\<lambda>l. strip l = [])" by (rule ext) simp
  with TemplateVmName show ?thesis by (simp add: template_vm_name_guarded)
next
  case TemplateSize
  have "field_invalid TemplateSize = (\<lambda>l. map_of VM_SIZES (entered ''Medium'' l) = None)"
    by (rule ext) simp
  with TemplateSize show ?thesis by (simp add: template_size_guarded)
next
  case StandardVmName
  have "field_invalid StandardVmName = (\<lambda>l. strip l = [])" by (rule ext) simp
  with StandardVmName show ?thesis by (simp add: standard_vm_name_guarded)
next
  case StandardOsType
  have "field_invalid StandardOsType = (\<lambda>l. map_of OS_TYPES (entered ''1'' l) = None)"
    by (rule ext) simp
  with StandardOsType show ?thesis by (simp add: standard_os_type_guarded)
next
  case StandardSize
  have "field_invalid StandardSize = (\<lambda>l. map_of VM_SIZES (entered ''Small'' l) = None)"
    by (rule ext) simp
  with StandardSize show ?thesis by (simp add: standard_size_guarded)
qed

text \<open>C2, as the specification states it: an empty IP address or tag name aborts the
  deployment without a backend invocation. Here the operator leaves the address and the
  tag empty and confirms, once in \<^verbatim>\<open>deploy_standard_vm\<close> and once in
  \<^verbatim>\<open>deploy_vm_from_template\<close>: each time the backend is invoked once and success is
  reported.\<close>

definition terse_operator :: world where
  \<open>terse_operator =
     console [Line ''web-01'', Line [], Line [], Line [], Line [], Line ''y'', Line []]
       (Some ''{"vcenter": {"server": "vc01"}, "cluster": {"name": "cl01"}}'')
       (\<lambda>_ _. Some 0)\<close>

lemma terse_config:
  \<open>json_loads ''{"vcenter": {"server": "vc01"}, "cluster": {"name": "cl01"}}'' =
     Inr (PDict [(''vcenter'', PDict [(''server'', PStr ''vc01'')]),
                 (''cluster'', PDict [(''name'', PStr ''cl01'')])])\<close>
  by (simp add: json_defs)

definition terse_template_operator :: world where
  \<open>terse_template_operator =
     console [Line ''1'', Line ''splunk-01'', Line [], Line [], Line [], Line [], Line [],
              Line ''y'', Line []]
       (Some ''{"vcenter": {"server": "vc01"}, "cluster": {"name": "cl01"}}'')
       (\<lambda>_ _. Some 0)\<close>

lemma terse_standard_run:
  "Input (prompt_of ''Enter IP Address (e.g., 192.168.1.100)'' []) []
     \<in> set (shown deploy_standard_vm terse_operator)
   \<and> Input (prompt_of ''Enter Tag Name (e.g., WebApp-Linux)'' []) []
     \<in> set (shown deploy_standard_vm terse_operator)
   \<and> length (invoked deploy_standard_vm terse_operator) = 1
   \<and> Success [Lit ''Standard VM '', SQ, Lit ''web-01'', SQ, Lit '' created successfully!'']
     \<in> set (shown deploy_standard_vm terse_operator)
   \<and> result deploy_standard_vm terse_operator = Inr ()"
  unfolding deploy_standard_vm_def terse_operator_def console_def shown_def invoked_def
    result_def
  by (simp add: run_defs text_defs terse_config VM_SIZES_def OS_TYPES_def)

lemma terse_template_run:
  "Input (prompt_of ''Enter IP Address (e.g., 192.168.1.100)'' []) []
     \<in> set (shown deploy_vm_from_template terse_template_operator)
   \<and> Input (prompt_of ''Enter Tag Name (e.g., Production-App)'' []) []
     \<in> set (shown deploy_vm_from_template terse_template_operator)
   \<and> length (invoked deploy_vm_from_template terse_template_operator) = 1
   \<and> Success [Lit ''VM '', SQ, Lit ''splunk-01'', SQ, Lit '' deployed from template!'']
     \<in> set (shown deploy_vm_from_template terse_template_operator)
   \<and> result deploy_vm_from_template terse_template_operator = Inr ()"
  unfolding deploy_vm_from_template_def display_template_menu_def terse_template_operator_def
    console_def shown_def invoked_def result_def
  by (simp add: run_defs text_defs terse_config VM_SIZES_def VM_TEMPLATES_def)

theorem empty_address_and_tag_counterexample:
  "Input (prompt_of ''Enter IP Address (e.g., 192.168.1.100)'' []) []
     \<in> set (shown deploy_standard_vm terse_operator)
   \<and> Input (prompt_of ''Enter Tag Name (e.g., WebApp-Linux)'' []) []
     \<in> set (shown deploy_standard_vm terse_operator)
   \<and> length (invoked deploy_standard_vm terse_operator) = 1
   \<and> Success [Lit ''Standard VM '', SQ, Lit ''web-01'', SQ, Lit '' created successfully!'']
     \<in> set (shown deploy_standard_vm terse_operator)
   \<and> result deploy_standard_vm terse_operator = Inr ()
   \<and> Input (prompt_of ''Enter IP Address (e.g., 192.168.1.100)'' []) []
     \<in> set (shown deploy_vm_from_template terse_template_operator)
   \<and> Input (prompt_of ''Enter Tag Name (e.g., Production-App)'' []) []
     \<in> set (shown deploy_vm_from_template terse_template_operator)
   \<and> length (invoked deploy_vm_from_template terse_template_operator) = 1
   \<and> Success [Lit ''VM '', SQ, Lit ''splunk-01'', SQ, Lit '' deployed from template!'']
     \<in> set (shown deploy_vm_from_template terse_template_operator)
   \<and> result deploy_vm_from_template terse_template_operator = Inr ()"
  using terse_standard_run terse_template_run by simp

text \<open>C2, amended: in both VM deployment functions, a VM name that is empty once stripped,
  a size or OS type that (stripped, the default when empty) is not in its catalog, and a
  template selector that is neither \<^verbatim>\<open>B\<close> nor in the template catalog end the function
  with the matching error message and without a backend invocation. (The address, the
  subnet mask, the gateway and the tag are not checked for emptiness, as the two runs
  above show.)\<close>

theorem invalid_field_aborts:
  assumes "Input (field_prompt f) l \<in> set (shown (field_function f) w)"
    and "field_invalid f l"
  shows "invoked (field_function f) w = []
         \<and> field_abort f (result (field_function f) w) (shown (field_function f) w)"
  using guardedD [OF field_guarded assms] .

text \<open>A VM name of a space, a no-break space and a next-line character is empty once
  stripped; a size name followed by a no-break space is the size name.\<close>

definition blank_name :: string where
  "blank_name = [CHR '' '', CHR 0xA0, CHR 0x85]"

definition nameless_operator :: world where
  "nameless_operator = console [Line blank_name, Line ''y''] None (\<lambda>_ _. Some 0)"

theorem invalid_field_aborts_witness:
  "Input (field_prompt StandardVmName) blank_name
     \<in> set (shown (field_function StandardVmName) nameless_operator)
   \<and> field_invalid StandardVmName blank_name
   \<and> invoked (field_function StandardVmName) nameless_operator = []
   \<and> result (field_function StandardVmName) nameless_operator = Inr ()
   \<and> last (shown (field_function StandardVmName) nameless_operator)
       = Error [Lit ''VM name is required.'']
   \<and> \<not> field_invalid StandardSize (''Large'' @ [CHR 0xA0])
   \<and> \<not> field_invalid TemplateSelector [CHR 0xA0, CHR ''1'']"
proof -
  have "Input (prompt_of ''Enter VM Name (e.g., rhel-web-01)'' []) blank_name
      \<in> set (shown deploy_standard_vm nameless_operator)"
    unfolding deploy_standard_vm_def nameless_operator_def console_def shown_def blank_name_def
    by (simp add: run_defs text_defs)
  then have shown: "Input (field_prompt StandardVmName) blank_name
      \<in> set (shown (field_function StandardVmName) nameless_operator)"
    by simp
  have invalid: "field_invalid StandardVmName blank_name"
    by (simp add: text_defs blank_name_def)
  have size: "\<not> field_invalid StandardSize (''Large'' @ [CHR 0xA0])"
    by (simp add: entered_def text_defs VM_SIZES_def)
  have selector: "\<not> field_invalid TemplateSelector [CHR 0xA0, CHR ''1'']"
    by code_simp
  from invalid_field_aborts [OF shown invalid] shown invalid size selector show ?thesis
    by (simp add: ends_with_def)
qed

subsection \<open>What decides whether a selector is accepted\<close>

text \<open>\<open>decides p bad e m\<close>: in every run of \<open>m\<close> that shows a reply \<open>l\<close> at the prompt \<open>p\<close>,
  the event \<open>e\<close> is shown exactly when \<open>bad l\<close>.\<close>

definition decides :: "string \<Rightarrow> (string \<Rightarrow> bool) \<Rightarrow> event \<Rightarrow> unit io \<Rightarrow> bool" where
  "decides p bad e m =
     (\<forall>w. \<exists>evs. out (snd (m w)) = out w @ evs
        \<and> (\<forall>l. Input p l \<in> set evs \<longrightarrow> (e \<in> set evs) = bad l))"

definition either :: "string \<Rightarrow> event \<Rightarrow> event \<Rightarrow> bool" where
  "either p e x = (x = e \<or> asked p (\<lambda>_. True) x)"

lemma either_simps [simp]:
  "either p e (Input p' l) = (Input p' l = e \<or> p' = p)"
  "either p e (Prompt p') = (Prompt p' = e)"
  "either p e (Print message) = (Print message = e)"
  "either p e (Error message) = (Error message = e)"
  "either p e (Warning message) = (Warning message = e)"
  "either p e (Info message) = (Info message = e)"
  "either p e (Success message) = (Success message = e)"
  "either p e (Header title) = (Header title = e)"
  "either p e ClearScreen = (ClearScreen = e)"
  "either p e Rule = (Rule = e)"
  by (simp_all add: either_def)

lemma not_either:
  assumes "list_all (\<lambda>x. \<not> either p e x) evs"
  shows "e \<notin> set evs" and "Input p l \<notin> set evs"
  using assms by (auto simp: list_all_iff either_def)

lemma decides_bind:
  assumes "silent False (either p e) m" and "\<And>a. decides p bad e (f a)"
  shows "decides p bad e (bind m f)"
proof -
  have "\<exists>evs. out (snd (bind m f w)) = out w @ evs
        \<and> (\<forall>l. Input p l \<in> set evs \<longrightarrow> (e \<in> set evs) = bad l)" for w
  proof (cases "m w")
    case (Pair r w')
    from assms(1) obtain evs where m: "out (snd (m w)) = out w @ evs"
      "list_all (\<lambda>x. \<not> either p e x) evs"
      unfolding silent_def by blast
    note no = not_either [OF m(2)]
    show ?thesis
    proof (cases r)
      case (Inl x)
      with Pair m no have "out (snd (bind m f w)) = out w @ evs
          \<and> (\<forall>l. Input p l \<in> set evs \<longrightarrow> (e \<in> set evs) = bad l)"
        by (simp add: bind_def)
      then show ?thesis by blast
    next
      case (Inr a)
      from assms(2) [of a] obtain evs' where f: "out (snd (f a w')) = out w' @ evs'"
        "\<forall>l. Input p l \<in> set evs' \<longrightarrow> (e \<in> set evs') = bad l"
        unfolding decides_def by blast
      with Pair Inr m no have "out (snd (bind m f w)) = out w @ (evs @ evs')
          \<and> (\<forall>l. Input p l \<in> set (evs @ evs') \<longrightarrow> (e \<in> set (evs @ evs')) = bad l)"
        by (simp add: bind_def)
      then show ?thesis by blast
    qed
  qed
  then show ?thesis by (simp add: decides_def)
qed

lemma decides_seq:
  "silent False (either p e) m \<Longrightarrow> decides p bad e n \<Longrightarrow> decides p bad e (seq m n)"
  by (simp add: seq_def decides_bind)

lemma decides_if:
  "(b \<Longrightarrow> decides p bad e x) \<Longrightarrow> (\<not> b \<Longrightarrow> decides p bad e y)
   \<Longrightarrow> decides p bad e (if b then x else y)"
  by simp

lemma decides_case_option:
  "decides p bad e a \<Longrightarrow> (\<And>x. decides p bad e (f x)) \<Longrightarrow> decides p bad e (case_option a f v)"
  by (cases v) simp_all

lemma decides_silent:
  assumes "silent c (either p e) m"
  shows "decides p bad e m"
proof -
  have "\<exists>evs. out (snd (m w)) = out w @ evs
        \<and> (\<forall>l. Input p l \<in> set evs \<longrightarrow> (e \<in> set evs) = bad l)" for w
  proof -
    from assms obtain evs where m: "out (snd (m w)) = out w @ evs"
      "list_all (\<lambda>x. \<not> either p e x) evs"
      unfolding silent_def by blast
    from m(1) not_either(2) [OF m(2)] show ?thesis by blast
  qed
  then show ?thesis by (simp add: decides_def)
qed

lemma decides_get_input:
  assumes bad: "\<And>l w. bad l \<Longrightarrow>
      \<exists>evs. out (snd (k (entered dflt l) w)) = out w @ evs \<and> e \<in> set evs
        \<and> (\<forall>l'. Input (prompt_of q dflt) l' \<notin> set evs)"
    and good: "\<And>l. \<not> bad l \<Longrightarrow> silent True (either (prompt_of q dflt) e) (k (entered dflt l))"
    and e: "\<forall>l. e \<noteq> Input (prompt_of q dflt) l"
  shows "decides (prompt_of q dflt) bad e (bind (get_input q dflt) k)"
proof -
  let ?p = "prompt_of q dflt"
  let ?m = "bind (get_input q dflt) k"
  have "\<exists>evs. out (snd (?m w)) = out w @ evs
        \<and> (\<forall>l. Input ?p l \<in> set evs \<longrightarrow> (e \<in> set evs) = bad l)" for w
  proof (cases "keys w")
    case Nil
    then show ?thesis by (simp add: bind_def get_input_Nil)
  next
    case (Cons key ks)
    show ?thesis
    proof (cases key)
      case CtrlC
      with Cons show ?thesis by (simp add: bind_def get_input_CtrlC)
    next
      case (Line l)
      let ?w1 = "w\<lparr>keys := ks, out := out w @ [Input ?p l]\<rparr>"
      from Cons Line have run: "?m w = k (entered dflt l) ?w1"
        by (simp add: bind_def get_input_Line)
      show ?thesis
      proof (cases "bad l")
        case True
        from bad [OF True, of ?w1] obtain evs where
          "out (snd (k (entered dflt l) ?w1)) = out ?w1 @ evs" "e \<in> set evs"
          "\<forall>l'. Input ?p l' \<notin> set evs"
          by blast
        with run True have "out (snd (?m w)) = out w @ (Input ?p l # evs)
          \<and> (\<forall>l'. Input ?p l' \<in> set (Input ?p l # evs) \<longrightarrow> (e \<in> set (Input ?p l # evs)) = bad l')"
          by auto
        then show ?thesis by blast
      next
        case False
        from good [OF False] obtain evs where
          ev: "out (snd (k (entered dflt l) ?w1)) = out ?w1 @ evs"
          "list_all (\<lambda>x. \<not> either ?p e x) evs"
          unfolding silent_def by blast
        note no = not_either [OF ev(2)]
        with run ev(1) False e have "out (snd (?m w)) = out w @ (Input ?p l # evs)
          \<and> (\<forall>l'. Input ?p l' \<in> set (Input ?p l # evs) \<longrightarrow> (e \<in> set (Input ?p l # evs)) = bad l')"
          by auto
        then show ?thesis by blast
      qed
    qed
  qed
  then show ?thesis by (simp add: decides_def)
qed

lemma decides_selector:
  assumes "\<And>v x. silent True (either (prompt_of q dflt) (Error e)) (rest v x)"
  shows "decides (prompt_of q dflt) (\<lambda>l. map_of T (entered dflt l) = None) (Error e)
           (bind (get_input q dflt)
              (\<lambda>v. case map_of T v of None \<Rightarrow> print_error e | Some x \<Rightarrow> rest v x))"
proof (rule decides_get_input)
  fix l and w :: world
  assume "map_of T (entered dflt l) = None"
  then have "out (snd ((case map_of T (entered dflt l) of None \<Rightarrow> print_error e
                 | Some x \<Rightarrow> rest (entered dflt l) x) w)) = out w @ [Error e]
      \<and> Error e \<in> set [Error e] \<and> (\<forall>l'. Input (prompt_of q dflt) l' \<notin> set [Error e])"
    by (simp add: print_error_def emit_def)
  then show "\<exists>evs.
      out (snd ((case map_of T (entered dflt l) of None \<Rightarrow> print_error e
                 | Some x \<Rightarrow> rest (entered dflt l) x) w)) = out w @ evs
      \<and> Error e \<in> set evs \<and> (\<forall>l'. Input (prompt_of q dflt) l' \<notin> set evs)"
    by blast
next
  fix l
  assume "map_of T (entered dflt l) \<noteq> None"
  with assms show "silent True (either (prompt_of q dflt) (Error e))
      (case map_of T (entered dflt l) of None \<Rightarrow> print_error e
       | Some x \<Rightarrow> rest (entered dflt l) x)"
    by (auto split: option.splits)
qed simp

lemma decides_template_selector:
  assumes "\<And>c t. silent True (either (prompt_of q []) (Error e)) (rest c t)"
  shows "decides (prompt_of q []) no_template (Error e)
           (bind (get_input q [])
              (\<lambda>c. if upper c = ''B'' then return ()
                    else case map_of VM_TEMPLATES (upper c) of
                           None \<Rightarrow> seq (print_error e) press_enter
                         | Some t \<Rightarrow> rest c t))"
proof (rule decides_get_input)
  fix l and w :: world
  let ?k = "\<lambda>c. if upper c = ''B'' then return ()
                 else case map_of VM_TEMPLATES (upper c) of
                        None \<Rightarrow> seq (print_error e) press_enter
                      | Some t \<Rightarrow> rest c t"
  assume "no_template l"
  then have k: "?k (entered [] l) = seq (print_error e) press_enter"
    by (simp add: no_template_def)
  let ?w1 = "w\<lparr>out := out w @ [Error e]\<rparr>"
  from press_enter_run [of ?w1] obtain ev where
    ev: "out (snd (press_enter ?w1)) = out ?w1 @ [ev]" "acknowledged ev (fst (press_enter ?w1))"
    by blast
  from ev(2) have "\<forall>l'. ev \<noteq> Input (prompt_of q []) l'"
    by (cases ev) (auto simp: prompt_defs)
  with ev(1) have "out (snd (?k (entered [] l) w)) = out w @ [Error e, ev]
      \<and> Error e \<in> set [Error e, ev] \<and> (\<forall>l'. Input (prompt_of q []) l' \<notin> set [Error e, ev])"
    unfolding k by (auto simp: seq_def bind_def print_error_def emit_def)
  then show "\<exists>evs. out (snd (?k (entered [] l) w)) = out w @ evs
      \<and> Error e \<in> set evs \<and> (\<forall>l'. Input (prompt_of q []) l' \<notin> set evs)"
    by blast
next
  fix l
  assume "\<not> no_template l"
  with assms show "silent True (either (prompt_of q []) (Error e))
      (if upper (entered [] l) = ''B'' then return ()
       else case map_of VM_TEMPLATES (upper (entered [] l)) of
              None \<Rightarrow> seq (print_error e) press_enter
            | Some t \<Rightarrow> rest (entered [] l) t)"
    by (auto simp: no_template_def silent_return split: option.splits)
qed simp

lemma decidesD:
  assumes "decides p bad e m" and "Input p l \<in> set (shown m w)"
  shows "(e \<in> set (shown m w)) = bad l"
proof -
  from assms(1) obtain evs where "out (snd (m w)) = out w @ evs"
    "\<forall>l. Input p l \<in> set evs \<longrightarrow> (e \<in> set evs) = bad l"
    unfolding decides_def by blast
  with assms(2) show ?thesis by (simp add: shown_def)
qed

lemmas decides_intros =
  decides_selector decides_template_selector decides_bind decides_seq decides_if
  decides_case_option

lemma template_selector_decides:
  "decides (prompt_of ''Select template'' []) no_template
     (Error [Lit ''Invalid template selection.'']) deploy_vm_from_template"
  unfolding deploy_vm_from_template_def display_template_menu_def Let_def
  by (intro decides_intros;
      (intro decides_silent [of True] silent_intros)?; simp add: prompt_defs)

lemma template_size_decides:
  "decides (prompt_of ''Enter Size'' ''Medium'') (\<lambda>l. map_of VM_SIZES (entered ''Medium'' l) = None)
     (Error [Lit ''Invalid size selection.'']) deploy_vm_from_template"
  unfolding deploy_vm_from_template_def display_template_menu_def Let_def
  by (intro decides_intros;
      (intro decides_silent [of True] silent_intros)?; simp add: prompt_defs)

lemma standard_os_type_decides:
  "decides (prompt_of ''Select OS Type'' ''1'') (\<lambda>l. map_of OS_TYPES (entered ''1'' l) = None)
     (Error [Lit ''Invalid OS type selection.'']) deploy_standard_vm"
  unfolding deploy_standard_vm_def
  by (intro decides_intros;
      (intro decides_silent [of True] silent_intros)?; simp add: prompt_defs)

lemma standard_size_decides:
  "decides (prompt_of ''Enter Size'' ''Small'') (\<lambda>l. map_of VM_SIZES (entered ''Small'' l) = None)
     (Error [Lit ''Invalid size selection.'']) deploy_standard_vm"
  unfolding deploy_standard_vm_def
  by (intro decides_intros;
      (intro decides_silent [of True] silent_intros)?; simp add: prompt_defs)

text \<open>Upper-casing changes no digit, so it changes no lookup in a catalog whose selectors
  are digits.\<close>

lemma upper_char_digit: "is_digit d \<Longrightarrow> (upper_char c = d) = (c = d)"
proof
  assume d: "is_digit d" and u: "upper_char c = d"
  show "c = d"
  proof (cases "97 \<le> (of_char c :: nat) \<and> (of_char c :: nat) \<le> 122")
    case True
    with u have "d = char_of ((of_char c :: nat) - 32)" by (simp add: upper_char_def Let_def)
    then have "(of_char d :: nat) = ((of_char c :: nat) - 32) mod 256" by simp
    moreover from True have "(of_char c :: nat) - 32 < 256" by linarith
    ultimately have "(of_char d :: nat) = (of_char c :: nat) - 32" by (simp only: mod_less)
    with True d have False unfolding is_digit_def by linarith
    then show ?thesis ..
  next
    case False
    with u show ?thesis by (simp add: upper_char_def Let_def)
  qed
next
  assume d: "is_digit d" and "c = d"
  then show "upper_char c = d" by (simp add: upper_char_def is_digit_def Let_def)
qed

lemma upper_digit: "is_digit d \<Longrightarrow> (upper s = [d]) = (s = [d])"
  by (cases s) (auto simp: upper_def upper_char_digit)

lemma OS_TYPES_upper: "map_of OS_TYPES (upper s) = map_of OS_TYPES s"
proof -
  have keys: "is_digit CHR ''1''" "is_digit CHR ''2''" "is_digit CHR ''3''" "is_digit CHR ''4''"
    "is_digit CHR ''5''"
    by (simp_all add: is_digit_def)
  show ?thesis
    by (simp add: OS_TYPES_def upper_digit keys)
qed

text \<open>C7: the size reply is looked up in the size catalog as entered (stripped, the default
  when empty), and a different capitalisation of a size name is not found; the template
  reply is stripped and upper-cased before it is compared with \<^verbatim>\<open>B\<close> and looked up, so
  that \<^verbatim>\<open>b\<close> is taken as \<^verbatim>\<open>B\<close>; the OS-type reply is looked up as entered (stripped, the
  default when empty), which accepts and rejects exactly what a lookup of the upper-cased
  reply does, since upper-casing changes no lookup in the OS-type catalog.\<close>

theorem selector_normalisation:
  "(\<forall>l. Input (prompt_of ''Enter Size'' ''Medium'') l \<in> set (shown deploy_vm_from_template w) \<longrightarrow>
      (Error [Lit ''Invalid size selection.''] \<in> set (shown deploy_vm_from_template w))
        = (map_of VM_SIZES (entered ''Medium'' l) = None))
   \<and> (\<forall>l. Input (prompt_of ''Enter Size'' ''Small'') l \<in> set (shown deploy_standard_vm w) \<longrightarrow>
      (Error [Lit ''Invalid size selection.''] \<in> set (shown deploy_standard_vm w))
        = (map_of VM_SIZES (entered ''Small'' l) = None))
   \<and> map_of VM_SIZES ''medium'' = None \<and> map_of VM_SIZES ''MEDIUM'' = None
   \<and> map_of VM_SIZES ''Medium'' \<noteq> None
   \<and> (\<forall>l. Input (prompt_of ''Select template'' []) l \<in> set (shown deploy_vm_from_template w) \<longrightarrow>
      (Error [Lit ''Invalid template selection.''] \<in> set (shown deploy_vm_from_template w))
        = (upper (strip l) \<noteq> ''B'' \<and> map_of VM_TEMPLATES (upper (strip l)) = None))
   \<and> upper (strip ''b'') = ''B''
   \<and> (\<forall>l. Input (prompt_of ''Select OS Type'' ''1'') l \<in> set (shown deploy_standard_vm w) \<longrightarrow>
      (Error [Lit ''Invalid OS type selection.''] \<in> set (shown deploy_standard_vm w))
        = (map_of OS_TYPES (entered ''1'' l) = None))
   \<and> (\<forall>l. Input (prompt_of ''Select OS Type'' ''1'') l \<in> set (shown deploy_standard_vm w) \<longrightarrow>
      (Error [Lit ''Invalid OS type selection.''] \<in> set (shown deploy_standard_vm w))
        = (map_of OS_TYPES (upper (entered ''1'' l)) = None))"
proof -
  have b: "upper (strip ''b'') = ''B''" by code_simp
  from decidesD [OF template_size_decides, of _ w] decidesD [OF standard_size_decides, of _ w]
    decidesD [OF template_selector_decides, of _ w] decidesD [OF standard_os_type_decides, of _ w]
    b
  show ?thesis by (simp add: OS_TYPES_upper no_template_def VM_SIZES_def)
qed

text \<open>Three operators: one enters a size name in lower case, one enters a size name followed
  by a no-break space, one answers the template prompt with a no-break space and \<^verbatim>\<open>b\<close>.\<close>

definition lowercase_operator :: world where
  "lowercase_operator = console [Line ''web-01'', Line [], Line ''medium''] None (\<lambda>_ _. Some 0)"

definition padding_operator :: world where
  "padding_operator
     = console [Line ''web-01'', Line [], Line (''Large'' @ [CHR 0xA0])] None (\<lambda>_ _. Some 0)"

definition returning_operator :: world where
  "returning_operator = console [Line [CHR 0xA0, CHR ''b'']] None (\<lambda>_ _. Some 0)"

lemma padded_b: "upper (strip [CHR 0xA0, CHR ''b'']) = ''B''"
  by code_simp

theorem selector_normalisation_witness:
  "Input (prompt_of ''Enter Size'' ''Small'') ''medium''
     \<in> set (shown deploy_standard_vm lowercase_operator)
   \<and> map_of VM_SIZES (entered ''Small'' ''medium'') = None
   \<and> Error [Lit ''Invalid size selection.''] \<in> set (shown deploy_standard_vm lowercase_operator)
   \<and> Input (prompt_of ''Enter Size'' ''Small'') (''Large'' @ [CHR 0xA0])
     \<in> set (shown deploy_standard_vm padding_operator)
   \<and> Error [Lit ''Invalid size selection.''] \<notin> set (shown deploy_standard_vm padding_operator)
   \<and> Input (prompt_of ''Select template'' []) [CHR 0xA0, CHR ''b'']
     \<in> set (shown deploy_vm_from_template returning_operator)
   \<and> Error [Lit ''Invalid template selection.'']
     \<notin> set (shown deploy_vm_from_template returning_operator)"
proof -
  have shown: "Input (prompt_of ''Enter Size'' ''Small'') ''medium''
      \<in> set (shown deploy_standard_vm lowercase_operator)"
    unfolding deploy_standard_vm_def lowercase_operator_def console_def shown_def
    by (simp add: run_defs text_defs OS_TYPES_def VM_SIZES_def)
  have none: "map_of VM_SIZES (entered ''Small'' ''medium'') = None"
    by (simp add: entered_def text_defs VM_SIZES_def)
  have padded: "Input (prompt_of ''Enter Size'' ''Small'') (''Large'' @ [CHR 0xA0])
      \<in> set (shown deploy_standard_vm padding_operator)"
    unfolding deploy_standard_vm_def padding_operator_def console_def shown_def
    by (simp add: run_defs text_defs OS_TYPES_def VM_SIZES_def)
  have large: "map_of VM_SIZES (entered ''Small'' (''Large'' @ [CHR 0xA0])) \<noteq> None"
    by (simp add: entered_def text_defs VM_SIZES_def)
  have returns: "Input (prompt_of ''Select template'' []) [CHR 0xA0, CHR ''b'']
      \<in> set (shown deploy_vm_from_template returning_operator)"
    unfolding deploy_vm_from_template_def display_template_menu_def returning_operator_def
      console_def shown_def
    by (simp add: run_defs prompt_of_def padded_b VM_TEMPLATES_def)
  from selector_normalisation [of lowercase_operator] shown none
  have 1: "Error [Lit ''Invalid size selection.'']
      \<in> set (shown deploy_standard_vm lowercase_operator)"
    by blast
  from selector_normalisation [of padding_operator] padded large
  have 2: "Error [Lit ''Invalid size selection.'']
      \<notin> set (shown deploy_standard_vm padding_operator)"
    by auto
  from selector_normalisation [of returning_operator] returns padded_b
  have 3: "Error [Lit ''Invalid template selection.'']
      \<notin> set (shown deploy_vm_from_template returning_operator)"
    by auto
  from shown none padded returns 1 2 3 show ?thesis by simp
qed

subsection \<open>The menus\<close>

text \<open>The four menu loops, each with the function that displays it, one turn of its loop
  and the tokens it recognises (compared after stripping and upper-casing).\<close>

datatype menu = Main | Configure | VMDeploy | ConfigManagement

fun menu_display :: "menu \<Rightarrow> unit io" where
  "menu_display Main = display_main_menu"
| "menu_display Configure = display_configure_menu"
| "menu_display VMDeploy = display_vm_menu"
| "menu_display ConfigManagement = display_config_management_menu"

fun menu_loop :: "menu \<Rightarrow> unit io" where
  "menu_loop Main = main_loop"
| "menu_loop Configure = handle_configure_menu"
| "menu_loop VMDeploy = handle_vm_menu"
| "menu_loop ConfigManagement = handle_config_management_menu"

fun tokens :: "menu \<Rightarrow> string list" where
  "tokens Main = [''1'', ''2'', ''3'', ''4'', ''5'', ''6'', ''C'', ''S'', ''Q'']"
| "tokens Configure = [''1'', ''2'', ''3'', ''4'', ''5'', ''6'', ''B'']"
| "tokens VMDeploy = [''1'', ''2'', ''B'']"
| "tokens ConfigManagement = [''1'', ''2'', ''3'', ''4'', ''5'', ''6'', ''7'', ''B'']"

text \<open>A function that only writes: it leaves everything but the output as it was.\<close>

definition writes :: "'a io \<Rightarrow> bool" where
  "writes m = (\<forall>w. \<exists>evs. snd (m w) = w\<lparr>out := out w @ evs\<rparr>)"

named_theorems writes_intros

lemma writes_return [writes_intros]: "writes (return a)"
  unfolding writes_def return_def by (auto intro: exI [of _ "[]"])

lemma writes_raise [writes_intros]: "writes (raise e)"
  unfolding writes_def raise_def by (auto intro: exI [of _ "[]"])

lemma writes_sys_exit [writes_intros]: "writes (sys_exit n)"
  by (simp add: sys_exit_def writes_raise)

lemma writes_lift [writes_intros]: "writes (lift r)"
  unfolding writes_def lift_def by (auto intro: exI [of _ "[]"] split: sum.splits)

lemma writes_emit [writes_intros]: "writes (emit e)"
  unfolding writes_def emit_def by auto

lemma writes_bind [writes_intros]:
  assumes "writes m" and "\<And>a. writes (f a)"
  shows "writes (bind m f)"
proof -
  have "\<exists>evs. snd (bind m f w) = w\<lparr>out := out w @ evs\<rparr>" for w
  proof (cases "m w")
    case (Pair r w')
    from assms(1) Pair obtain evs where m: "w' = w\<lparr>out := out w @ evs\<rparr>"
      unfolding writes_def by (metis snd_conv)
    show ?thesis
    proof (cases r)
      case (Inl e)
      with Pair m show ?thesis by (auto simp: bind_def)
    next
      case (Inr a)
      from assms(2) [of a] obtain evs' where "snd (f a w') = w'\<lparr>out := out w' @ evs'\<rparr>"
        unfolding writes_def by blast
      with Pair Inr m have "snd (bind m f w) = w\<lparr>out := out w @ (evs @ evs')\<rparr>"
        by (simp add: bind_def)
      then show ?thesis by blast
    qed
  qed
  then show ?thesis by (simp add: writes_def)
qed

lemma writes_seq [writes_intros]: "writes m \<Longrightarrow> writes n \<Longrightarrow> writes (seq m n)"
  by (simp add: seq_def writes_bind)

lemma writes_block_Nil [writes_intros]: "writes (block [])"
  by (simp add: writes_return)

lemma writes_block_Cons [writes_intros]:
  "writes m \<Longrightarrow> writes (block ms) \<Longrightarrow> writes (block (m # ms))"
  by (simp add: writes_seq)

lemma writes_load_config [writes_intros]: "writes load_config"
  unfolding writes_def load_config_def
  by (auto simp: seq_def bind_def print_error_def emit_def sys_exit_def raise_def
      intro: exI [of _ "[]"] split: option.splits sum.splits perr.splits)

lemma writes_display_main_menu: "writes display_main_menu"
  unfolding display_main_menu_def clear_screen_def print_header_def print_f_def print_def
  by (intro writes_intros)

lemma writesD: "writes m \<Longrightarrow> snd (m w) = w\<lparr>out := out w @ shown m w\<rparr>"
proof -
  assume "writes m"
  then obtain evs where e: "snd (m w) = w\<lparr>out := out w @ evs\<rparr>"
    unfolding writes_def by blast
  then have "shown m w = evs" by (simp add: shown_def)
  with e show ?thesis by simp
qed

lemma writes_display_configure_menu: "writes display_configure_menu"
  unfolding display_configure_menu_def clear_screen_def print_header_def print_def
  by (intro writes_intros)

lemma writes_display_vm_menu: "writes display_vm_menu"
  unfolding display_vm_menu_def clear_screen_def print_header_def print_def
  by (intro writes_intros)

lemma writes_display_config_management_menu: "writes display_config_management_menu"
  unfolding display_config_management_menu_def clear_screen_def print_header_def print_def
  by (intro writes_intros)

lemma display_run:
  assumes "result (menu_display m) w = Inr ()"
  shows "menu_display m w = (Inr (), w\<lparr>out := out w @ shown (menu_display m) w\<rparr>)"
proof -
  have "writes (menu_display m)"
    by (cases m)
       (simp_all add: writes_display_main_menu writes_display_configure_menu
          writes_display_vm_menu writes_display_config_management_menu)
  from writesD [OF this, of w] assms show ?thesis
    by (simp add: result_def prod_eq_iff)
qed

lemma invalid_option_run:
  "keys w = Line ack # rest \<Longrightarrow>
   invalid_option w =
     (Inr (), w\<lparr>keys := rest,
               out := out w @ [Error [Lit ''Invalid option. Please try again.''],
                               Input press_prompt ack]\<rparr>)"
  by (simp add: invalid_option_def press_enter_def press_prompt_def seq_def bind_def
      print_error_def emit_def input_def return_def)

definition asked_option :: "string \<Rightarrow> event" where
  "asked_option tok = Input ''Select option: '' tok"

lemma select_option:
  "keys w = Line tok # rest \<Longrightarrow>
   get_input ''Select option'' [] w =
     (Inr (strip tok), w\<lparr>keys := rest, out := out w @ [asked_option tok]\<rparr>)"
  by (simp add: get_input_Line prompt_of_def asked_option_def)

lemma configure_menu_turn_run:
  assumes "keys w = Line tok # rest"
  shows "configure_menu_turn w =
     (let choice = upper (strip tok);
          w1 = w\<lparr>keys := rest, out := out w @ shown display_configure_menu w @ [asked_option tok]\<rparr>
      in if choice = ''1'' then seq configure_vsan (return True) w1
         else if choice = ''2'' then seq configure_vds (return True) w1
         else if choice = ''3'' then seq configure_vmotion (return True) w1
         else if choice = ''4'' then seq configure_services (return True) w1
         else if choice = ''5'' then seq configure_security (return True) w1
         else if choice = ''6'' then seq configure_all (return True) w1
         else if choice = ''B'' then (Inr False, w1)
         else seq invalid_option (return True) w1)"
proof -
  have "result (menu_display Configure) w = Inr ()"
    by (simp add: result_def display_configure_menu_def clear_screen_def print_header_def
        print_def seq_def bind_def emit_def return_def)
  from display_run [OF this] assms show ?thesis
    by (simp add: configure_menu_turn_def seq_def bind_def select_option Let_def return_def)
qed

lemma vm_menu_turn_run:
  assumes "keys w = Line tok # rest"
  shows "vm_menu_turn w =
     (let choice = upper (strip tok);
          w1 = w\<lparr>keys := rest, out := out w @ shown display_vm_menu w @ [asked_option tok]\<rparr>
      in if choice = ''1'' then seq deploy_vm_from_template (return True) w1
         else if choice = ''2'' then seq deploy_standard_vm (return True) w1
         else if choice = ''B'' then (Inr False, w1)
         else seq invalid_option (return True) w1)"
proof -
  have "result (menu_display VMDeploy) w = Inr ()"
    by (simp add: result_def display_vm_menu_def clear_screen_def print_header_def
        print_def seq_def bind_def emit_def return_def)
  from display_run [OF this] assms show ?thesis
    by (simp add: vm_menu_turn_def seq_def bind_def select_option Let_def return_def)
qed

lemma config_management_menu_turn_run:
  assumes "keys w = Line tok # rest"
  shows "config_management_menu_turn w =
     (let choice = upper (strip tok);
          w1 = w\<lparr>keys := rest,
                 out := out w @ shown display_config_management_menu w @ [asked_option tok]\<rparr>
      in if choice = ''1'' then seq view_configuration (return True) w1
         else if choice = ''7'' then seq reload_configuration (return True) w1
         else if choice = ''B'' then (Inr False, w1)
         else if choice \<in> set [''2'', ''3'', ''4'', ''5'', ''6'']
           then seq (block
                  [print_warning [Lit ''Configuration editing is not yet implemented.''],
                   print_info [Lit ''Please edit config.json directly for now.''],
                   press_enter])
                (return True) w1
         else seq invalid_option (return True) w1)"
proof -
  have "result (menu_display ConfigManagement) w = Inr ()"
    by (simp add: result_def display_config_management_menu_def clear_screen_def
        print_header_def print_def seq_def bind_def emit_def return_def)
  from display_run [OF this] assms show ?thesis
    by (simp add: config_management_menu_turn_def seq_def bind_def select_option Let_def
        return_def)
qed

lemma main_select_run:
  assumes "result (menu_display Main) w = Inr ()" and "keys w = Line tok # rest"
  shows "main_select w =
     (let choice = upper (strip tok);
          w1 = w\<lparr>keys := rest, out := out w @ shown display_main_menu w @ [asked_option tok]\<rparr>
      in if choice = ''1'' then deploy_vcenter w1
         else if choice = ''2'' then deploy_infrastructure w1
         else if choice = ''3'' then deploy_datacenter w1
         else if choice = ''4'' then deploy_cluster w1
         else if choice = ''5'' then handle_configure_menu w1
         else if choice = ''6'' then handle_vm_menu w1
         else if choice = ''C'' then handle_config_management_menu w1
         else if choice = ''S'' then show_status w1
         else if choice = ''Q'' then
           (Inl (SystemExit 0),
            w1\<lparr>out := out w1 @ [Print [],
                    Info [Lit ''Thank you for using ECST VMware Automation Tool!''],
                    Print []]\<rparr>)
         else invalid_option w1)"
  using display_run [OF assms(1)] assms(2)
  by (simp add: main_select_def seq_def bind_def select_option Let_def return_def print_def
      print_info_def emit_def sys_exit_def raise_def)

text \<open>The world after an unrecognised token and its acknowledgement, after \<^verbatim>\<open>B\<close>, and after
  \<^verbatim>\<open>Q\<close>.\<close>

definition after_invalid :: "menu \<Rightarrow> string \<Rightarrow> string \<Rightarrow> key list \<Rightarrow> world \<Rightarrow> world" where
  "after_invalid m tok ack rest w =
     w\<lparr>keys := rest,
       out := out w @ shown (menu_display m) w
              @ [asked_option tok, Error [Lit ''Invalid option. Please try again.''],
                 Input press_prompt ack]\<rparr>"

definition after_back :: "menu \<Rightarrow> string \<Rightarrow> key list \<Rightarrow> world \<Rightarrow> world" where
  "after_back m tok rest w =
     w\<lparr>keys := rest, out := out w @ shown (menu_display m) w @ [asked_option tok]\<rparr>"

definition after_quit :: "string \<Rightarrow> key list \<Rightarrow> world \<Rightarrow> world" where
  "after_quit tok rest w =
     w\<lparr>keys := rest,
       out := out w @ shown display_main_menu w
              @ [asked_option tok, Print [],
                 Info [Lit ''Thank you for using ECST VMware Automation Tool!''], Print []]\<rparr>"

lemma unrecognised_token:
  assumes "result (menu_display m) w = Inr ()" and "keys w = Line tok # Line ack # rest"
    and "upper (strip tok) \<notin> set (tokens m)"
  shows "menu_loop m w = menu_loop m (after_invalid m tok ack rest w)"
proof (cases m)
  case Main
  with assms have "main_select w = (Inr (), after_invalid Main tok ack rest w)"
    by (simp add: main_select_run Let_def invalid_option_run after_invalid_def)
  then have "main_turn w = (Inr (), after_invalid Main tok ack rest w)"
    by (simp add: main_turn_def)
  then have "main_loop w = main_loop (after_invalid Main tok ack rest w)"
    by (subst main_loop.simps) simp
  with Main show ?thesis by simp
next
  case Configure
  with assms have "configure_menu_turn w = (Inr True, after_invalid Configure tok ack rest w)"
    by (simp add: configure_menu_turn_run Let_def invalid_option_run after_invalid_def
        seq_def bind_def return_def)
  then have "handle_configure_menu w = handle_configure_menu (after_invalid Configure tok ack rest w)"
    by (subst handle_configure_menu.simps) simp
  with Configure show ?thesis by simp
next
  case VMDeploy
  with assms have "vm_menu_turn w = (Inr True, after_invalid VMDeploy tok ack rest w)"
    by (simp add: vm_menu_turn_run Let_def invalid_option_run after_invalid_def
        seq_def bind_def return_def)
  then have "handle_vm_menu w = handle_vm_menu (after_invalid VMDeploy tok ack rest w)"
    by (subst handle_vm_menu.simps) simp
  with VMDeploy show ?thesis by simp
next
  case ConfigManagement
  with assms have "config_management_menu_turn w =
      (Inr True, after_invalid ConfigManagement tok ack rest w)"
    by (simp add: config_management_menu_turn_run Let_def invalid_option_run after_invalid_def
        seq_def bind_def return_def)
  then have "handle_config_management_menu w = handle_config_management_menu (after_invalid ConfigManagement tok ack rest w)"
    by (subst handle_config_management_menu.simps) simp
  with ConfigManagement show ?thesis by simp
qed

lemma back_token:
  assumes "m \<noteq> Main" and "keys w = Line tok # rest" and "upper (strip tok) = ''B''"
  shows "menu_loop m w = (Inr (), after_back m tok rest w)"
proof (cases m)
  case Main
  with assms show ?thesis by simp
next
  case Configure
  with assms have "configure_menu_turn w = (Inr False, after_back Configure tok rest w)"
    by (simp add: configure_menu_turn_run Let_def after_back_def)
  then have "handle_configure_menu w = (Inr (), after_back Configure tok rest w)"
    by (subst handle_configure_menu.simps) simp
  with Configure show ?thesis by simp
next
  case VMDeploy
  with assms have "vm_menu_turn w = (Inr False, after_back VMDeploy tok rest w)"
    by (simp add: vm_menu_turn_run Let_def after_back_def)
  then have "handle_vm_menu w = (Inr (), after_back VMDeploy tok rest w)"
    by (subst handle_vm_menu.simps) simp
  with VMDeploy show ?thesis by simp
next
  case ConfigManagement
  with assms have "config_management_menu_turn w =
      (Inr False, after_back ConfigManagement tok rest w)"
    by (simp add: config_management_menu_turn_run Let_def after_back_def)
  then have "handle_config_management_menu w = (Inr (), after_back ConfigManagement tok rest w)"
    by (subst handle_config_management_menu.simps) simp
  with ConfigManagement show ?thesis by simp
qed

lemma quit_token:
  assumes "result (menu_display Main) w = Inr ()" and "keys w = Line tok # rest"
    and "upper (strip tok) = ''Q''"
  shows "main_loop w = (Inl (SystemExit 0), after_quit tok rest w)"
proof -
  from assms have "main_select w = (Inl (SystemExit 0), after_quit tok rest w)"
    by (simp add: main_select_run Let_def after_quit_def)
  then have "main_turn w = (Inl (SystemExit 0), after_quit tok rest w)"
    by (simp add: main_turn_def)
  then show ?thesis
    by (subst main_loop.simps) simp
qed

text \<open>C9: in each of the four menus a token that the menu does not recognise is answered
  with the error message and, once acknowledged, the same loop goes on; \<^verbatim>\<open>Q\<close> ends the
  process (exit status 0) from the main menu and is not a token of any submenu; \<^verbatim>\<open>B\<close>
  makes a submenu's loop return to its caller and is not a token of the main menu.\<close>

theorem menu_tokens:
  assumes "result (menu_display m) w = Inr ()"
  shows "(\<forall>tok ack rest.
            keys w = Line tok # Line ack # rest \<and> upper (strip tok) \<notin> set (tokens m) \<longrightarrow>
            menu_loop m w = menu_loop m (after_invalid m tok ack rest w))
         \<and> (\<forall>tok rest.
            keys w = Line tok # rest \<and> upper (strip tok) = ''Q'' \<longrightarrow>
            (if m = Main then menu_loop m w = (Inl (SystemExit 0), after_quit tok rest w)
             else ''Q'' \<notin> set (tokens m)))
         \<and> (\<forall>tok rest.
            keys w = Line tok # rest \<and> upper (strip tok) = ''B'' \<longrightarrow>
            (if m = Main then ''B'' \<notin> set (tokens m)
             else menu_loop m w = (Inr (), after_back m tok rest w)))"
proof (intro conjI allI impI)
  fix tok ack rest
  assume "keys w = Line tok # Line ack # rest \<and> upper (strip tok) \<notin> set (tokens m)"
  with assms show "menu_loop m w = menu_loop m (after_invalid m tok ack rest w)"
    by (simp add: unrecognised_token)
next
  fix tok rest
  assume "keys w = Line tok # rest \<and> upper (strip tok) = ''Q''"
  with assms show "if m = Main then menu_loop m w = (Inl (SystemExit 0), after_quit tok rest w)
             else ''Q'' \<notin> set (tokens m)"
    by (cases m) (simp_all add: quit_token)
next
  fix tok rest
  assume "keys w = Line tok # rest \<and> upper (strip tok) = ''B''"
  then show "if m = Main then ''B'' \<notin> set (tokens m)
             else menu_loop m w = (Inr (), after_back m tok rest w)"
    by (cases "m = Main") (simp_all add: back_token)
qed

text \<open>One operator types \<^verbatim>\<open>q\<close> in the VM menu; another types a no-break space and \<^verbatim>\<open>b\<close>
  there.\<close>

definition mistyping_operator :: world where
  "mistyping_operator = console [Line ''q'', Line []] None (\<lambda>_ _. Some 0)"

definition leaving_operator :: world where
  "leaving_operator = console [Line [CHR 0xA0, CHR ''b'']] None (\<lambda>_ _. Some 0)"

theorem menu_tokens_witness:
  "result (menu_display VMDeploy) mistyping_operator = Inr ()
   \<and> keys mistyping_operator = [Line ''q'', Line []]
   \<and> upper (strip ''q'') \<notin> set (tokens VMDeploy)
   \<and> menu_loop VMDeploy mistyping_operator
       = menu_loop VMDeploy (after_invalid VMDeploy ''q'' [] [] mistyping_operator)
   \<and> Error [Lit ''Invalid option. Please try again.'']
       \<in> set (out (after_invalid VMDeploy ''q'' [] [] mistyping_operator))
   \<and> upper (strip [CHR 0xA0, CHR ''b'']) = ''B''
   \<and> menu_loop VMDeploy leaving_operator
       = (Inr (), after_back VMDeploy [CHR 0xA0, CHR ''b''] [] leaving_operator)"
proof -
  have shown': "result (menu_display VMDeploy) leaving_operator = Inr ()"
    by (simp add: result_def display_vm_menu_def clear_screen_def print_header_def
        print_def seq_def bind_def emit_def return_def)
  have keys': "keys leaving_operator = [Line [CHR 0xA0, CHR ''b'']]"
    by (simp add: leaving_operator_def console_def)
  have b: "upper (strip [CHR 0xA0, CHR ''b'']) = ''B''"
    by code_simp
  from menu_tokens [OF shown'] keys' b
  have leaves: "menu_loop VMDeploy leaving_operator
       = (Inr (), after_back VMDeploy [CHR 0xA0, CHR ''b''] [] leaving_operator)"
    by simp
  have shown: "result (menu_display VMDeploy) mistyping_operator = Inr ()"
    by (simp add: result_def display_vm_menu_def clear_screen_def print_header_def
        print_def seq_def bind_def emit_def return_def)
  have keys: "keys mistyping_operator = [Line ''q'', Line []]"
    by (simp add: mistyping_operator_def console_def)
  have unknown: "upper (strip ''q'') \<notin> set (tokens VMDeploy)"
    by code_simp
  from menu_tokens [OF shown] keys unknown
  have "menu_loop VMDeploy mistyping_operator
       = menu_loop VMDeploy (after_invalid VMDeploy ''q'' [] [] mistyping_operator)"
    by blast
  with shown keys unknown b leaves show ?thesis
    by (simp add: after_invalid_def)
qed

subsection \<open>Exit codes\<close>

text \<open>What \<^verbatim>\<open>main\<close> prints before anything else on a platform other than Windows, and
  the world once that is printed.\<close>

definition platform_warnings :: "world \<Rightarrow> event list" where
  "platform_warnings w =
     (if nt w then []
      else [Warning [Lit ''This tool is designed for Windows with PowerShell.''],
            Warning [Lit ''Some features may not work correctly on other platforms.'']])"

definition started :: "world \<Rightarrow> world" where
  "started w = w\<lparr>out := out w @ platform_warnings w\<rparr>"

lemma main_missing:
  "config_file w = None \<Longrightarrow>
   main w =
     (Inl (SystemExit 1),
      w\<lparr>out := out w @ platform_warnings w
          @ [Error [Lit ''Configuration file not found: '', Path [''config.json'']],
             Info [Lit ''Please create a config.json file before running this tool.'']]\<rparr>)"
  by (simp add: main_def seq_def bind_def gets_def return_def print_warning_def
      print_error_def print_info_def emit_def sys_exit_def raise_def platform_warnings_def)

lemma main_present:
  "config_file w = Some content \<Longrightarrow> main w = main_loop (started w)"
  by (simp add: main_def seq_def bind_def gets_def return_def print_warning_def emit_def
      platform_warnings_def started_def)

lemma main_loop_malformed:
  assumes "config_file w = Some content" and "json_loads content = Inl JSONDecodeError"
  shows "main_loop w =
     (Inl (SystemExit 1),
      w\<lparr>out := out w
          @ [ClearScreen, Header ''ECST VMware Automation Tool'',
             Error [Lit ''Invalid JSON in configuration file: '', Detail]]\<rparr>)"
proof -
  from assms have "main_select w =
     (Inl (SystemExit 1),
      w\<lparr>out := out w
          @ [ClearScreen, Header ''ECST VMware Automation Tool'',
             Error [Lit ''Invalid JSON in configuration file: '', Detail]]\<rparr>)"
    by (simp add: main_select_def display_main_menu_def seq_def bind_def clear_screen_def
        print_header_def print_error_def emit_def load_config_def sys_exit_def raise_def)
  then have "main_turn w =
     (Inl (SystemExit 1),
      w\<lparr>out := out w
          @ [ClearScreen, Header ''ECST VMware Automation Tool'',
             Error [Lit ''Invalid JSON in configuration file: '', Detail]]\<rparr>)"
    by (simp add: main_turn_def)
  then show ?thesis
    by (subst main_loop.simps) simp
qed

text \<open>C5: the process exits with status 0 when the operator selects \<^verbatim>\<open>Q\<close> at the main menu.
  It exits with status 1 at start-up when \<^verbatim>\<open>config.json\<close> is missing, after the
  configuration error message and a hint, and when its content is not JSON, after the
  invalid-JSON error message; in both cases no menu line and no prompt is shown (in the
  second the screen has been cleared and the title banner printed when the file is read).\<close>

theorem exit_codes:
  "(config_file w = None \<longrightarrow>
      main w =
        (Inl (SystemExit 1),
         w\<lparr>out := out w @ platform_warnings w
             @ [Error [Lit ''Configuration file not found: '', Path [''config.json'']],
                Info [Lit ''Please create a config.json file before running this tool.'']]\<rparr>))
   \<and> (\<forall>content.
        config_file w = Some content \<and> json_loads content = Inl JSONDecodeError \<longrightarrow>
        main w =
          (Inl (SystemExit 1),
           w\<lparr>out := out w @ platform_warnings w
               @ [ClearScreen, Header ''ECST VMware Automation Tool'',
                  Error [Lit ''Invalid JSON in configuration file: '', Detail]]\<rparr>))
   \<and> (\<forall>content tok rest.
        config_file w = Some content \<and> result display_main_menu (started w) = Inr ()
        \<and> keys w = Line tok # rest \<and> upper (strip tok) = ''Q'' \<longrightarrow>
        main w = (Inl (SystemExit 0), after_quit tok rest (started w)))"
proof (intro conjI allI impI)
  assume "config_file w = None"
  then show "main w =
        (Inl (SystemExit 1),
         w\<lparr>out := out w @ platform_warnings w
             @ [Error [Lit ''Configuration file not found: '', Path [''config.json'']],
                Info [Lit ''Please create a config.json file before running this tool.'']]\<rparr>)"
    by (rule main_missing)
next
  fix content
  assume a: "config_file w = Some content \<and> json_loads content = Inl JSONDecodeError"
  then have "config_file (started w) = Some content" by (simp add: started_def)
  from main_loop_malformed [OF this] a
  show "main w =
          (Inl (SystemExit 1),
           w\<lparr>out := out w @ platform_warnings w
               @ [ClearScreen, Header ''ECST VMware Automation Tool'',
                  Error [Lit ''Invalid JSON in configuration file: '', Detail]]\<rparr>)"
    by (simp add: main_present started_def)
next
  fix content tok rest
  assume a: "config_file w = Some content \<and> result display_main_menu (started w) = Inr ()
        \<and> keys w = Line tok # rest \<and> upper (strip tok) = ''Q''"
  then have "keys (started w) = Line tok # rest" by (simp add: started_def)
  with a have "main_loop (started w) = (Inl (SystemExit 0), after_quit tok rest (started w))"
    by (simp add: quit_token)
  with a show "main w = (Inl (SystemExit 0), after_quit tok rest (started w))"
    by (simp add: main_present)
qed

definition small_config :: string where
  \<open>small_config =
     ''{"environment": {"name": "lab"}, "vcenter": {"server": "vc01"}, ''
     @ ''"datacenter": {"name": "DC1"}, "cluster": {"name": "CL1"}}''\<close>

lemma small_config_loads:
  "json_loads small_config =
     Inr (PDict [(''environment'', PDict [(''name'', PStr ''lab'')]),
                 (''vcenter'', PDict [(''server'', PStr ''vc01'')]),
                 (''datacenter'', PDict [(''name'', PStr ''DC1'')]),
                 (''cluster'', PDict [(''name'', PStr ''CL1'')])])"
  by (simp add: small_config_def json_defs)

lemma truncated_config: "json_loads ''{'' = Inl JSONDecodeError"
  by (simp add: json_defs)

theorem exit_codes_witness:
  "fst (main (console [] None (\<lambda>_ _. Some 0))) = Inl (SystemExit 1)
   \<and> out (snd (main (console [] None (\<lambda>_ _. Some 0)))) =
       [Error [Lit ''Configuration file not found: '', Path [''config.json'']],
        Info [Lit ''Please create a config.json file before running this tool.'']]
   \<and> fst (main (console [] (Some ''{'') (\<lambda>_ _. Some 0))) = Inl (SystemExit 1)
   \<and> out (snd (main (console [] (Some ''{'') (\<lambda>_ _. Some 0)))) =
       [ClearScreen, Header ''ECST VMware Automation Tool'',
        Error [Lit ''Invalid JSON in configuration file: '', Detail]]
   \<and> fst (main (console [Line ''q''] (Some small_config) (\<lambda>_ _. Some 0))) = Inl (SystemExit 0)"
proof -
  let ?missing = "console [] None (\<lambda>_ _. Some 0)"
  let ?malformed = "console [] (Some ''{'') (\<lambda>_ _. Some 0)"
  let ?quitting = "console [Line ''q''] (Some small_config) (\<lambda>_ _. Some 0)"
  have 1: "config_file ?missing = None"
    by (simp add: console_def)
  have 2: "config_file ?malformed = Some ''{'' \<and> json_loads ''{'' = Inl JSONDecodeError"
    by (simp add: console_def truncated_config)
  have "result display_main_menu (started ?quitting) = Inr ()"
    by (simp add: result_def started_def platform_warnings_def console_def
        display_main_menu_def run_defs small_config_loads)
  moreover have "upper (strip ''q'') = ''Q''"
    by code_simp
  ultimately have 3: "config_file ?quitting = Some small_config
      \<and> result display_main_menu (started ?quitting) = Inr ()
      \<and> keys ?quitting = Line ''q'' # [] \<and> upper (strip ''q'') = ''Q''"
    by (simp add: console_def)
  from exit_codes [of ?missing] 1
  have "main ?missing =
        (Inl (SystemExit 1),
         ?missing\<lparr>out := out ?missing @ platform_warnings ?missing
             @ [Error [Lit ''Configuration file not found: '', Path [''config.json'']],
                Info [Lit ''Please create a config.json file before running this tool.'']]\<rparr>)"
    by blast
  moreover from exit_codes [of ?malformed] 2
  have "main ?malformed =
          (Inl (SystemExit 1),
           ?malformed\<lparr>out := out ?malformed @ platform_warnings ?malformed
               @ [ClearScreen, Header ''ECST VMware Automation Tool'',
                  Error [Lit ''Invalid JSON in configuration file: '', Detail]]\<rparr>)"
    by blast
  moreover from exit_codes [of ?quitting] 3
  have "main ?quitting = (Inl (SystemExit 0), after_quit ''q'' [] (started ?quitting))"
    by blast
  ultimately show ?thesis
    by (simp add: console_def platform_warnings_def)
qed

subsection \<open>The backend's exit status\<close>

text \<open>\<open>reported failed rc e\<close>: the event \<open>e\<close> is the report of the exit status \<open>rc\<close>, a
  success message when it is zero and otherwise the error message \<open>failed\<close> followed by the
  exit code. \<open>outcome\<close>: the report is the last thing shown before the acknowledgement
  prompt; when \<^verbatim>\<open>powershell.exe\<close> cannot be started, \<^verbatim>\<open>subprocess.run\<close> raises.\<close>

fun reported :: "string \<Rightarrow> int \<Rightarrow> event \<Rightarrow> bool" where
  "reported failed rc (Success ok) = (rc = 0)"
| "reported failed rc (Error message) = (rc \<noteq> 0 \<and> message = [Lit failed, Val (PInt rc)])"
| "reported failed rc e = False"

definition outcome :: "string \<Rightarrow> int option \<Rightarrow> (exc + unit) \<Rightarrow> event list \<Rightarrow> bool" where
  "outcome failed status r evs =
     (case status of
        None \<Rightarrow> r = Inl FileNotFoundError
      | Some rc \<Rightarrow>
          2 \<le> length evs \<and> reported failed rc (last (butlast evs)) \<and> acknowledged (last evs) r)"

lemma outcome_append: "outcome failed status r evs \<Longrightarrow> outcome failed status r (pre @ evs)"
  by (cases status) (auto simp: outcome_def butlast_append butlast_not_Nil)

definition reports :: "string \<Rightarrow> unit io \<Rightarrow> bool" where
  "reports failed m =
     (\<forall>w. \<exists>evs cs. out (snd (m w)) = out w @ evs \<and> calls (snd (m w)) = calls w @ cs
        \<and> (cs = [] \<or> (\<exists>c. cs = [c]
              \<and> outcome failed (powershell w (length (calls w)) c) (fst (m w)) evs)))"

lemma reports_bind:
  assumes "silent False (\<lambda>_. False) m" and "\<And>a. reports failed (f a)"
  shows "reports failed (bind m f)"
proof -
  have "\<exists>evs cs. out (snd (bind m f w)) = out w @ evs \<and> calls (snd (bind m f w)) = calls w @ cs
        \<and> (cs = [] \<or> (\<exists>c. cs = [c]
              \<and> outcome failed (powershell w (length (calls w)) c) (fst (bind m f w)) evs))" for w
  proof (cases "m w")
    case (Pair r w')
    from assms(1) obtain evs where m: "out (snd (m w)) = out w @ evs"
      "calls (snd (m w)) = calls w" "powershell (snd (m w)) = powershell w"
      unfolding silent_def by force
    show ?thesis
    proof (cases r)
      case (Inl e)
      with Pair m have "out (snd (bind m f w)) = out w @ evs
          \<and> calls (snd (bind m f w)) = calls w @ []"
        by (simp add: bind_def)
      then show ?thesis by blast
    next
      case (Inr a)
      from assms(2) [of a] obtain evs' cs where f: "out (snd (f a w')) = out w' @ evs'"
        "calls (snd (f a w')) = calls w' @ cs"
        "cs = [] \<or> (\<exists>c. cs = [c]
              \<and> outcome failed (powershell w' (length (calls w')) c) (fst (f a w')) evs')"
        unfolding reports_def by blast
      from f(3) Pair m have "cs = [] \<or> (\<exists>c. cs = [c]
              \<and> outcome failed (powershell w (length (calls w)) c) (fst (f a w')) (evs @ evs'))"
        by (auto intro: outcome_append)
      with Pair Inr m f(1,2) have "out (snd (bind m f w)) = out w @ (evs @ evs')
          \<and> calls (snd (bind m f w)) = calls w @ cs
          \<and> (cs = [] \<or> (\<exists>c. cs = [c]
              \<and> outcome failed (powershell w (length (calls w)) c) (fst (bind m f w))
                   (evs @ evs')))"
        by (simp add: bind_def)
      then show ?thesis by blast
    qed
  qed
  then show ?thesis by (simp add: reports_def)
qed

lemma reports_seq:
  "silent False (\<lambda>_. False) m \<Longrightarrow> reports failed n \<Longrightarrow> reports failed (seq m n)"
  by (simp add: seq_def reports_bind)

lemma reports_if:
  "(b \<Longrightarrow> reports failed x) \<Longrightarrow> (\<not> b \<Longrightarrow> reports failed y)
   \<Longrightarrow> reports failed (if b then x else y)"
  by simp

lemma reports_case_option:
  "reports failed a \<Longrightarrow> (\<And>x. reports failed (f x)) \<Longrightarrow> reports failed (case_option a f v)"
  by (cases v) simp_all

lemma reports_silent:
  assumes "silent False F m"
  shows "reports failed m"
proof -
  have "\<exists>evs cs. out (snd (m w)) = out w @ evs \<and> calls (snd (m w)) = calls w @ cs
        \<and> (cs = [] \<or> (\<exists>c. cs = [c]
              \<and> outcome failed (powershell w (length (calls w)) c) (fst (m w)) evs))" for w
  proof -
    from assms obtain evs where "out (snd (m w)) = out w @ evs" "calls (snd (m w)) = calls w @ []"
      unfolding silent_def by force
    then show ?thesis by blast
  qed
  then show ?thesis by (simp add: reports_def)
qed

lemma report_run:
  "\<exists>ev. out (snd (report rc ok failed w))
           = out w @ [if rc = 0 then Success ok else Error [Lit failed, Val (PInt rc)], ev]
        \<and> calls (snd (report rc ok failed w)) = calls w
        \<and> acknowledged ev (fst (report rc ok failed w))"
proof -
  let ?e = "if rc = 0 then Success ok else Error [Lit failed, Val (PInt rc)]"
  let ?w1 = "w\<lparr>out := out w @ [?e]\<rparr>"
  have "report rc ok failed w = press_enter ?w1"
    by (simp add: report_def seq_def bind_def print_success_def print_error_def emit_def)
  with press_enter_run [of ?w1] show ?thesis by auto
qed

lemma reports_subprocess:
  "reports failed
     (seq (emit e1) (seq (emit e2)
        (bind (bind (subprocess_run cmd) (\<lambda>result. seq (emit e3) (return result)))
           (\<lambda>returncode. report returncode ok failed))))"
proof -
  let ?m = "seq (emit e1) (seq (emit e2)
        (bind (bind (subprocess_run cmd) (\<lambda>result. seq (emit e3) (return result)))
           (\<lambda>returncode. report returncode ok failed)))"
  have "\<exists>evs cs. out (snd (?m w)) = out w @ evs \<and> calls (snd (?m w)) = calls w @ cs
        \<and> (cs = [] \<or> (\<exists>c. cs = [c]
              \<and> outcome failed (powershell w (length (calls w)) c) (fst (?m w)) evs))" for w
  proof (cases "powershell w (length (calls w)) cmd")
    case None
    then have "out (snd (?m w)) = out w @ [e1, e2] \<and> calls (snd (?m w)) = calls w @ [cmd]
        \<and> outcome failed (powershell w (length (calls w)) cmd) (fst (?m w)) [e1, e2]"
      by (simp add: seq_def bind_def emit_def subprocess_run_def outcome_def)
    then show ?thesis by blast
  next
    case (Some rc)
    let ?w1 = "w\<lparr>out := out w @ [e1, e2], calls := calls w @ [cmd],
                  out := out w @ [e1, e2, e3]\<rparr>"
    let ?e = "if rc = 0 then Success ok else Error [Lit failed, Val (PInt rc)]"
    from Some have run: "?m w = report rc ok failed ?w1"
      by (simp add: seq_def bind_def emit_def subprocess_run_def return_def)
    from report_run [of rc ok failed ?w1] obtain ev where
      ev: "out (snd (report rc ok failed ?w1)) = out ?w1 @ [?e, ev]"
      "calls (snd (report rc ok failed ?w1)) = calls ?w1"
      "acknowledged ev (fst (report rc ok failed ?w1))"
      by blast
    have "reported failed rc ?e" by simp
    with ev run Some have "out (snd (?m w)) = out w @ [e1, e2, e3, ?e, ev]
        \<and> calls (snd (?m w)) = calls w @ [cmd]
        \<and> outcome failed (powershell w (length (calls w)) cmd) (fst (?m w)) [e1, e2, e3, ?e, ev]"
      by (simp add: outcome_def)
    then show ?thesis by blast
  qed
  then show ?thesis by (simp add: reports_def)
qed

lemma bind_assoc: "bind (bind m f) g = bind m (\<lambda>a. bind (f a) g)"
  by (rule ext) (simp add: bind_def split: prod.splits sum.splits)

lemma seq_bind: "bind (seq m n) g = seq m (bind n g)"
  by (simp add: seq_def bind_assoc)

lemma reports_run_powershell_command:
  "reports failed
     (bind (run_powershell_command command) (\<lambda>returncode. report returncode ok failed))"
  unfolding run_powershell_command_def Let_def print_info_def seq_bind
  by (rule reports_subprocess)

lemma reports_run_powershell:
  "reports failed
     (bind (run_powershell script params) (\<lambda>returncode. report returncode ok failed))"
  unfolding run_powershell_def Let_def print_info_def seq_bind
  by (rule reports_subprocess)

lemmas reports_intros =
  reports_run_powershell_command reports_run_powershell reports_bind reports_seq reports_if
  reports_case_option

text \<open>The error message of each function for a nonzero exit status.\<close>

fun failure :: "operation \<Rightarrow> string" where
  "failure DeployVCSA = ''VCSA deployment failed with exit code: ''"
| "failure DeployInfrastructure = ''Infrastructure deployment failed with exit code: ''"
| "failure DeployDatacenter = ''Datacenter creation failed with exit code: ''"
| "failure DeployCluster = ''Cluster creation failed with exit code: ''"
| "failure ConfigureVsan = ''vSAN configuration failed with exit code: ''"
| "failure ConfigureVds = ''VDS configuration failed with exit code: ''"
| "failure ConfigureVmotion = ''vMotion configuration failed with exit code: ''"
| "failure ConfigureServices = ''Service configuration failed with exit code: ''"
| "failure ConfigureSecurity = ''Security configuration failed with exit code: ''"
| "failure ConfigureAll = ''Configuration failed with exit code: ''"
| "failure DeployVmFromTemplate = ''VM deployment failed with exit code: ''"
| "failure DeployStandardVm = ''VM creation failed with exit code: ''"

lemma reports_deploy_vcenter: "reports (failure DeployVCSA) deploy_vcenter"
  unfolding deploy_vcenter_def failure.simps
  by (intro reports_intros; (intro reports_silent [of "\<lambda>_. False"] silent_intros)?; simp)

lemma reports_deploy_infrastructure: "reports (failure DeployInfrastructure) deploy_infrastructure"
  unfolding deploy_infrastructure_def failure.simps
  by (intro reports_intros; (intro reports_silent [of "\<lambda>_. False"] silent_intros)?; simp)

lemma reports_deploy_datacenter: "reports (failure DeployDatacenter) deploy_datacenter"
  unfolding deploy_datacenter_def failure.simps
  by (intro reports_intros; (intro reports_silent [of "\<lambda>_. False"] silent_intros)?; simp)

lemma reports_deploy_cluster: "reports (failure DeployCluster) deploy_cluster"
  unfolding deploy_cluster_def failure.simps
  by (intro reports_intros; (intro reports_silent [of "\<lambda>_. False"] silent_intros)?; simp)

lemma reports_configure_vsan: "reports (failure ConfigureVsan) configure_vsan"
  unfolding configure_vsan_def failure.simps
  by (intro reports_intros; (intro reports_silent [of "\<lambda>_. False"] silent_intros)?; simp)

lemma reports_configure_vds: "reports (failure ConfigureVds) configure_vds"
  unfolding configure_vds_def failure.simps
  by (intro reports_intros; (intro reports_silent [of "\<lambda>_. False"] silent_intros)?; simp)

lemma reports_configure_vmotion: "reports (failure ConfigureVmotion) configure_vmotion"
  unfolding configure_vmotion_def failure.simps
  by (intro reports_intros; (intro reports_silent [of "\<lambda>_. False"] silent_intros)?; simp)

lemma reports_configure_services: "reports (failure ConfigureServices) configure_services"
  unfolding configure_services_def failure.simps
  by (intro reports_intros; (intro reports_silent [of "\<lambda>_. False"] silent_intros)?; simp)

lemma reports_configure_security: "reports (failure ConfigureSecurity) configure_security"
  unfolding configure_security_def failure.simps
  by (intro reports_intros; (intro reports_silent [of "\<lambda>_. False"] silent_intros)?; simp)

lemma reports_configure_all: "reports (failure ConfigureAll) configure_all"
  unfolding configure_all_def failure.simps
  by (intro reports_intros; (intro reports_silent [of "\<lambda>_. False"] silent_intros)?; simp)

lemma reports_deploy_vm_from_template: "reports (failure DeployVmFromTemplate) deploy_vm_from_template"
  unfolding deploy_vm_from_template_def display_template_menu_def Let_def failure.simps
  by (intro reports_intros; (intro reports_silent [of "\<lambda>_. False"] silent_intros)?; simp)

lemma reports_deploy_standard_vm: "reports (failure DeployStandardVm) deploy_standard_vm"
  unfolding deploy_standard_vm_def failure.simps
  by (intro reports_intros; (intro reports_silent [of "\<lambda>_. False"] silent_intros)?; simp)

lemma reports_run_operation: "reports (failure op) (run_operation op)"
  using reports_deploy_vcenter reports_deploy_infrastructure reports_deploy_datacenter
    reports_deploy_cluster reports_configure_vsan reports_configure_vds
    reports_configure_vmotion reports_configure_services reports_configure_security
    reports_configure_all reports_deploy_vm_from_template reports_deploy_standard_vm
  by (cases op) simp_all

text \<open>The status query ignores the result of \<^verbatim>\<open>run_powershell_command\<close>: with a backend that
  exits with status 1 it shows neither a success nor an error message.\<close>

definition failing_backend :: world where
  "failing_backend = console [Line []] (Some ''{}'') (\<lambda>_ _. Some 1)"

theorem status_query_counterexample:
  "length (invoked show_status failing_backend) = 1
   \<and> powershell failing_backend 0 (hd (invoked show_status failing_backend)) = Some 1
   \<and> shown show_status failing_backend
       = [Header ''Infrastructure Status'', Info [Lit ''Executing PowerShell command...''],
          Rule, Rule, Input press_prompt []]
   \<and> result show_status failing_backend = Inr ()"
  by (simp add: failing_backend_def console_def show_status_def show_status_script_def
        shown_def invoked_def result_def run_defs text_defs json_defs)

text \<open>C4 (amended): each of the twelve deployment and configuration functions invokes the
  backend at most once; when it does and the backend exits with status \<open>rc\<close>, the last message
  before the acknowledgement prompt is a success message if \<open>rc = 0\<close> and otherwise the
  function's error message with the exit code \<open>rc\<close>.\<close>

theorem exit_status_reported:
  assumes "invoked (run_operation op) w \<noteq> []"
  shows "\<exists>c. invoked (run_operation op) w = [c]
    \<and> outcome (failure op) (powershell w (length (calls w)) c)
        (result (run_operation op) w) (shown (run_operation op) w)"
proof -
  from reports_run_operation [of op] obtain evs cs where
    run: "out (snd (run_operation op w)) = out w @ evs"
    "calls (snd (run_operation op w)) = calls w @ cs"
    "cs = [] \<or> (\<exists>c. cs = [c]
        \<and> outcome (failure op) (powershell w (length (calls w)) c)
            (fst (run_operation op w)) evs)"
    unfolding reports_def by blast
  from run(1,2) have "shown (run_operation op) w = evs" "invoked (run_operation op) w = cs"
    by (simp_all add: shown_def invoked_def)
  with run(3) assms show ?thesis by (auto simp: result_def)
qed

definition rejecting_backend :: world where
  \<open>rejecting_backend
     = console [Line ''y'', Line []] (Some ''{"datacenter": {"name": "DC1"}}'')
         (\<lambda>_ _. Some 3)\<close>

theorem exit_status_reported_witness:
  "invoked deploy_datacenter rejecting_backend \<noteq> []
   \<and> reported ''Datacenter creation failed with exit code: '' 3
        (last (butlast (shown deploy_datacenter rejecting_backend)))
   \<and> acknowledged (last (shown deploy_datacenter rejecting_backend))
        (result deploy_datacenter rejecting_backend)"
proof -
  have run: "invoked deploy_datacenter rejecting_backend
      = [[[Lit ''powershell.exe''], [Lit ''-ExecutionPolicy''], [Lit ''Bypass''],
          [Lit ''-Command''], deploy_datacenter_script]]"
    by (simp add: rejecting_backend_def console_def deploy_datacenter_def invoked_def
          run_defs text_defs json_defs)
  have backend: "powershell rejecting_backend n c = Some 3" for n c
    by (simp add: rejecting_backend_def console_def)
  from exit_status_reported [of DeployDatacenter rejecting_backend] run backend
  show ?thesis by (auto simp: outcome_def)
qed

subsection \<open>Two runs compared\<close>

text \<open>\<open>agree w v\<close>: the worlds differ at most in what has been shown. \<open>similar m n\<close>: from
  worlds that agree, \<open>m\<close> and \<open>n\<close> give the same result and worlds that agree again; in
  particular they read the same keys and make the same backend invocations.\<close>

definition agree :: "world \<Rightarrow> world \<Rightarrow> bool" where
  "agree w v =
     (keys v = keys w \<and> config_file v = config_file w \<and> script_files v = script_files w
      \<and> nt v = nt w \<and> powershell v = powershell w \<and> calls v = calls w)"

definition similar :: "'a io \<Rightarrow> 'a io \<Rightarrow> bool" where
  "similar m n = (\<forall>w v. agree w v \<longrightarrow> fst (m w) = fst (n v) \<and> agree (snd (m w)) (snd (n v)))"

lemma agree_fields:
  assumes "agree w v"
  shows "keys v = keys w" "config_file v = config_file w" "script_files v = script_files w"
    "nt v = nt w" "powershell v = powershell w" "calls v = calls w"
  using assms by (simp_all add: agree_def)

lemma agree_out: "agree w v \<Longrightarrow> agree (w\<lparr>out := a\<rparr>) (v\<lparr>out := b\<rparr>)"
  by (simp add: agree_def)

lemma agree_keys: "agree w v \<Longrightarrow> agree (w\<lparr>keys := ks\<rparr>) (v\<lparr>keys := ks\<rparr>)"
  by (simp add: agree_def)

lemma agree_calls: "agree w v \<Longrightarrow> agree (w\<lparr>calls := cs\<rparr>) (v\<lparr>calls := cs\<rparr>)"
  by (simp add: agree_def)

named_theorems similar_intros

lemma similar_return [similar_intros]: "similar (return a) (return a)"
  by (simp add: similar_def return_def)

lemma similar_raise [similar_intros]: "similar (raise e) (raise e)"
  by (simp add: similar_def raise_def)

lemma similar_sys_exit [similar_intros]: "similar (sys_exit n) (sys_exit n)"
  by (simp add: sys_exit_def similar_raise)

lemma similar_lift [similar_intros]: "similar (lift r) (lift r)"
  by (simp add: similar_def lift_def split: sum.splits)

lemma similar_emit [similar_intros]: "similar (emit e) (emit e')"
  by (simp add: similar_def emit_def agree_out)

lemma similar_input [similar_intros]: "similar (input p) (input p')"
proof -
  have "fst (input p w) = fst (input p' v) \<and> agree (snd (input p w)) (snd (input p' v))"
    if "agree w v" for w v
  proof -
    from that have "keys v = keys w" by (rule agree_fields(1))
    with that show ?thesis
      by (cases "keys w" rule: list.exhaust [case_product key.exhaust [of "hd (keys w)"]])
         (auto simp: input_def agree_out agree_keys split: key.splits)
  qed
  then show ?thesis by (simp add: similar_def)
qed

lemma similar_bind [similar_intros]:
  assumes "similar m n" and "\<And>a. similar (f a) (g a)"
  shows "similar (bind m f) (bind n g)"
proof -
  have "fst (bind m f w) = fst (bind n g v) \<and> agree (snd (bind m f w)) (snd (bind n g v))"
    if wv: "agree w v" for w v
  proof -
    from assms(1) wv have m: "fst (m w) = fst (n v)" "agree (snd (m w)) (snd (n v))"
      by (simp_all add: similar_def)
    show ?thesis
    proof (cases "fst (m w)")
      case (Inl e)
      with m show ?thesis by (cases "m w"; cases "n v") (simp add: bind_def)
    next
      case (Inr a)
      from assms(2) [of a] m(2)
      have "fst (f a (snd (m w))) = fst (g a (snd (n v)))
          \<and> agree (snd (f a (snd (m w)))) (snd (g a (snd (n v))))"
        by (simp add: similar_def)
      with Inr m(1) show ?thesis by (cases "m w"; cases "n v") (auto simp: bind_def)
    qed
  qed
  then show ?thesis by (simp add: similar_def)
qed

lemma similar_seq [similar_intros]:
  "similar m n \<Longrightarrow> similar x y \<Longrightarrow> similar (seq m x) (seq n y)"
  by (simp add: seq_def similar_bind)

lemma similar_if [similar_intros]:
  "(b \<Longrightarrow> similar x x') \<Longrightarrow> (\<not> b \<Longrightarrow> similar y y')
   \<Longrightarrow> similar (if b then x else y) (if b then x' else y')"
  by simp

lemma similar_block_Nil [similar_intros]: "similar (block []) (block [])"
  by (simp add: similar_return)

lemma similar_block_Cons [similar_intros]:
  "similar m n \<Longrightarrow> similar (block ms) (block ns) \<Longrightarrow> similar (block (m # ms)) (block (n # ns))"
  by (simp add: similar_seq)

lemma similar_print [similar_intros]: "similar (print a) (print b)"
  by (simp add: print_def similar_emit)

lemma similar_print_header [similar_intros]: "similar (print_header a) (print_header b)"
  by (simp add: print_header_def similar_emit)

lemma similar_print_success [similar_intros]: "similar (print_success a) (print_success b)"
  by (simp add: print_success_def similar_emit)

lemma similar_print_error [similar_intros]: "similar (print_error a) (print_error b)"
  by (simp add: print_error_def similar_emit)

lemma similar_print_warning [similar_intros]: "similar (print_warning a) (print_warning b)"
  by (simp add: print_warning_def similar_emit)

lemma similar_print_info [similar_intros]: "similar (print_info a) (print_info b)"
  by (simp add: print_info_def similar_emit)

lemma similar_get_input [similar_intros]: "similar (get_input q dflt) (get_input q dflt)"
  unfolding get_input_def Let_def by (intro similar_intros)

lemma similar_confirm_action [similar_intros]: "similar (confirm_action q) (confirm_action q)"
  unfolding confirm_action_def by (intro similar_intros)

lemma similar_press_enter [similar_intros]: "similar press_enter press_enter"
  unfolding press_enter_def by (intro similar_intros)

lemma similar_load_config [similar_intros]: "similar load_config load_config"
proof -
  let ?missing = "seq (print_error [Lit ''Configuration file not found: '', Path [''config.json'']])
      (sys_exit 1) :: pyval io"
  let ?invalid = "seq (print_error [Lit ''Invalid JSON in configuration file: '', Detail])
      (sys_exit 1) :: pyval io"
  have missing: "similar ?missing ?missing" and invalid: "similar ?invalid ?invalid"
    by (intro similar_intros)+
  have "fst (load_config w) = fst (load_config v) \<and> agree (snd (load_config w)) (snd (load_config v))"
    if wv: "agree w v" for w v
  proof -
    from wv have c: "config_file v = config_file w" by (rule agree_fields)
    from missing invalid wv show ?thesis
      by (simp add: load_config_def c similar_def split: option.splits sum.splits perr.splits)
  qed
  then show ?thesis by (simp add: similar_def)
qed

lemma similar_subprocess_run [similar_intros]: "similar (subprocess_run cmd) (subprocess_run cmd)"
proof -
  have "fst (subprocess_run cmd w) = fst (subprocess_run cmd v)
      \<and> agree (snd (subprocess_run cmd w)) (snd (subprocess_run cmd v))"
    if wv: "agree w v" for w v
    using wv agree_fields(5,6) [OF wv]
    by (simp add: subprocess_run_def agree_calls split: option.splits)
  then show ?thesis by (simp add: similar_def)
qed

lemma similar_run_powershell_command [similar_intros]:
  "similar (run_powershell_command command) (run_powershell_command command)"
  unfolding run_powershell_command_def Let_def by (intro similar_intros)

lemma similar_report [similar_intros]:
  "similar (report returncode ok failed) (report returncode ok failed)"
  unfolding report_def by (intro similar_intros)

text \<open>\<open>observed m w\<close>: the result of a run and the backend invocations on record after it.\<close>

definition observed :: "'a io \<Rightarrow> world \<Rightarrow> (exc + 'a) \<times> invocation list" where
  "observed m w = (fst (m w), calls (snd (m w)))"

lemma similar_observed:
  assumes "similar m n" and "agree w v"
  shows "observed m w = observed n v"
proof -
  from assms have "fst (m w) = fst (n v)" and "agree (snd (m w)) (snd (n v))"
    by (simp_all add: similar_def)
  from this(1) agree_fields(6) [OF this(2)] show ?thesis by (simp add: observed_def)
qed

lemma observed_invoked:
  "observed m w = observed n v \<Longrightarrow> calls w = calls v
   \<Longrightarrow> invoked m w = invoked n v \<and> result m w = result n v"
  by (simp add: observed_def invoked_def result_def)

text \<open>\<open>prints m\<close>: the function returns after it has only written.\<close>

definition prints :: "unit io \<Rightarrow> bool" where
  "prints m = (\<forall>w. \<exists>evs. m w = (Inr (), w\<lparr>out := out w @ evs\<rparr>))"

lemma prints_emit [simp]: "prints (emit e)"
  unfolding prints_def emit_def by auto

lemma prints_return [simp]: "prints (return ())"
  unfolding prints_def return_def by (auto intro: exI [of _ "[]"])

lemma prints_seq [simp]:
  assumes "prints m" and "prints n"
  shows "prints (seq m n)"
proof -
  have "\<exists>evs. seq m n w = (Inr (), w\<lparr>out := out w @ evs\<rparr>)" for w
  proof -
    from assms(1) obtain evs where m: "m w = (Inr (), w\<lparr>out := out w @ evs\<rparr>)"
      unfolding prints_def by blast
    from assms(2) obtain evs' where
      "n (w\<lparr>out := out w @ evs\<rparr>) = (Inr (), w\<lparr>out := out w @ evs\<rparr>\<lparr>out := out (w\<lparr>out := out w @ evs\<rparr>) @ evs'\<rparr>)"
      unfolding prints_def by blast
    with m have "seq m n w = (Inr (), w\<lparr>out := out w @ (evs @ evs')\<rparr>)"
      by (simp add: seq_def bind_def)
    then show ?thesis by blast
  qed
  then show ?thesis by (simp add: prints_def)
qed

lemma prints_print [simp]: "prints (print a)" "prints (print_header h)" "prints (print_error a)"
  "prints clear_screen"
  by (simp_all add: print_def print_header_def print_error_def clear_screen_def)

lemma prints_block [simp]: "list_all prints ms \<Longrightarrow> prints (block ms)"
  by (induction ms) simp_all

lemma prints_for_each [simp]: "prints (for_each (\<lambda>(k, x). print (g k x)) xs)"
  by (induction xs) (simp_all split: prod.splits)

lemma prints_display_template_menu [simp]: "prints display_template_menu"
  by (simp add: display_template_menu_def)

lemma prints_print_sizes [simp]: "prints print_sizes"
  by (simp add: print_sizes_def)

lemma observed_seq:
  assumes "prints m"
  shows "observed (seq m n) w = observed n (w\<lparr>out := out (snd (m w))\<rparr>)"
proof -
  from assms obtain evs where "m w = (Inr (), w\<lparr>out := out w @ evs\<rparr>)"
    unfolding prints_def by blast
  then show ?thesis by (simp add: observed_def seq_def bind_def)
qed

lemma observed_prints:
  assumes "prints m"
  shows "observed m w = (Inr (), calls w)"
proof -
  from assms obtain evs where "m w = (Inr (), w\<lparr>out := out w @ evs\<rparr>)"
    unfolding prints_def by blast
  then show ?thesis by (simp add: observed_def)
qed

lemma observed_return: "observed (return a) w = (Inr a, calls w)"
  by (simp add: observed_def return_def)

lemma observed_get_input:
  "keys w = k # ks \<Longrightarrow>
   observed (bind (get_input q dflt) f) w =
     (case k of
        Line l \<Rightarrow> observed (f (entered dflt l))
                    (w\<lparr>keys := ks, out := out w @ [Input (prompt_of q dflt) l]\<rparr>)
      | CtrlC \<Rightarrow> (Inl KeyboardInterrupt, calls w))"
  by (cases k) (simp_all add: observed_def bind_def get_input_Line get_input_CtrlC)

lemma observed_press_enter:
  "keys w = k # ks \<Longrightarrow>
   observed press_enter w
     = (case k of Line l \<Rightarrow> (Inr (), calls w) | CtrlC \<Rightarrow> (Inl KeyboardInterrupt, calls w))"
  by (cases k) (simp_all add: observed_def press_enter_def bind_def input_def return_def)

lemmas observed_steps =
  observed_seq observed_prints observed_return observed_get_input observed_press_enter

lemma template_network_inputs:
  "observed deploy_vm_from_template
     (w\<lparr>keys := k1 # k2 # k3 # Line ip # Line netmask # Line gw # rest\<rparr>)
   = observed deploy_vm_from_template
       (w\<lparr>keys := k1 # k2 # k3 # Line ip' # Line netmask' # Line gw' # rest\<rparr>)"
  unfolding deploy_vm_from_template_def Let_def
  apply (simp add: observed_steps split: key.splits option.splits)
  apply (intro allI impI conjI)
  apply (rule similar_observed; (intro similar_intros)?; simp add: agree_def)+
  done

lemma standard_network_inputs:
  "observed deploy_standard_vm (w\<lparr>keys := k1 # k2 # k3 # Line ip # rest\<rparr>)
   = observed deploy_standard_vm (w\<lparr>keys := k1 # k2 # k3 # Line ip' # rest\<rparr>)"
  unfolding deploy_standard_vm_def Let_def
  apply (simp add: observed_steps split: key.splits option.splits)
  apply (intro allI impI conjI)
  apply (rule similar_observed; (intro similar_intros)?; simp add: agree_def)+
  done

text \<open>C10: two runs of a VM deployment function that differ only in the lines entered for the
  IP address (and, from a template, the subnet mask and the gateway) end with the same result
  and make the same backend invocations, whatever the other keys, the configuration file and
  the backend are.\<close>

theorem network_inputs_unused:
  "invoked deploy_vm_from_template
     (w\<lparr>keys := k1 # k2 # k3 # Line ip # Line netmask # Line gw # rest\<rparr>)
   = invoked deploy_vm_from_template
       (w\<lparr>keys := k1 # k2 # k3 # Line ip' # Line netmask' # Line gw' # rest\<rparr>)
   \<and> result deploy_vm_from_template
       (w\<lparr>keys := k1 # k2 # k3 # Line ip # Line netmask # Line gw # rest\<rparr>)
     = result deploy_vm_from_template
         (w\<lparr>keys := k1 # k2 # k3 # Line ip' # Line netmask' # Line gw' # rest\<rparr>)
   \<and> invoked deploy_standard_vm (w\<lparr>keys := k1 # k2 # k3 # Line ip # rest\<rparr>)
     = invoked deploy_standard_vm (w\<lparr>keys := k1 # k2 # k3 # Line ip' # rest\<rparr>)
   \<and> result deploy_standard_vm (w\<lparr>keys := k1 # k2 # k3 # Line ip # rest\<rparr>)
     = result deploy_standard_vm (w\<lparr>keys := k1 # k2 # k3 # Line ip' # rest\<rparr>)"
proof -
  let ?w = "w\<lparr>keys := k1 # k2 # k3 # Line ip # Line netmask # Line gw # rest\<rparr>"
  let ?w' = "w\<lparr>keys := k1 # k2 # k3 # Line ip' # Line netmask' # Line gw' # rest\<rparr>"
  let ?v = "w\<lparr>keys := k1 # k2 # k3 # Line ip # rest\<rparr>"
  let ?v' = "w\<lparr>keys := k1 # k2 # k3 # Line ip' # rest\<rparr>"
  have "observed deploy_vm_from_template ?w = observed deploy_vm_from_template ?w'"
    by (rule template_network_inputs)
  then have 1: "invoked deploy_vm_from_template ?w = invoked deploy_vm_from_template ?w'
      \<and> result deploy_vm_from_template ?w = result deploy_vm_from_template ?w'"
    by (rule observed_invoked) simp
  have "observed deploy_standard_vm ?v = observed deploy_standard_vm ?v'"
    by (rule standard_network_inputs)
  then have 2: "invoked deploy_standard_vm ?v = invoked deploy_standard_vm ?v'
      \<and> result deploy_standard_vm ?v = result deploy_standard_vm ?v'"
    by (rule observed_invoked) simp
  from 1 2 show ?thesis by simp
qed

subsection \<open>The configuration file written and read back\<close>

subsection \<open>Decoding what was encoded\<close>

lemma of_char_bound: "(of_char c :: nat) < 256"
proof -
  have "(of_char c :: nat) mod 256 < 256" by (rule mod_less_divisor) simp
  then show ?thesis by (simp only: of_char_mod_256)
qed

lemma hex_val_hex_char: "k < 16 \<Longrightarrow> hex_val (hex_char k) = Some k"
  by (simp add: hex_val_def hex_char_def Let_def)

lemma scanstring_escape: "scanstring acc (escape_char c @ rest) = scanstring (c # acc) rest"
proof -
  let ?n = "of_char c :: nat"
  have n: "?n < 256" by (rule of_char_bound)
  then have d: "?n div 16 < 16" by linarith
  have m: "?n mod 16 < 16" by simp
  have restore: "char_of (16 * (?n div 16) + ?n mod 16) = c" by simp
  have zero: "hex_val CHR ''0'' = Some 0" by (simp add: hex_val_def)
  show ?thesis
    unfolding escape_char_def
    by (simp add: hex_val_hex_char [OF d] hex_val_hex_char [OF m] zero restore)
qed

lemma scanstring_body:
  "scanstring acc (concat (map escape_char s) @ CHR 0x22 # rest) = Inr (rev acc @ s, rest)"
  by (induction s arbitrary: acc) (simp_all add: scanstring_escape)

lemma scanstring_encode:
  "\<exists>body. encode_string s @ rest = CHR 0x22 # body \<and> scanstring [] body = Inr (s, rest)"
  using scanstring_body [of "[]" s rest] by (simp add: encode_string_def)

text \<open>Integers.\<close>

lemma is_digit_digit_char: "n < 10 \<Longrightarrow> is_digit (digit_char n)"
  by (simp add: is_digit_def digit_char_def)

lemma digit_val_digit_char: "n < 10 \<Longrightarrow> digit_val (digit_char n) = n"
  by (simp add: digit_val_def digit_char_def)

lemma digits_digits: "list_all is_digit (digits n)"
  by (induction n rule: digits.induct) (subst digits.simps, simp add: is_digit_digit_char)

lemma digits_not_Nil: "digits n \<noteq> []"
  by (subst digits.simps) simp

lemma nat_of_digits_snoc: "nat_of_digits (ds @ [c]) = 10 * nat_of_digits ds + digit_val c"
  by (simp add: nat_of_digits_def)

lemma nat_of_digits_digits: "nat_of_digits (digits n) = n"
proof (induction n rule: digits.induct)
  case (1 n)
  show ?case
  proof (cases "n < 10")
    case True
    then show ?thesis
      by (subst digits.simps) (simp add: nat_of_digits_def digit_val_digit_char)
  next
    case False
    with 1 have "nat_of_digits (digits (n div 10)) = n div 10" by simp
    with False show ?thesis
      by (subst digits.simps) (simp add: nat_of_digits_snoc digit_val_digit_char)
  qed
qed

lemma hd_digits: "hd (digits n) = CHR ''0'' \<Longrightarrow> n = 0"
proof (induction n rule: digits.induct)
  case (1 n)
  show ?case
  proof (cases "n < 10")
    case True
    with "1.prems" have "digit_char n = CHR ''0''" by (subst (asm) digits.simps) simp
    then have "of_char (digit_char n) = (48 :: nat)" by simp
    with True show ?thesis by (simp add: digit_char_def)
  next
    case False
    with "1.prems" have "hd (digits (n div 10)) = CHR ''0''"
      by (subst (asm) digits.simps) (simp add: digits_not_Nil)
    with 1 False have "n div 10 = 0" by simp
    with False show ?thesis by simp
  qed
qed

text \<open>What follows a value in the output of \<^verbatim>\<open>json.dump\<close>: nothing, a comma or a new line.\<close>

definition follow :: "string \<Rightarrow> bool" where
  "follow rest = (case rest of [] \<Rightarrow> True | c # _ \<Rightarrow> c = CHR '','' \<or> c = CHR 0x0A)"

lemma follow_takeWhile: "follow rest \<Longrightarrow> takeWhile is_digit rest = []"
  by (cases rest) (auto simp: follow_def is_digit_def)

lemma follow_real_suffix: "follow rest \<Longrightarrow> \<not> real_suffix rest"
  by (cases rest) (auto simp: follow_def real_suffix_def split: list.splits)

lemma takeWhile_digits: "follow rest \<Longrightarrow> takeWhile is_digit (digits n @ rest) = digits n"
  using digits_digits [of n] by (simp add: takeWhile_append2 list_all_iff follow_takeWhile)

lemma dropWhile_digits: "follow rest \<Longrightarrow> dropWhile is_digit (digits n @ rest) = rest"
  using digits_digits [of n] follow_takeWhile [of rest]
  by (simp add: dropWhile_append2 list_all_iff takeWhile_eq_Nil_iff dropWhile_eq_self_iff)

lemma scan_int_part_digits:
  assumes "follow rest"
  shows "scan_int_part (digits n @ rest) = Some (n, rest)"
proof (cases "n = 0")
  case True
  have "digits 0 = ''0''" by code_simp
  with True show ?thesis by (simp add: scan_int_part_def)
next
  case False
  obtain c cs where cs: "digits n = c # cs" using digits_not_Nil [of n] by (cases "digits n") auto
  with hd_digits [of n] False have c0: "c \<noteq> CHR ''0''" by auto
  from cs digits_digits [of n] have dc: "is_digit c" by simp
  have "scan_int_part (digits n @ rest)
      = Some (nat_of_digits (takeWhile is_digit (digits n @ rest)),
              dropWhile is_digit (digits n @ rest))"
    using c0 dc by (simp add: scan_int_part_def cs)
  with assms show ?thesis by (simp add: takeWhile_digits dropWhile_digits nat_of_digits_digits)
qed

lemma digits_no_minus: "hd (digits n) \<noteq> CHR ''-''"
proof -
  obtain c cs where cs: "digits n = c # cs" using digits_not_Nil [of n] by (cases "digits n") auto
  with digits_digits [of n] have "is_digit c" by simp
  then have "c \<noteq> CHR ''-''" by (auto simp: is_digit_def)
  with cs show ?thesis by simp
qed

lemma scan_number_int_repr:
  assumes "follow rest"
  shows "scan_number (int_repr i @ rest) = Inr (PInt i, rest)"
proof (cases "i < 0")
  case True
  with assms show ?thesis
    by (simp add: scan_number_def int_repr_def scan_int_part_digits follow_real_suffix)
next
  case False
  obtain c cs where cs: "digits (nat i) = c # cs"
    using digits_not_Nil [of "nat i"] by (cases "digits (nat i)") auto
  with digits_no_minus [of "nat i"] have "c \<noteq> CHR ''-''" by simp
  then have neg: "(case digits (nat i) @ rest of [] \<Rightarrow> False | c # _ \<Rightarrow> c = CHR ''-'') = False"
    by (simp add: cs)
  from False assms show ?thesis
    by (simp add: scan_number_def int_repr_def neg scan_int_part_digits follow_real_suffix)
qed

lemma int_repr_hd: "\<exists>c cs. int_repr i = c # cs \<and> (is_digit c \<or> c = CHR ''-'')"
proof -
  obtain c cs where cs: "digits (nat i) = c # cs"
    using digits_not_Nil [of "nat i"] by (cases "digits (nat i)") auto
  with digits_digits [of "nat i"] have "is_digit c" by simp
  with cs show ?thesis by (simp add: int_repr_def)
qed

text \<open>A document as \<^verbatim>\<open>json.load\<close> builds it: no dictionary has a key twice.\<close>

fun unique_keys :: "pyval \<Rightarrow> bool"
  and unique_keys_items :: "pyval list \<Rightarrow> bool"
  and unique_keys_pairs :: "(string \<times> pyval) list \<Rightarrow> bool"
where
  "unique_keys (PList xs) = unique_keys_items xs"
| "unique_keys (PDict kvs) = (distinct (map fst kvs) \<and> unique_keys_pairs kvs)"
| "unique_keys PNone = True"
| "unique_keys (PBool b) = True"
| "unique_keys (PInt i) = True"
| "unique_keys (PStr s) = True"
| "unique_keys_items [] = True"
| "unique_keys_items (x # xs) = (unique_keys x \<and> unique_keys_items xs)"
| "unique_keys_pairs [] = True"
| "unique_keys_pairs (p # ps) = (unique_keys (snd p) \<and> unique_keys_pairs ps)"

text \<open>The number of nested calls the decoder makes on the encoding of a document.\<close>

fun need :: "pyval \<Rightarrow> nat"
  and need_items :: "pyval list \<Rightarrow> nat"
  and need_pairs :: "(string \<times> pyval) list \<Rightarrow> nat"
where
  "need (PList xs) = Suc (need_items xs)"
| "need (PDict kvs) = Suc (need_pairs kvs)"
| "need PNone = 1"
| "need (PBool b) = 1"
| "need (PInt i) = 1"
| "need (PStr s) = 1"
| "need_items [] = 0"
| "need_items (x # xs) = Suc (max (need x) (need_items xs))"
| "need_pairs [] = 0"
| "need_pairs (p # ps) = Suc (max (need (snd p)) (need_pairs ps))"

lemma skip_ws_spaces: "skip_ws (replicate n CHR '' '' @ s) = skip_ws s"
  by (induction n) (simp_all add: skip_ws_def ws_def)

lemma skip_ws_newline_indent: "skip_ws (newline_indent l @ s) = skip_ws s"
  using skip_ws_spaces [of "2 * l" s] by (simp add: newline_indent_def skip_ws_def ws_def)

lemma skip_ws_start: "\<not> ws c \<Longrightarrow> skip_ws (c # cs) = c # cs"
  by (simp add: skip_ws_def)

lemma skip_ws_Nil: "skip_ws [] = []"
  by (simp add: skip_ws_def)

lemma follow_newline_indent: "follow (newline_indent l @ s)"
  by (simp add: follow_def newline_indent_def)

lemma follow_comma: "follow (CHR '','' # s)"
  by (simp add: follow_def)

lemma follow_Nil: "follow []"
  by (simp add: follow_def)

text \<open>An encoding starts with a character that is neither white space nor a closing
  bracket.\<close>

definition opener :: "char \<Rightarrow> bool" where
  "opener c = (\<not> ws c \<and> c \<noteq> CHR '']'' \<and> c \<noteq> CHR ''}'')"

lemma opener_digit: "is_digit c \<or> c = CHR ''-'' \<Longrightarrow> opener c"
  by (auto simp: opener_def is_digit_def ws_def)

lemma dumps_hd: "\<exists>c cs. dumps level v = c # cs \<and> opener c"
proof (cases v)
  case (PInt i)
  with int_repr_hd [of i] show ?thesis by (auto simp: opener_digit)
qed (auto simp: opener_def ws_def encode_string_def)

lemma dumps_items_hd: "xs \<noteq> [] \<Longrightarrow> \<exists>c cs. dumps_items level xs = c # cs \<and> opener c"
  using dumps_hd [of level "hd xs"] by (cases xs) auto

lemma skip_ws_dumps: "skip_ws (dumps level v @ s) = dumps level v @ s"
  using dumps_hd [of level v] by (auto simp: opener_def skip_ws_start)

lemma skip_ws_dumps_items: "xs \<noteq> [] \<Longrightarrow> skip_ws (dumps_items level xs @ s) = dumps_items level xs @ s"
  using dumps_items_hd [of xs level] by (auto simp: opener_def skip_ws_start)

lemma scan_array_items:
  assumes "\<And>x fuel rest level. x \<in> set xs \<Longrightarrow> unique_keys x \<Longrightarrow> need x \<le> fuel \<Longrightarrow> follow rest
      \<Longrightarrow> scan_once fuel (dumps level x @ rest) = Inr (x, rest)"
    and "xs \<noteq> []" and "unique_keys_items xs" and "need_items xs \<le> fuel"
  shows "scan_array fuel acc (dumps_items level xs @ newline_indent l' @ CHR '']'' # rest)
         = Inr (PList (acc @ xs), rest)"
  using assms
proof (induction xs arbitrary: fuel acc)
  case Nil
  then show ?case by simp
next
  case (Cons x xs)
  from Cons.prems(4) obtain n where fuel: "fuel = Suc n" "need x \<le> n" "need_items xs \<le> n"
    by (cases fuel) auto
  from Cons.prems(3) have uk: "unique_keys x" "unique_keys_items xs" by simp_all
  show ?case
  proof (cases "xs = []")
    case True
    let ?tail = "newline_indent l' @ CHR '']'' # rest"
    have 1: "scan_once n (dumps level x @ ?tail) = Inr (x, ?tail)"
      using Cons.prems(1) [of x n ?tail level] fuel uk by (simp add: follow_newline_indent)
    have 2: "skip_ws ?tail = CHR '']'' # rest"
      by (simp add: skip_ws_newline_indent skip_ws_start ws_def)
    from True fuel 1 2 show ?thesis by simp
  next
    case False
    let ?more = "dumps_items level xs @ newline_indent l' @ CHR '']'' # rest"
    let ?tail = "CHR '','' # newline_indent level @ ?more"
    have 1: "scan_once n (dumps level x @ ?tail) = Inr (x, ?tail)"
      using Cons.prems(1) [of x n ?tail level] fuel uk by (simp add: follow_comma)
    have 2: "skip_ws ?tail = ?tail" by (simp add: skip_ws_start ws_def)
    have 3: "skip_ws (newline_indent level @ ?more) = ?more"
      using False by (simp add: skip_ws_newline_indent skip_ws_dumps_items)
    have 4: "scan_array n (acc @ [x]) ?more = Inr (PList ((acc @ [x]) @ xs), rest)"
      using Cons.prems(1) False uk fuel by (intro Cons.IH) simp_all
    from False fuel 1 2 3 4 show ?thesis by simp
  qed
qed

lemma dumps_pairs_hd:
  "kvs \<noteq> [] \<Longrightarrow> \<exists>cs. dumps_pairs level kvs = CHR 0x22 # cs"
  by (cases kvs; cases "hd kvs") (auto simp: encode_string_def)

lemma skip_ws_dumps_pairs:
  "kvs \<noteq> [] \<Longrightarrow> skip_ws (dumps_pairs level kvs @ s) = dumps_pairs level kvs @ s"
  using dumps_pairs_hd [of kvs level] by (auto simp: skip_ws_start ws_def)

lemma scan_object_pairs:
  assumes "\<And>p fuel rest level. p \<in> set kvs \<Longrightarrow> unique_keys (snd p) \<Longrightarrow> need (snd p) \<le> fuel
      \<Longrightarrow> follow rest \<Longrightarrow> scan_once fuel (dumps level (snd p) @ rest) = Inr (snd p, rest)"
    and "kvs \<noteq> []" and "unique_keys_pairs kvs" and "need_pairs kvs \<le> fuel"
  shows "scan_object fuel acc (dumps_pairs level kvs @ newline_indent l' @ CHR ''}'' # rest)
         = Inr (PDict (foldl (\<lambda>a p. dict_set a (fst p) (snd p)) acc kvs), rest)"
  using assms
proof (induction kvs arbitrary: fuel acc)
  case Nil
  then show ?case by simp
next
  case (Cons p kvs)
  obtain k v where p: "p = (k, v)" by (cases p)
  from Cons.prems(4) p obtain n where fuel: "fuel = Suc n" "need v \<le> n" "need_pairs kvs \<le> n"
    by (cases fuel) auto
  from Cons.prems(3) p have uk: "unique_keys v" "unique_keys_pairs kvs" by simp_all
  have colon: "skip_ws (CHR '':'' # s) = CHR '':'' # s" for s
    by (simp add: skip_ws_start ws_def)
  have space: "skip_ws (CHR '' '' # dumps level v @ s) = dumps level v @ s" for s
    using skip_ws_dumps [of level v s] by (simp add: skip_ws_def ws_def)
  show ?case
  proof (cases "kvs = []")
    case True
    let ?tail = "newline_indent l' @ CHR ''}'' # rest"
    have 1: "scan_once n (dumps level v @ ?tail) = Inr (v, ?tail)"
      using Cons.prems(1) [of p n ?tail level] fuel uk p by (simp add: follow_newline_indent)
    have 2: "skip_ws ?tail = CHR ''}'' # rest"
      by (simp add: skip_ws_newline_indent skip_ws_start ws_def)
    from True fuel p 1 2 show ?thesis
      by (simp add: encode_string_def scanstring_body colon space)
  next
    case False
    let ?more = "dumps_pairs level kvs @ newline_indent l' @ CHR ''}'' # rest"
    let ?tail = "CHR '','' # newline_indent level @ ?more"
    have 1: "scan_once n (dumps level v @ ?tail) = Inr (v, ?tail)"
      using Cons.prems(1) [of p n ?tail level] fuel uk p by (simp add: follow_comma)
    have 2: "skip_ws ?tail = ?tail" by (simp add: skip_ws_start ws_def)
    have 3: "skip_ws (newline_indent level @ ?more) = ?more"
      using False by (simp add: skip_ws_newline_indent skip_ws_dumps_pairs)
    have 4: "scan_object n (dict_set acc k v) ?more
        = Inr (PDict (foldl (\<lambda>a p. dict_set a (fst p) (snd p)) (dict_set acc k v) kvs), rest)"
      using Cons.prems(1) False uk fuel by (intro Cons.IH) simp_all
    from False fuel p 1 2 3 4 show ?thesis
      by (simp add: encode_string_def scanstring_body colon space)
  qed
qed

lemma dict_set_fresh: "k \<notin> fst ` set acc \<Longrightarrow> dict_set acc k v = acc @ [(k, v)]"
  by (induction acc) auto

lemma foldl_dict_set:
  "distinct (map fst (acc @ kvs))
   \<Longrightarrow> foldl (\<lambda>a p. dict_set a (fst p) (snd p)) acc kvs = acc @ kvs"
proof (induction kvs arbitrary: acc)
  case Nil
  then show ?case by simp
next
  case (Cons p kvs)
  from Cons.prems have fresh: "fst p \<notin> fst ` set acc" by auto
  from Cons.prems have "distinct (map fst ((acc @ [p]) @ kvs))" by simp
  then have "foldl (\<lambda>a p. dict_set a (fst p) (snd p)) (acc @ [p]) kvs = (acc @ [p]) @ kvs"
    by (rule Cons.IH)
  with fresh show ?case by (simp add: dict_set_fresh)
qed

lemma scan_once_dumps:
  "unique_keys v \<Longrightarrow> need v \<le> fuel \<Longrightarrow> follow rest
   \<Longrightarrow> scan_once fuel (dumps level v @ rest) = Inr (v, rest)"
proof (induction v arbitrary: fuel rest level)
  case PNone
  then obtain n where "fuel = Suc n" by (cases fuel) auto
  then show ?case by (simp add: starts_with_def)
next
  case (PBool b)
  then obtain n where "fuel = Suc n" by (cases fuel) auto
  then show ?case by (simp add: starts_with_def)
next
  case (PInt i)
  then obtain n where fuel: "fuel = Suc n" by (cases fuel) auto
  from int_repr_hd [of i] obtain c cs where c: "int_repr i = c # cs" "is_digit c \<or> c = CHR ''-''"
    by blast
  from c(2) have "c \<noteq> CHR 0x22" "c \<noteq> CHR ''{''" "c \<noteq> CHR ''[''" "c \<noteq> CHR ''n''"
    "c \<noteq> CHR ''t''" "c \<noteq> CHR ''f''"
    by (auto simp: is_digit_def)
  with fuel c(1) scan_number_int_repr [OF PInt.prems(3), of i] show ?case
    by (simp add: starts_with_def)
next
  case (PStr s)
  then obtain n where "fuel = Suc n" by (cases fuel) auto
  then show ?case by (simp add: encode_string_def scanstring_body)
next
  case (PList xs)
  from PList.prems(2) obtain n where fuel: "fuel = Suc n" "need_items xs \<le> n"
    by (cases fuel) auto
  show ?case
  proof (cases "xs = []")
    case True
    with fuel show ?thesis by (simp add: skip_ws_start ws_def)
  next
    case False
    let ?body = "dumps_items (Suc level) xs @ newline_indent level @ CHR '']'' # rest"
    from dumps_items_hd [OF False, of "Suc level"] obtain c cs where
      c: "dumps_items (Suc level) xs = c # cs" "opener c" by blast
    have 1: "skip_ws (newline_indent (Suc level) @ ?body) = ?body"
      using False by (simp add: skip_ws_newline_indent skip_ws_dumps_items)
    have 2: "scan_array n [] ?body = Inr (PList ([] @ xs), rest)"
      using PList.IH PList.prems(1) False fuel by (intro scan_array_items) simp_all
    from c have 3: "?body = c # cs @ newline_indent level @ CHR '']'' # rest" "c \<noteq> CHR '']''"
      by (simp_all add: opener_def)
    from 2 3(1) have 4: "scan_array n [] (c # cs @ newline_indent level @ CHR '']'' # rest)
        = Inr (PList xs, rest)" by simp
    from False fuel 1 3 4 show ?thesis by simp
  qed
next
  case (PDict kvs)
  from PDict.prems(2) obtain n where fuel: "fuel = Suc n" "need_pairs kvs \<le> n"
    by (cases fuel) auto
  from PDict.prems(1) have uk: "distinct (map fst kvs)" "unique_keys_pairs kvs" by simp_all
  show ?case
  proof (cases "kvs = []")
    case True
    with fuel show ?thesis by (simp add: skip_ws_start ws_def)
  next
    case False
    let ?body = "dumps_pairs (Suc level) kvs @ newline_indent level @ CHR ''}'' # rest"
    from dumps_pairs_hd [OF False, of "Suc level"] obtain cs where
      c: "dumps_pairs (Suc level) kvs = CHR 0x22 # cs" by blast
    have 1: "skip_ws (newline_indent (Suc level) @ ?body) = ?body"
      using False by (simp add: skip_ws_newline_indent skip_ws_dumps_pairs)
    have IH: "scan_once fuel (dumps level (snd p) @ rest) = Inr (snd p, rest)"
      if "p \<in> set kvs" "unique_keys (snd p)" "need (snd p) \<le> fuel" "follow rest"
      for p fuel rest level
      using that by (intro PDict.IH [of p "snd p"]) (cases p; simp)+
    have 2: "scan_object n [] ?body
        = Inr (PDict (foldl (\<lambda>a p. dict_set a (fst p) (snd p)) [] kvs), rest)"
      using IH uk False fuel by (intro scan_object_pairs) simp_all
    from uk(1) have 3: "foldl (\<lambda>a p. dict_set a (fst p) (snd p)) [] kvs = kvs"
      using foldl_dict_set [of "[]" kvs] by simp
    from c have 4: "?body = CHR 0x22 # cs @ newline_indent level @ CHR ''}'' # rest" by simp
    from 2 3 4 have 5: "scan_object n [] (CHR 0x22 # cs @ newline_indent level @ CHR ''}'' # rest)
        = Inr (PDict kvs, rest)" by simp
    from False fuel 1 4 5 show ?thesis by simp
  qed
qed

text \<open>The decoder is started with more fuel than the encoding needs.\<close>

lemma need_items_le:
  assumes "\<And>x level. x \<in> set xs \<Longrightarrow> need x \<le> length (dumps level x)"
  shows "need_items xs \<le> Suc (length (dumps_items level xs))"
  using assms
proof (induction xs)
  case Nil
  then show ?case by simp
next
  case (Cons x xs)
  from Cons.prems have x: "need x \<le> length (dumps level x)" by simp
  from Cons have xs: "need_items xs \<le> Suc (length (dumps_items level xs))" by simp
  from x xs show ?case by (simp add: newline_indent_def)
qed

lemma need_pairs_le:
  assumes "\<And>p level. p \<in> set kvs \<Longrightarrow> need (snd p) \<le> length (dumps level (snd p))"
  shows "need_pairs kvs \<le> Suc (length (dumps_pairs level kvs))"
  using assms
proof (induction kvs)
  case Nil
  then show ?case by simp
next
  case (Cons p kvs)
  obtain k v where p: "p = (k, v)" by (cases p)
  from Cons.prems [of p level] p have x: "need v \<le> length (dumps level v)" by simp
  from Cons have xs: "need_pairs kvs \<le> Suc (length (dumps_pairs level kvs))" by simp
  from x xs p show ?case by (simp add: newline_indent_def)
qed

lemma need_le: "need v \<le> length (dumps level v)"
proof (induction v arbitrary: level)
  case (PInt i)
  from int_repr_hd [of i] show ?case by auto
next
  case (PList xs)
  from need_items_le [of xs "Suc level"] PList.IH
  have "need_items xs \<le> Suc (length (dumps_items (Suc level) xs))" by simp
  then show ?case by (simp add: newline_indent_def)
next
  case (PDict kvs)
  have "need (snd p) \<le> length (dumps level (snd p))" if "p \<in> set kvs" for p level
    using that by (intro PDict.IH [of p "snd p"]) (cases p; simp)+
  from need_pairs_le [of kvs "Suc level"] this
  have "need_pairs kvs \<le> Suc (length (dumps_pairs (Suc level) kvs))" by simp
  then show ?case by (simp add: newline_indent_def)
qed (simp_all add: encode_string_def)

lemma json_loads_json_dumps: "unique_keys v \<Longrightarrow> json_loads (json_dumps v) = Inr v"
  using scan_once_dumps [of v "Suc (length (dumps 0 v))" "[]" 0] need_le [of v 0]
    skip_ws_dumps [of 0 v "[]"]
  by (simp add: json_loads_def json_dumps_def follow_Nil skip_ws_Nil)

text \<open>What the decoder returns has no dictionary with a key twice.\<close>

lemma dict_set_keys: "distinct (map fst acc) \<Longrightarrow> distinct (map fst (dict_set acc k v))"
proof (induction acc)
  case Nil
  then show ?case by simp
next
  case (Cons p acc)
  have "fst ` set (dict_set acc k v) = insert k (fst ` set acc)" for acc
    by (induction acc) auto
  with Cons show ?case by auto
qed

lemma dict_set_unique_keys: "unique_keys_pairs acc \<Longrightarrow> unique_keys v \<Longrightarrow> unique_keys_pairs (dict_set acc k v)"
  by (induction acc) auto

lemma unique_keys_items_snoc: "unique_keys_items acc \<Longrightarrow> unique_keys v \<Longrightarrow> unique_keys_items (acc @ [v])"
  by (induction acc) auto

lemma scan_number_unique_keys: "scan_number s = Inr (v, r) \<Longrightarrow> unique_keys v"
  by (auto simp: scan_number_def Let_def split: option.splits if_splits)

lemma scan_unique_keys:
  "(\<forall>s v r. scan_once n s = Inr (v, r) \<longrightarrow> unique_keys v)
   \<and> (\<forall>acc s v r. scan_array n acc s = Inr (v, r) \<longrightarrow> unique_keys_items acc \<longrightarrow> unique_keys v)
   \<and> (\<forall>acc s v r. scan_object n acc s = Inr (v, r) \<longrightarrow> distinct (map fst acc)
         \<longrightarrow> unique_keys_pairs acc \<longrightarrow> unique_keys v)"
proof (induction n)
  case 0
  show ?case by simp
next
  case (Suc n)
  then have once: "\<And>s v r. scan_once n s = Inr (v, r) \<Longrightarrow> unique_keys v"
    and array: "\<And>acc s v r. scan_array n acc s = Inr (v, r) \<Longrightarrow> unique_keys_items acc \<Longrightarrow> unique_keys v"
    and object: "\<And>acc s v r. scan_object n acc s = Inr (v, r) \<Longrightarrow> distinct (map fst acc)
         \<Longrightarrow> unique_keys_pairs acc \<Longrightarrow> unique_keys v"
    by blast+
  have 1: "unique_keys v" if "scan_once (Suc n) s = Inr (v, r)" for s v r
    using that array [of "[]" _ v r] object [of "[]" _ v r] scan_number_unique_keys [of s v r]
    by (auto split: list.splits if_splits sum.splits prod.splits)
  have 2: "unique_keys v" if "scan_array (Suc n) acc s = Inr (v, r)" "unique_keys_items acc" for acc s v r
    using that once array [of "acc @ [_]" _ v r]
    by (auto split: list.splits if_splits sum.splits prod.splits simp: unique_keys_items_snoc)
  have 3: "unique_keys v" if "scan_object (Suc n) acc s = Inr (v, r)" "distinct (map fst acc)"
    "unique_keys_pairs acc" for acc s v r
    using that once object [of "dict_set acc _ _" _ v r]
    by (auto split: list.splits if_splits sum.splits prod.splits
          simp: dict_set_keys dict_set_unique_keys)
  from 1 2 3 show ?case by blast
qed

lemma json_loads_unique_keys:
  assumes "json_loads s = Inr v"
  shows "unique_keys v"
proof -
  from assms obtain r where "scan_once (Suc (length s)) (skip_ws s) = Inr (v, r)"
    unfolding json_loads_def
    by (auto simp del: scan_once.simps split: sum.splits prod.splits if_splits)
  with scan_unique_keys [of "Suc (length s)"] show ?thesis by blast
qed

lemma json_round_trip: "json_loads s = Inr v \<Longrightarrow> json_loads (json_dumps v) = Inr v"
  by (simp add: json_loads_unique_keys json_loads_json_dumps)

text \<open>Loading never changes the world when it succeeds, and it succeeds only on a file
  that decodes.\<close>

lemma load_config_Inr:
  assumes "load_config w = (Inr config, w')"
  shows "\<exists>content. config_file w = Some content \<and> json_loads content = Inr config"
  using assms
  by (auto simp: load_config_def seq_def bind_def print_error_def emit_def sys_exit_def
        raise_def split: option.splits sum.splits perr.splits)

definition sample_config :: string where
  \<open>sample_config =
     ''{"vcenter": {"server": "vc01", "port": 443}, "hosts": ["esx-a", "esx-b"], ''
     @ ''"ha": true, "note": null}''\<close>

definition sample_document :: pyval where
  "sample_document =
     PDict [(''vcenter'', PDict [(''server'', PStr ''vc01''), (''port'', PInt 443)]),
            (''hosts'', PList [PStr ''esx-a'', PStr ''esx-b'']),
            (''ha'', PBool True), (''note'', PNone)]"

lemma sample_config_loads: "json_loads sample_config = Inr sample_document"
  by (simp add: sample_config_def sample_document_def json_defs nat_of_digits_def
        is_digit_def digit_val_def real_suffix_def)

text \<open>C6: when \<^verbatim>\<open>load_config\<close> returns a document, \<^verbatim>\<open>save_config\<close> of that document
  returns, and \<^verbatim>\<open>load_config\<close> of the file it has written returns the same document.
  (Numbers are integers here; a file with a real-number literal is outside the model.)\<close>

theorem config_round_trip:
  assumes "load_config w = (Inr config, w')"
  shows "result (save_config config) w' = Inr ()
    \<and> result load_config (snd (save_config config w')) = Inr config"
proof -
  from load_config_Inr [OF assms] obtain content where "json_loads content = Inr config"
    by blast
  then have "json_loads (json_dumps config) = Inr config" by (rule json_round_trip)
  then show ?thesis by (simp add: result_def save_config_def load_config_def)
qed

theorem config_round_trip_witness:
  "load_config (console [] (Some sample_config) (\<lambda>_ _. Some 0))
     = (Inr sample_document, console [] (Some sample_config) (\<lambda>_ _. Some 0))
   \<and> result load_config
       (snd (save_config sample_document (console [] (Some sample_config) (\<lambda>_ _. Some 0))))
     = Inr sample_document"
proof -
  have 1: "load_config (console [] (Some sample_config) (\<lambda>_ _. Some 0))
      = (Inr sample_document, console [] (Some sample_config) (\<lambda>_ _. Some 0))"
    by (simp add: load_config_def console_def sample_config_loads)
  from config_round_trip [OF 1] 1 show ?thesis by simp
qed

end
